theory Spec2Isabelle
  imports Main "HOL-Library.Monad_Syntax"
begin

section \<open>Data model of \<open>BoardState\<close>\<close>

text \<open>
  The engine is the JavaScript closure \<open>BoardState\<close>. Its pieces are the two-character
  strings \<open>"wp"\<close>, \<open>"bk"\<close>, ... and \<open>"ee"\<close> for an empty square; they form a closed
  enumeration, which is modelled as a datatype together with the string each value stands
  for. Squares are two-character strings (\<open>"e4"\<close>) and stay strings. The position is the
  array of eight files, each an array of eight ranks.

  A computation that may throw a \<open>TypeError\<close> (indexing \<open>undefined\<close>) has an
  \<open>option\<close> result, \<open>None\<close> being the thrown exception. An array read that may yield
  \<open>undefined\<close> has a \<open>js\<close> result.
\<close>

datatype piece = EE | WP | WR | WN | WB | WQ | WK | BP | BR | BN | BB | BQ | BK

fun pieceStr :: "piece \<Rightarrow> string" where
  "pieceStr EE = ''ee''"
| "pieceStr WP = ''wp''"
| "pieceStr WR = ''wr''"
| "pieceStr WN = ''wn''"
| "pieceStr WB = ''wb''"
| "pieceStr WQ = ''wq''"
| "pieceStr WK = ''wk''"
| "pieceStr BP = ''bp''"
| "pieceStr BR = ''br''"
| "pieceStr BN = ''bn''"
| "pieceStr BB = ''bb''"
| "pieceStr BQ = ''bq''"
| "pieceStr BK = ''bk''"

datatype 'a js = Undefined | Def 'a

datatype outcome = Executed | Rejected | Threw

record BoardState =
  position :: "piece list list"
  activeColor :: char
  blackCastleKingsideAvailable :: bool
  blackCastleQueensideAvailable :: bool
  whiteCastleKingsideAvailable :: bool
  whiteCastleQueensideAvailable :: bool
  twoSquarePawnMove :: string
  numberOfHalfMoves :: nat
  numberOfFullMoves :: nat
  blackKingSquare :: string
  whiteKingSquare :: string

definition initialPosition :: "piece list list" where
  "initialPosition =
    [[WR, WP, EE, EE, EE, EE, BP, BR],
     [WN, WP, EE, EE, EE, EE, BP, BN],
     [WB, WP, EE, EE, EE, EE, BP, BB],
     [WQ, WP, EE, EE, EE, EE, BP, BQ],
     [WK, WP, EE, EE, EE, EE, BP, BK],
     [WB, WP, EE, EE, EE, EE, BP, BB],
     [WN, WP, EE, EE, EE, EE, BP, BN],
     [WR, WP, EE, EE, EE, EE, BP, BR]]"

definition initialState :: BoardState where
  "initialState =
    \<lparr> position = initialPosition,
      activeColor = CHR ''w'',
      blackCastleKingsideAvailable = True,
      blackCastleQueensideAvailable = True,
      whiteCastleKingsideAvailable = True,
      whiteCastleQueensideAvailable = True,
      twoSquarePawnMove = ''-'',
      numberOfHalfMoves = 0,
      numberOfFullMoves = 0,
      blackKingSquare = ''e8'',
      whiteKingSquare = ''e1'' \<rparr>"

subsection \<open>Reading the position array\<close>

text \<open>
  \<open>position[f][r]\<close>: when \<open>position[f]\<close> is \<open>undefined\<close> the second index throws;
  otherwise an index outside the inner array yields \<open>undefined\<close>.
\<close>

definition posAt :: "piece list list \<Rightarrow> int \<Rightarrow> int \<Rightarrow> piece js option" where
  "posAt p f r =
    (if 0 \<le> f \<and> f < int (length p)
     then Some (if 0 \<le> r \<and> r < int (length (p ! nat f))
                then Def (p ! nat f ! nat r) else Undefined)
     else None)"

text \<open>\<open>v[0]\<close> and \<open>v[1]\<close> for a piece value \<open>v\<close>; on \<open>undefined\<close> they throw.\<close>

definition idx0 :: "piece js \<Rightarrow> char option" where
  "idx0 v = (case v of Undefined \<Rightarrow> None | Def q \<Rightarrow> Some (pieceStr q ! 0))"

definition idx1 :: "piece js \<Rightarrow> char option" where
  "idx1 v = (case v of Undefined \<Rightarrow> None | Def q \<Rightarrow> Some (pieceStr q ! 1))"

text \<open>\<open>position[f][r] === "ee"\<close>\<close>

definition isEmptyAt :: "piece list list \<Rightarrow> int \<Rightarrow> int \<Rightarrow> bool option" where
  "isEmptyAt p f r = do { v \<leftarrow> posAt p f r; Some (v = Def EE) }"

text \<open>\<open>position[f][r][0] === piece[0]\<close>\<close>

definition sameColorAt :: "piece list list \<Rightarrow> int \<Rightarrow> int \<Rightarrow> piece js \<Rightarrow> bool option" where
  "sameColorAt p f r piece =
     do { v \<leftarrow> posAt p f r; a \<leftarrow> idx0 v; b \<leftarrow> idx0 piece; Some (a = b) }"

text \<open>\<open>position[f][r] !== "ee" && position[f][r][0] !== piece[0]\<close>\<close>

definition enemyAt :: "piece list list \<Rightarrow> int \<Rightarrow> int \<Rightarrow> piece js \<Rightarrow> bool option" where
  "enemyAt p f r piece =
     do { v \<leftarrow> posAt p f r;
          if v \<noteq> Def EE
          then do { w \<leftarrow> posAt p f r; a \<leftarrow> idx0 w; b \<leftarrow> idx0 piece; Some (a \<noteq> b) }
          else Some False }"

subsection \<open>Squares\<close>

text \<open>
  Decimal rendering of a number, as string concatenation with a number produces it.
\<close>

function showNat :: "nat \<Rightarrow> string" where
  "showNat n = (if n < 10 then [char_of (48 + n)]
                else showNat (n div 10) @ [char_of (48 + n mod 10)])"
  by pat_completeness auto
termination
  by (relation "measure id") auto

definition showInt :: "int \<Rightarrow> string" where
  "showInt i = (if i < 0 then CHR ''-'' # showNat (nat (- i)) else showNat (nat i))"

text \<open>
  \<open>square.charCodeAt(0) - 97\<close> and \<open>parseInt(square[1]) - 1\<close>. The engine documents
  every square parameter as valid square coordinates (file letter \<open>a\<close> to \<open>h\<close>, rank
  digit \<open>1\<close> to \<open>8\<close>); on a digit character \<open>parseInt\<close> is the digit's value.
\<close>

definition fileFromSquare :: "string \<Rightarrow> int" where
  "fileFromSquare square = int (of_char (square ! 0)) - 97"

definition rankFromSquare :: "string \<Rightarrow> int" where
  "rankFromSquare square = (int (of_char (square ! 1)) - 48) - 1"

definition squareFromFileRank :: "int \<Rightarrow> int \<Rightarrow> string" where
  "squareFromFileRank file rank = char_of (97 + file) # showInt (rank + 1)"

definition validSquare :: "string \<Rightarrow> bool" where
  "validSquare square =
     (length square = 2 \<and> square ! 0 \<in> set ''abcdefgh'' \<and> square ! 1 \<in> set ''12345678'')"

definition getPieceOnSquare' :: "BoardState \<Rightarrow> string \<Rightarrow> piece js option" where
  "getPieceOnSquare' s square =
     (let file = fileFromSquare square; rank = rankFromSquare square
      in posAt (position s) file rank)"

text \<open>
  \<open>position[file][rank] = piece\<close>. Every call of the engine passes a square whose
  coordinates lie on the board (lemmas below), where the assignment replaces one element.
\<close>

definition setPieceOnSquare :: "piece list list \<Rightarrow> string \<Rightarrow> piece \<Rightarrow> piece list list" where
  "setPieceOnSquare p square piece =
     (let file = fileFromSquare square; rank = rankFromSquare square
      in p[nat file := (p ! nat file)[nat rank := piece]])"

text \<open>The shape every position array of the engine has: eight files of eight ranks.\<close>

definition boardShape :: "piece list list \<Rightarrow> bool" where
  "boardShape p = (length p = 8 \<and> list_all (\<lambda>c. length c = 8) p)"

text \<open>\<open>position[f][r][0] !== piece[0]\<close>\<close>

definition diffColorAt :: "piece list list \<Rightarrow> int \<Rightarrow> int \<Rightarrow> piece js \<Rightarrow> bool option" where
  "diffColorAt p f r piece =
     do { v \<leftarrow> posAt p f r; a \<leftarrow> idx0 v; b \<leftarrow> idx0 piece; Some (a \<noteq> b) }"

declare Option.bind_cong [fundef_cong]

section \<open>Pseudo-legal move generation\<close>

subsection \<open>Pawn\<close>

definition whitePawnMoves ::
  "BoardState \<Rightarrow> int \<Rightarrow> int \<Rightarrow> piece js \<Rightarrow> string list option" where
  "whitePawnMoves s file rank piece =
    (let p = position s in
     do {
       two \<leftarrow> (if rank = 1
               then do { a \<leftarrow> isEmptyAt p file (rank + 1);
                         if a then isEmptyAt p file (rank + 2) else Some False }
               else Some False);
       let moves = (if two then [squareFromFileRank file (rank + 2)] else []);
       one \<leftarrow> (if rank < 7 then isEmptyAt p file (rank + 1) else Some False);
       let moves = (if one then moves @ [squareFromFileRank file (rank + 1)] else moves);
       let moves =
         (if rank = 4
          then (let moves =
                  (if file > 0 \<and> twoSquarePawnMove s = squareFromFileRank (file - 1) rank
                   then moves @ [squareFromFileRank (file - 1) (rank + 1)] else moves)
                in (if file < 7 \<and> twoSquarePawnMove s = squareFromFileRank (file + 1) rank
                    then moves @ [squareFromFileRank (file + 1) (rank + 1)] else moves))
          else moves);
       left \<leftarrow> (if file > 0 then enemyAt p (file - 1) (rank + 1) piece else Some False);
       let moves = (if left then moves @ [squareFromFileRank (file - 1) (rank + 1)] else moves);
       right \<leftarrow> (if file < 7 then enemyAt p (file + 1) (rank + 1) piece else Some False);
       Some (if right then moves @ [squareFromFileRank (file + 1) (rank + 1)] else moves)
     })"

definition blackPawnMoves ::
  "BoardState \<Rightarrow> int \<Rightarrow> int \<Rightarrow> piece js \<Rightarrow> string list option" where
  "blackPawnMoves s file rank piece =
    (let p = position s in
     do {
       two \<leftarrow> (if rank = 6
               then do { a \<leftarrow> isEmptyAt p file (rank - 1);
                         if a then isEmptyAt p file (rank - 2) else Some False }
               else Some False);
       let moves = (if two then [squareFromFileRank file (rank - 2)] else []);
       one \<leftarrow> (if rank > 0 then isEmptyAt p file (rank - 1) else Some False);
       let moves = (if one then moves @ [squareFromFileRank file (rank - 1)] else moves);
       let moves =
         (if rank = 3
          then (let moves =
                  (if file > 0 \<and> twoSquarePawnMove s = squareFromFileRank (file - 1) rank
                   then moves @ [squareFromFileRank (file - 1) (rank - 1)] else moves)
                in (if file < 7 \<and> twoSquarePawnMove s = squareFromFileRank (file + 1) rank
                    then moves @ [squareFromFileRank (file + 1) (rank - 1)] else moves))
          else moves);
       left \<leftarrow> (if file > 0 then enemyAt p (file - 1) (rank - 1) piece else Some False);
       let moves = (if left then moves @ [squareFromFileRank (file - 1) (rank - 1)] else moves);
       right \<leftarrow> (if file < 7 then enemyAt p (file + 1) (rank - 1) piece else Some False);
       Some (if right then moves @ [squareFromFileRank (file + 1) (rank - 1)] else moves)
     })"

definition getPawnPseudoLegalMoves :: "BoardState \<Rightarrow> string \<Rightarrow> string list option" where
  "getPawnPseudoLegalMoves s square =
    (let file = fileFromSquare square; rank = rankFromSquare square in
     do {
       piece \<leftarrow> posAt (position s) file rank;
       if piece = Def EE then Some []
       else do {
         c \<leftarrow> idx0 piece;
         if c = CHR ''w'' then whitePawnMoves s file rank piece
         else blackPawnMoves s file rank piece }
     })"

subsection \<open>Rook and bishop rays\<close>

text \<open>
  One step of every ray loop: stop before a piece of the own colour, otherwise record the
  square and stop after a non-empty one. The result says whether the loop goes on.
\<close>

definition rayStep ::
  "piece list list \<Rightarrow> piece js \<Rightarrow> int \<Rightarrow> int \<Rightarrow> string list \<Rightarrow> (bool \<times> string list) option" where
  "rayStep p piece f r moves =
     do { own \<leftarrow> sameColorAt p f r piece;
          if own then Some (False, moves)
          else do { let moves = moves @ [squareFromFileRank f r];
                    v \<leftarrow> posAt p f r;
                    Some (v = Def EE, moves) } }"

function rookRight ::
  "piece list list \<Rightarrow> piece js \<Rightarrow> int \<Rightarrow> int \<Rightarrow> string list \<Rightarrow> string list option" where
  "rookRight p piece rank f moves =
     (if f < 8
      then (case rayStep p piece f rank moves of
              None \<Rightarrow> None
            | Some (go, moves') \<Rightarrow> if go then rookRight p piece rank (f + 1) moves' else Some moves')
      else Some moves)"
  by pat_completeness auto
termination
  by (relation "measure (\<lambda>(p, piece, rank, f, moves). nat (8 - f))") auto

function rookLeft ::
  "piece list list \<Rightarrow> piece js \<Rightarrow> int \<Rightarrow> int \<Rightarrow> string list \<Rightarrow> string list option" where
  "rookLeft p piece rank f moves =
     (if f \<ge> 0
      then (case rayStep p piece f rank moves of
              None \<Rightarrow> None
            | Some (go, moves') \<Rightarrow> if go then rookLeft p piece rank (f - 1) moves' else Some moves')
      else Some moves)"
  by pat_completeness auto
termination
  by (relation "measure (\<lambda>(p, piece, rank, f, moves). nat (f + 1))") auto

function rookUp ::
  "piece list list \<Rightarrow> piece js \<Rightarrow> int \<Rightarrow> int \<Rightarrow> string list \<Rightarrow> string list option" where
  "rookUp p piece file r moves =
     (if r < 8
      then (case rayStep p piece file r moves of
              None \<Rightarrow> None
            | Some (go, moves') \<Rightarrow> if go then rookUp p piece file (r + 1) moves' else Some moves')
      else Some moves)"
  by pat_completeness auto
termination
  by (relation "measure (\<lambda>(p, piece, file, r, moves). nat (8 - r))") auto

function rookDown ::
  "piece list list \<Rightarrow> piece js \<Rightarrow> int \<Rightarrow> int \<Rightarrow> string list \<Rightarrow> string list option" where
  "rookDown p piece file r moves =
     (if r \<ge> 0
      then (case rayStep p piece file r moves of
              None \<Rightarrow> None
            | Some (go, moves') \<Rightarrow> if go then rookDown p piece file (r - 1) moves' else Some moves')
      else Some moves)"
  by pat_completeness auto
termination
  by (relation "measure (\<lambda>(p, piece, file, r, moves). nat (r + 1))") auto

definition getRookPseudoLegalMoves :: "BoardState \<Rightarrow> string \<Rightarrow> string list option" where
  "getRookPseudoLegalMoves s square =
    (let file = fileFromSquare square; rank = rankFromSquare square; p = position s in
     do {
       piece \<leftarrow> posAt p file rank;
       if piece = Def EE then Some []
       else do {
         moves \<leftarrow> rookRight p piece rank (file + 1) [];
         moves \<leftarrow> rookLeft p piece rank (file - 1) moves;
         moves \<leftarrow> rookUp p piece file (rank + 1) moves;
         rookDown p piece file (rank - 1) moves }
     })"

function bishopUpRight ::
  "piece list list \<Rightarrow> piece js \<Rightarrow> int \<Rightarrow> int \<Rightarrow> string list \<Rightarrow> string list option" where
  "bishopUpRight p piece f r moves =
     (if f < 8 \<and> r < 8
      then (case rayStep p piece f r moves of
              None \<Rightarrow> None
            | Some (go, moves') \<Rightarrow>
                if go then bishopUpRight p piece (f + 1) (r + 1) moves' else Some moves')
      else Some moves)"
  by pat_completeness auto
termination
  by (relation "measure (\<lambda>(p, piece, f, r, moves). nat (8 - f))") auto

function bishopDownRight ::
  "piece list list \<Rightarrow> piece js \<Rightarrow> int \<Rightarrow> int \<Rightarrow> string list \<Rightarrow> string list option" where
  "bishopDownRight p piece f r moves =
     (if f < 8 \<and> r \<ge> 0
      then (case rayStep p piece f r moves of
              None \<Rightarrow> None
            | Some (go, moves') \<Rightarrow>
                if go then bishopDownRight p piece (f + 1) (r - 1) moves' else Some moves')
      else Some moves)"
  by pat_completeness auto
termination
  by (relation "measure (\<lambda>(p, piece, f, r, moves). nat (8 - f))") auto

function bishopDownLeft ::
  "piece list list \<Rightarrow> piece js \<Rightarrow> int \<Rightarrow> int \<Rightarrow> string list \<Rightarrow> string list option" where
  "bishopDownLeft p piece f r moves =
     (if f \<ge> 0 \<and> r \<ge> 0
      then (case rayStep p piece f r moves of
              None \<Rightarrow> None
            | Some (go, moves') \<Rightarrow>
                if go then bishopDownLeft p piece (f - 1) (r - 1) moves' else Some moves')
      else Some moves)"
  by pat_completeness auto
termination
  by (relation "measure (\<lambda>(p, piece, f, r, moves). nat (f + 1))") auto

function bishopUpLeft ::
  "piece list list \<Rightarrow> piece js \<Rightarrow> int \<Rightarrow> int \<Rightarrow> string list \<Rightarrow> string list option" where
  "bishopUpLeft p piece f r moves =
     (if f \<ge> 0 \<and> r < 8
      then (case rayStep p piece f r moves of
              None \<Rightarrow> None
            | Some (go, moves') \<Rightarrow>
                if go then bishopUpLeft p piece (f - 1) (r + 1) moves' else Some moves')
      else Some moves)"
  by pat_completeness auto
termination
  by (relation "measure (\<lambda>(p, piece, f, r, moves). nat (f + 1))") auto

definition getBishopPseudoLegalMoves :: "BoardState \<Rightarrow> string \<Rightarrow> string list option" where
  "getBishopPseudoLegalMoves s square =
    (let file = fileFromSquare square; rank = rankFromSquare square; p = position s in
     do {
       piece \<leftarrow> posAt p file rank;
       if piece = Def EE then Some []
       else do {
         moves \<leftarrow> bishopUpRight p piece (file + 1) (rank + 1) [];
         moves \<leftarrow> bishopDownRight p piece (file + 1) (rank - 1) moves;
         moves \<leftarrow> bishopDownLeft p piece (file - 1) (rank - 1) moves;
         bishopUpLeft p piece (file - 1) (rank + 1) moves }
     })"

definition getQueenPseudoLegalMoves :: "BoardState \<Rightarrow> string \<Rightarrow> string list option" where
  "getQueenPseudoLegalMoves s square =
     do { a \<leftarrow> getRookPseudoLegalMoves s square;
          b \<leftarrow> getBishopPseudoLegalMoves s square;
          Some (a @ b) }"

subsection \<open>Knight\<close>

text \<open>One guarded \<open>push\<close> of the knight: the bounds test, then the colour test.\<close>

definition jump ::
  "piece list list \<Rightarrow> piece js \<Rightarrow> bool \<Rightarrow> int \<Rightarrow> int \<Rightarrow> string list \<Rightarrow> string list option" where
  "jump p piece inside f r moves =
     (if inside
      then do { d \<leftarrow> diffColorAt p f r piece;
                Some (if d then moves @ [squareFromFileRank f r] else moves) }
      else Some moves)"

definition getKnightPseudoLegalMoves :: "BoardState \<Rightarrow> string \<Rightarrow> string list option" where
  "getKnightPseudoLegalMoves s square =
    (let file = fileFromSquare square; rank = rankFromSquare square; p = position s in
     do {
       piece \<leftarrow> posAt p file rank;
       if piece = Def EE then Some []
       else do {
         moves \<leftarrow> jump p piece (file > 0 \<and> rank < 6) (file - 1) (rank + 2) [];
         moves \<leftarrow> jump p piece (file < 7 \<and> rank < 6) (file + 1) (rank + 2) moves;
         moves \<leftarrow> jump p piece (file > 0 \<and> rank > 1) (file - 1) (rank - 2) moves;
         moves \<leftarrow> jump p piece (file < 7 \<and> rank > 1) (file + 1) (rank - 2) moves;
         moves \<leftarrow> jump p piece (file > 1 \<and> rank < 7) (file - 2) (rank + 1) moves;
         moves \<leftarrow> jump p piece (file < 6 \<and> rank < 7) (file + 2) (rank + 1) moves;
         moves \<leftarrow> jump p piece (file > 1 \<and> rank > 0) (file - 2) (rank - 1) moves;
         jump p piece (file < 6 \<and> rank > 0) (file + 2) (rank - 1) moves }
     })"

subsection \<open>King\<close>

text \<open>The double loop over \<open>i, j \<in> {-1, 0, 1}\<close>, in the order the loops run.\<close>

definition kingOffsets :: "(int \<times> int) list" where
  "kingOffsets = [(-1, -1), (-1, 0), (-1, 1), (0, -1), (0, 0), (0, 1), (1, -1), (1, 0), (1, 1)]"

fun kingLoop ::
  "piece list list \<Rightarrow> piece js \<Rightarrow> int \<Rightarrow> int \<Rightarrow> (int \<times> int) list \<Rightarrow> string list
     \<Rightarrow> string list option" where
  "kingLoop p piece file rank [] moves = Some moves"
| "kingLoop p piece file rank ((i, j) # rest) moves =
     (if i = 0 \<and> j = 0 then kingLoop p piece file rank rest moves
      else (let f = file - i; r = rank - j in
            case jump p piece (0 \<le> f \<and> f < 8 \<and> 0 \<le> r \<and> r < 8) f r moves of
              None \<Rightarrow> None
            | Some moves' \<Rightarrow> kingLoop p piece file rank rest moves'))"

text \<open>One castle offer: the colour, the right, and the empty squares between king and rook.\<close>

fun allEmpty :: "piece list list \<Rightarrow> (int \<times> int) list \<Rightarrow> bool option" where
  "allEmpty p [] = Some True"
| "allEmpty p ((f, r) # rest) =
     (case isEmptyAt p f r of
        None \<Rightarrow> None
      | Some e \<Rightarrow> if e then allEmpty p rest else Some False)"

definition castle ::
  "piece list list \<Rightarrow> piece js \<Rightarrow> char \<Rightarrow> bool \<Rightarrow> (int \<times> int) list \<Rightarrow> string \<Rightarrow> string list
     \<Rightarrow> string list option" where
  "castle p piece color available between target moves =
     do { c \<leftarrow> idx0 piece;
          if c = color \<and> available
          then do { e \<leftarrow> allEmpty p between;
                    Some (if e then moves @ [target] else moves) }
          else Some moves }"

definition getKingPseudoLegalMoves :: "BoardState \<Rightarrow> string \<Rightarrow> string list option" where
  "getKingPseudoLegalMoves s square =
    (let file = fileFromSquare square; rank = rankFromSquare square; p = position s in
     do {
       piece \<leftarrow> posAt p file rank;
       if piece = Def EE then Some []
       else do {
         moves \<leftarrow> kingLoop p piece file rank kingOffsets [];
         moves \<leftarrow> castle p piece (CHR ''w'') (whiteCastleQueensideAvailable s)
                    [(1, 0), (2, 0), (3, 0)] (squareFromFileRank 2 0) moves;
         moves \<leftarrow> castle p piece (CHR ''w'') (whiteCastleKingsideAvailable s)
                    [(5, 0), (6, 0)] (squareFromFileRank 6 0) moves;
         moves \<leftarrow> castle p piece (CHR ''b'') (blackCastleQueensideAvailable s)
                    [(1, 7), (2, 7), (3, 7)] (squareFromFileRank 2 7) moves;
         castle p piece (CHR ''b'') (blackCastleKingsideAvailable s)
                    [(5, 7), (6, 7)] (squareFromFileRank 6 7) moves }
     })"

subsection \<open>Dispatch\<close>

definition getPseudoLegalMoves :: "BoardState \<Rightarrow> string \<Rightarrow> string list option" where
  "getPseudoLegalMoves s square =
     do { piece \<leftarrow> getPieceOnSquare' s square;
          if piece = Def EE then Some []
          else do {
            k \<leftarrow> idx1 piece;
            if k = CHR ''p'' then getPawnPseudoLegalMoves s square
            else if k = CHR ''r'' then getRookPseudoLegalMoves s square
            else if k = CHR ''n'' then getKnightPseudoLegalMoves s square
            else if k = CHR ''b'' then getBishopPseudoLegalMoves s square
            else if k = CHR ''q'' then getQueenPseudoLegalMoves s square
            else if k = CHR ''k'' then getKingPseudoLegalMoves s square
            else Some [] } }"

definition moveIsPseudoLegal :: "BoardState \<Rightarrow> string \<Rightarrow> string \<Rightarrow> bool option" where
  "moveIsPseudoLegal s fromSquare toSquare =
     do { moves \<leftarrow> getPseudoLegalMoves s fromSquare; Some (toSquare \<in> set moves) }"

section \<open>Move execution\<close>

text \<open>
  The bookkeeping of \<open>playPseudoLegalMove\<close> is split at the two places where the source
  indexes a piece value: \<open>fromPiece[1]\<close> (after the colour swap and the castling rights)
  and \<open>toPiece[0]\<close> (after the en-passant target and the full-move counter). A throw there
  leaves the assignments made so far in place.
\<close>

definition swapColor :: "BoardState \<Rightarrow> BoardState" where
  "swapColor s =
     s\<lparr>activeColor := (if activeColor s = CHR ''w'' then CHR ''b'' else CHR ''w'')\<rparr>"

definition updateCastling :: "string \<Rightarrow> string \<Rightarrow> BoardState \<Rightarrow> BoardState" where
  "updateCastling fromSquare toSquare s =
    (let s = (if fromSquare = ''a1'' \<or> toSquare = ''a1''
              then s\<lparr>whiteCastleQueensideAvailable := False\<rparr> else s);
         s = (if fromSquare = ''h1'' \<or> toSquare = ''h1''
              then s\<lparr>whiteCastleKingsideAvailable := False\<rparr> else s);
         s = (if fromSquare = ''e1'' \<or> toSquare = ''e1''
              then s\<lparr>whiteCastleQueensideAvailable := False,
                      whiteCastleKingsideAvailable := False\<rparr> else s);
         s = (if fromSquare = ''a8'' \<or> toSquare = ''a8''
              then s\<lparr>blackCastleQueensideAvailable := False\<rparr> else s);
         s = (if fromSquare = ''h8'' \<or> toSquare = ''h8''
              then s\<lparr>blackCastleKingsideAvailable := False\<rparr> else s)
     in (if fromSquare = ''e8'' \<or> toSquare = ''e8''
         then s\<lparr>blackCastleQueensideAvailable := False,
                 blackCastleKingsideAvailable := False\<rparr> else s))"

definition saveTwoSquarePawnMove :: "char \<Rightarrow> string \<Rightarrow> string \<Rightarrow> BoardState \<Rightarrow> BoardState" where
  "saveTwoSquarePawnMove kind fromSquare toSquare s =
     (if kind = CHR ''p'' \<and> \<bar>rankFromSquare fromSquare - rankFromSquare toSquare\<bar> > 1
      then s\<lparr>twoSquarePawnMove := toSquare\<rparr>
      else s\<lparr>twoSquarePawnMove := ''-''\<rparr>)"

definition updateKingSquare :: "piece \<Rightarrow> string \<Rightarrow> BoardState \<Rightarrow> BoardState" where
  "updateKingSquare fromPiece toSquare s =
    (let s = (if fromPiece = WK then s\<lparr>whiteKingSquare := toSquare\<rparr> else s)
     in (if fromPiece = BK then s\<lparr>blackKingSquare := toSquare\<rparr> else s))"

text \<open>
  Lines 512 to 516: the piece goes to the destination, the source is emptied, and when a
  pawn has changed its file the square \<open>toSquare[0] + fromSquare[1]\<close> is emptied.
\<close>

definition relocate :: "piece \<Rightarrow> string \<Rightarrow> string \<Rightarrow> piece list list \<Rightarrow> piece list list" where
  "relocate fromPiece fromSquare toSquare p =
    (let p = setPieceOnSquare p toSquare fromPiece;
         p = setPieceOnSquare p fromSquare EE
     in (if pieceStr fromPiece ! 1 = CHR ''p'' \<and> fromSquare ! 0 \<noteq> toSquare ! 0
         then setPieceOnSquare p [toSquare ! 0, fromSquare ! 1] EE else p))"

text \<open>
  Lines 518 to 525, once for \<open>("c", "a", "d")\<close> and once for \<open>("g", "h", "f")\<close>: when a
  king has gone to file \<open>kingFile\<close>, the piece on \<open>rookFile + toSquare[1]\<close> is written
  to \<open>newFile + toSquare[1]\<close> and its square is emptied. The read throws when the file
  array is missing; on an 8 by 8 array the value read is always a piece.
\<close>

definition moveRook ::
  "piece \<Rightarrow> string \<Rightarrow> char \<Rightarrow> char \<Rightarrow> char \<Rightarrow> piece list list \<Rightarrow> piece list list option" where
  "moveRook fromPiece toSquare kingFile rookFile newFile p =
    (if pieceStr fromPiece ! 1 = CHR ''k'' \<and> toSquare ! 0 = kingFile
     then (case posAt p (fileFromSquare [rookFile, toSquare ! 1])
                        (rankFromSquare [rookFile, toSquare ! 1]) of
             Some (Def rook) \<Rightarrow>
               Some (setPieceOnSquare (setPieceOnSquare p [newFile, toSquare ! 1] rook)
                       [rookFile, toSquare ! 1] EE)
           | _ \<Rightarrow> None)
     else Some p)"

definition updateHalfMoves :: "piece \<Rightarrow> piece \<Rightarrow> BoardState \<Rightarrow> BoardState" where
  "updateHalfMoves fromPiece toPiece s =
     (if (toPiece \<noteq> EE \<and> pieceStr fromPiece ! 0 \<noteq> pieceStr toPiece ! 0)
         \<or> pieceStr fromPiece ! 1 = CHR ''p''
      then s\<lparr>numberOfHalfMoves := 0\<rparr>
      else s\<lparr>numberOfHalfMoves := numberOfHalfMoves s + 1\<rparr>)"

definition playPseudoLegalMove :: "BoardState \<Rightarrow> string \<Rightarrow> string \<Rightarrow> outcome \<times> BoardState" where
  "playPseudoLegalMove s fromSquare toSquare =
    (case moveIsPseudoLegal s fromSquare toSquare of
       None \<Rightarrow> (Threw, s)
     | Some False \<Rightarrow> (Rejected, s)
     | Some True \<Rightarrow>
        (case getPieceOnSquare' s fromSquare of
           None \<Rightarrow> (Threw, s)
         | Some fromPiece \<Rightarrow>
        (case getPieceOnSquare' s toSquare of
           None \<Rightarrow> (Threw, s)
         | Some toPiece \<Rightarrow>
        (let s = swapColor s;
             s = updateCastling fromSquare toSquare s
         in case fromPiece of
              Undefined \<Rightarrow> (Threw, s)
            | Def fromPiece \<Rightarrow>
        (let s = saveTwoSquarePawnMove (pieceStr fromPiece ! 1) fromSquare toSquare s;
             s = s\<lparr>numberOfFullMoves := numberOfFullMoves s + 1\<rparr>
         in case toPiece of
              Undefined \<Rightarrow> (Threw, s)
            | Def toPiece \<Rightarrow>
        (let s = updateHalfMoves fromPiece toPiece s;
             s = updateKingSquare fromPiece toSquare s;
             s = s\<lparr>position := relocate fromPiece fromSquare toSquare (position s)\<rparr>
         in case moveRook fromPiece toSquare (CHR ''c'') (CHR ''a'') (CHR ''d'') (position s) of
              None \<Rightarrow> (Threw, s)
            | Some p \<Rightarrow>
        (let s = s\<lparr>position := p\<rparr>
         in case moveRook fromPiece toSquare (CHR ''g'') (CHR ''h'') (CHR ''f'') (position s) of
              None \<Rightarrow> (Threw, s)
            | Some p \<Rightarrow> (Executed, s\<lparr>position := p\<rparr>))))))))"

section \<open>Check detection and legal moves\<close>

text \<open>
  The nested loops \<open>for (file = 0; file < 8; file++) for (rank = 0; rank < 8; rank++)\<close>
  of \<open>kingIsInCheck\<close>, as a recursion on the two counters.
\<close>

function checkLoop :: "BoardState \<Rightarrow> char \<Rightarrow> string \<Rightarrow> int \<Rightarrow> int \<Rightarrow> bool option" where
  "checkLoop s color kingSquare file rank =
     (if file < 8
      then (if rank < 8
            then (case posAt (position s) file rank of
                    None \<Rightarrow> None
                  | Some piece \<Rightarrow>
                 (case idx0 piece of
                    None \<Rightarrow> None
                  | Some c \<Rightarrow>
                     if c = color \<or> piece = Def EE
                     then checkLoop s color kingSquare file (rank + 1)
                     else (case getPseudoLegalMoves s (squareFromFileRank file rank) of
                             None \<Rightarrow> None
                           | Some moves \<Rightarrow>
                               if kingSquare \<in> set moves then Some True
                               else checkLoop s color kingSquare file (rank + 1))))
            else checkLoop s color kingSquare (file + 1) 0)
      else Some False)"
  by pat_completeness auto
termination
  by (relation "measure (\<lambda>(s, color, kingSquare, file, rank). nat (8 - file) * 9 + nat (8 - rank))")
     auto

definition kingIsInCheck :: "BoardState \<Rightarrow> char \<Rightarrow> bool option" where
  "kingIsInCheck s color =
     (let kingSquare = (if color = CHR ''w'' then whiteKingSquare s else blackKingSquare s)
      in checkLoop s color kingSquare 0 0)"

text \<open>
  \<open>copy\<close> fills a fresh 8 by 8 array from \<open>position[file][rank]\<close> and passes every other
  variable on. On an 8 by 8 array each value read is a piece.
\<close>

definition copyCell :: "piece list list \<Rightarrow> int \<Rightarrow> int \<Rightarrow> piece option" where
  "copyCell p file rank = (case posAt p file rank of Some (Def q) \<Rightarrow> Some q | _ \<Rightarrow> None)"

definition copy :: "BoardState \<Rightarrow> BoardState option" where
  "copy s =
     do { newPosition \<leftarrow>
            those (map (\<lambda>file. those (map (\<lambda>rank. copyCell (position s) file rank) [0..7])) [0..7]);
          Some (s\<lparr>position := newPosition\<rparr>) }"

definition kingWouldBeInCheck :: "BoardState \<Rightarrow> char \<Rightarrow> string \<Rightarrow> string \<Rightarrow> bool option" where
  "kingWouldBeInCheck s color fromSquare toSquare =
     do { boardStateCopy \<leftarrow> copy s;
          case playPseudoLegalMove boardStateCopy fromSquare toSquare of
            (Threw, _) \<Rightarrow> None
          | (_, boardStateCopy) \<Rightarrow> kingIsInCheck boardStateCopy color }"

fun legalLoop :: "BoardState \<Rightarrow> string \<Rightarrow> string list \<Rightarrow> string list \<Rightarrow> string list option" where
  "legalLoop s square [] legalMoves = Some legalMoves"
| "legalLoop s square (toSquare # rest) legalMoves =
     (case kingWouldBeInCheck s (activeColor s) square toSquare of
        None \<Rightarrow> None
      | Some inCheck \<Rightarrow>
          legalLoop s square rest (if \<not> inCheck then legalMoves @ [toSquare] else legalMoves))"

definition getLegalMoves :: "BoardState \<Rightarrow> string \<Rightarrow> string list option" where
  "getLegalMoves s square =
     do { moves \<leftarrow> getPseudoLegalMoves s square; legalLoop s square moves [] }"

definition moveIsLegal :: "BoardState \<Rightarrow> string \<Rightarrow> string \<Rightarrow> bool option" where
  "moveIsLegal s fromSquare toSquare =
     do { moves \<leftarrow> getLegalMoves s fromSquare; Some (toSquare \<in> set moves) }"

definition playLegalMove :: "BoardState \<Rightarrow> string \<Rightarrow> string \<Rightarrow> outcome \<times> BoardState" where
  "playLegalMove s fromSquare toSquare =
    (case moveIsLegal s fromSquare toSquare of
       None \<Rightarrow> (Threw, s)
     | Some False \<Rightarrow> (Rejected, s)
     | Some True \<Rightarrow> playPseudoLegalMove s fromSquare toSquare)"

function hasMovesLoop :: "BoardState \<Rightarrow> char \<Rightarrow> int \<Rightarrow> int \<Rightarrow> bool option" where
  "hasMovesLoop s color file rank =
     (if file < 8
      then (if rank < 8
            then (case posAt (position s) file rank of
                    None \<Rightarrow> None
                  | Some piece \<Rightarrow>
                 (case idx0 piece of
                    None \<Rightarrow> None
                  | Some c \<Rightarrow>
                     if c \<noteq> color then hasMovesLoop s color file (rank + 1)
                     else (case getLegalMoves s (squareFromFileRank file rank) of
                             None \<Rightarrow> None
                           | Some moves \<Rightarrow>
                               if length moves > 0 then Some True
                               else hasMovesLoop s color file (rank + 1))))
            else hasMovesLoop s color (file + 1) 0)
      else Some False)"
  by pat_completeness auto
termination
  by (relation "measure (\<lambda>(s, color, file, rank). nat (8 - file) * 9 + nat (8 - rank))") auto

definition playerHasLegalMoves :: "BoardState \<Rightarrow> char \<Rightarrow> bool option" where
  "playerHasLegalMoves s color = hasMovesLoop s color 0 0"

definition isCheckmate :: "BoardState \<Rightarrow> bool option" where
  "isCheckmate s =
     do { has \<leftarrow> playerHasLegalMoves s (activeColor s);
          if \<not> has then kingIsInCheck s (activeColor s) else Some False }"

definition isStalemate :: "BoardState \<Rightarrow> bool option" where
  "isStalemate s =
     do { has \<leftarrow> playerHasLegalMoves s (activeColor s);
          if \<not> has then do { c \<leftarrow> kingIsInCheck s (activeColor s); Some (\<not> c) }
          else Some False }"

section \<open>Serialization\<close>

text \<open>The \<open>switch\<close> of \<open>getFENPieces\<close>; the case \<open>"ee"\<close> appends nothing.\<close>

fun fenPiece :: "piece \<Rightarrow> string" where
  "fenPiece WP = ''P''"
| "fenPiece WR = ''R''"
| "fenPiece WN = ''N''"
| "fenPiece WB = ''B''"
| "fenPiece WQ = ''Q''"
| "fenPiece WK = ''K''"
| "fenPiece BP = ''p''"
| "fenPiece BR = ''r''"
| "fenPiece BN = ''n''"
| "fenPiece BB = ''b''"
| "fenPiece BQ = ''q''"
| "fenPiece BK = ''k''"
| "fenPiece EE = []"

fun fenFiles ::
  "piece list list \<Rightarrow> int \<Rightarrow> int list \<Rightarrow> nat \<Rightarrow> string \<Rightarrow> (nat \<times> string) option" where
  "fenFiles p rank [] emptySquareCounter result = Some (emptySquareCounter, result)"
| "fenFiles p rank (file # rest) emptySquareCounter result =
     (case posAt p file rank of
        None \<Rightarrow> None
      | Some piece \<Rightarrow>
         (let flush = (piece \<noteq> Def EE \<and> emptySquareCounter > 0);
              result = (if flush then result @ showNat emptySquareCounter else result);
              emptySquareCounter = (if flush then 0 else emptySquareCounter)
          in case piece of
               Undefined \<Rightarrow> fenFiles p rank rest emptySquareCounter result
             | Def q \<Rightarrow>
                 if q = EE then fenFiles p rank rest (emptySquareCounter + 1) result
                 else fenFiles p rank rest emptySquareCounter (result @ fenPiece q)))"

text \<open>One pass of the outer loop: the files of one rank, the pending count, the slash.\<close>

definition fenRank :: "piece list list \<Rightarrow> int \<Rightarrow> string \<Rightarrow> string option" where
  "fenRank p rank result =
     (case fenFiles p rank [0, 1, 2, 3, 4, 5, 6, 7] 0 result of
        None \<Rightarrow> None
      | Some (emptySquareCounter, result) \<Rightarrow>
         (let result = (if emptySquareCounter > 0 then result @ showNat emptySquareCounter
                        else result)
          in Some (if rank > 0 then result @ ''/'' else result)))"

fun fenRanks :: "piece list list \<Rightarrow> int list \<Rightarrow> string \<Rightarrow> string option" where
  "fenRanks p [] result = Some result"
| "fenRanks p (rank # rest) result =
     (case fenRank p rank result of
        None \<Rightarrow> None
      | Some result' \<Rightarrow> fenRanks p rest result')"

definition getFENPieces :: "BoardState \<Rightarrow> string option" where
  "getFENPieces s = fenRanks (position s) [7, 6, 5, 4, 3, 2, 1, 0] []"

definition getFENCastling :: "BoardState \<Rightarrow> string" where
  "getFENCastling s =
    (let result = [];
         result = (if whiteCastleKingsideAvailable s then result @ ''K'' else result);
         result = (if whiteCastleQueensideAvailable s then result @ ''Q'' else result);
         result = (if blackCastleKingsideAvailable s then result @ ''k'' else result);
         result = (if blackCastleQueensideAvailable s then result @ ''q'' else result)
     in (if result = [] then ''-'' else result))"

definition getFEN :: "BoardState \<Rightarrow> string option" where
  "getFEN s =
     do { pieces \<leftarrow> getFENPieces s;
          Some (pieces @ '' '' @ [activeColor s] @ '' '' @ getFENCastling s @ '' ''
                @ twoSquarePawnMove s @ '' '' @ showNat (numberOfHalfMoves s) @ '' ''
                @ showNat (numberOfFullMoves s)) }"

section \<open>Sequences of calls\<close>

text \<open>
  The two move-execution operations of the public interface, and the state the engine is
  in after a sequence of such calls on a fresh \<open>BoardState\<close>.
\<close>

datatype call = PlayLegal string string | PlayPseudoLegal string string

fun perform :: "BoardState \<Rightarrow> call \<Rightarrow> BoardState" where
  "perform s (PlayLegal fromSquare toSquare) = snd (playLegalMove s fromSquare toSquare)"
| "perform s (PlayPseudoLegal fromSquare toSquare) =
     snd (playPseudoLegalMove s fromSquare toSquare)"

definition run :: "BoardState \<Rightarrow> call list \<Rightarrow> BoardState" where
  "run s calls = foldl perform s calls"

fun validCall :: "call \<Rightarrow> bool" where
  "validCall (PlayLegal fromSquare toSquare) = (validSquare fromSquare \<and> validSquare toSquare)"
| "validCall (PlayPseudoLegal fromSquare toSquare) =
     (validSquare fromSquare \<and> validSquare toSquare)"

inductive reachable :: "BoardState \<Rightarrow> bool" where
  initial: "reachable initialState"
| step: "reachable s \<Longrightarrow> validCall c \<Longrightarrow> reachable (perform s c)"

section \<open>Scenarios\<close>

text \<open>The four calls of Fool's Mate and the state they lead to.\<close>

definition foolsMateCalls :: "call list" where
  "foolsMateCalls =
     [PlayLegal ''f2'' ''f3'', PlayLegal ''e7'' ''e5'', PlayLegal ''g2'' ''g4'',
      PlayLegal ''d8'' ''h4'']"

definition foolsMateState :: BoardState where
  "foolsMateState =
    \<lparr> position =
        [[WR, WP, EE, EE, EE, EE, BP, BR],
         [WN, WP, EE, EE, EE, EE, BP, BN],
         [WB, WP, EE, EE, EE, EE, BP, BB],
         [WQ, WP, EE, EE, EE, EE, BP, EE],
         [WK, WP, EE, EE, BP, EE, EE, BK],
         [WB, EE, WP, EE, EE, EE, BP, BB],
         [WN, EE, EE, WP, EE, EE, BP, BN],
         [WR, WP, EE, BQ, EE, EE, BP, BR]],
      activeColor = CHR ''w'',
      blackCastleKingsideAvailable = True,
      blackCastleQueensideAvailable = True,
      whiteCastleKingsideAvailable = True,
      whiteCastleQueensideAvailable = True,
      twoSquarePawnMove = ''-'',
      numberOfHalfMoves = 1,
      numberOfFullMoves = 4,
      blackKingSquare = ''e8'',
      whiteKingSquare = ''e1'' \<rparr>"

text \<open>Both kings leave their home squares.\<close>

definition kingWalkCalls :: "call list" where
  "kingWalkCalls =
     [PlayLegal ''e2'' ''e4'', PlayLegal ''e7'' ''e5'', PlayLegal ''e1'' ''e2'',
      PlayLegal ''e8'' ''e7'']"

definition kingWalkState :: BoardState where
  "kingWalkState =
    \<lparr> position =
        [[WR, WP, EE, EE, EE, EE, BP, BR],
         [WN, WP, EE, EE, EE, EE, BP, BN],
         [WB, WP, EE, EE, EE, EE, BP, BB],
         [WQ, WP, EE, EE, EE, EE, BP, BQ],
         [EE, WK, EE, WP, BP, EE, BK, EE],
         [WB, WP, EE, EE, EE, EE, BP, BB],
         [WN, WP, EE, EE, EE, EE, BP, BN],
         [WR, WP, EE, EE, EE, EE, BP, BR]],
      activeColor = CHR ''w'',
      blackCastleKingsideAvailable = False,
      blackCastleQueensideAvailable = False,
      whiteCastleKingsideAvailable = False,
      whiteCastleQueensideAvailable = False,
      twoSquarePawnMove = ''-'',
      numberOfHalfMoves = 2,
      numberOfFullMoves = 4,
      blackKingSquare = ''e7'',
      whiteKingSquare = ''e2'' \<rparr>"

text \<open>The white king walks to d3 while Black advances the a-pawn to a4.\<close>

definition kingMarchCalls :: "call list" where
  "kingMarchCalls =
     [PlayLegal ''e2'' ''e4'', PlayLegal ''a7'' ''a5'', PlayLegal ''e1'' ''e2'',
      PlayLegal ''a5'' ''a4'', PlayLegal ''e2'' ''d3'', PlayLegal ''h7'' ''h6'']"

definition kingMarchState :: BoardState where
  "kingMarchState =
    \<lparr> position =
        [[WR, WP, EE, BP, EE, EE, EE, BR],
         [WN, WP, EE, EE, EE, EE, BP, BN],
         [WB, WP, EE, EE, EE, EE, BP, BB],
         [WQ, WP, WK, EE, EE, EE, BP, BQ],
         [EE, EE, EE, WP, EE, EE, BP, BK],
         [WB, WP, EE, EE, EE, EE, BP, BB],
         [WN, WP, EE, EE, EE, EE, BP, BN],
         [WR, WP, EE, EE, EE, BP, EE, BR]],
      activeColor = CHR ''w'',
      blackCastleKingsideAvailable = True,
      blackCastleQueensideAvailable = True,
      whiteCastleKingsideAvailable = False,
      whiteCastleQueensideAvailable = False,
      twoSquarePawnMove = ''-'',
      numberOfHalfMoves = 0,
      numberOfFullMoves = 6,
      blackKingSquare = ''e8'',
      whiteKingSquare = ''d3'' \<rparr>"

text \<open>White pawns on d4 and e4 face a black pawn on d5.\<close>

definition pawnTradeCalls :: "call list" where
  "pawnTradeCalls =
     [PlayLegal ''e2'' ''e4'', PlayLegal ''d7'' ''d5'', PlayLegal ''d2'' ''d4'',
      PlayLegal ''a7'' ''a6'']"

definition pawnTradeState :: BoardState where
  "pawnTradeState =
    \<lparr> position =
        [[WR, WP, EE, EE, EE, BP, EE, BR],
         [WN, WP, EE, EE, EE, EE, BP, BN],
         [WB, WP, EE, EE, EE, EE, BP, BB],
         [WQ, EE, EE, WP, BP, EE, EE, BQ],
         [WK, EE, EE, WP, EE, EE, BP, BK],
         [WB, WP, EE, EE, EE, EE, BP, BB],
         [WN, WP, EE, EE, EE, EE, BP, BN],
         [WR, WP, EE, EE, EE, EE, BP, BR]],
      activeColor = CHR ''w'',
      blackCastleKingsideAvailable = True,
      blackCastleQueensideAvailable = True,
      whiteCastleKingsideAvailable = True,
      whiteCastleQueensideAvailable = True,
      twoSquarePawnMove = ''-'',
      numberOfHalfMoves = 0,
      numberOfFullMoves = 4,
      blackKingSquare = ''e8'',
      whiteKingSquare = ''e1'' \<rparr>"

text \<open>A white pawn captures its way to a8.\<close>

definition lastRankCalls :: "call list" where
  "lastRankCalls =
     [PlayLegal ''a2'' ''a4'', PlayLegal ''b7'' ''b5'', PlayLegal ''a4'' ''b5'',
      PlayLegal ''a7'' ''a6'', PlayLegal ''b5'' ''a6'', PlayLegal ''c8'' ''b7'',
      PlayLegal ''a6'' ''b7'', PlayLegal ''h7'' ''h6'', PlayLegal ''b7'' ''a8'']"

definition lastRankState :: BoardState where
  "lastRankState =
    \<lparr> position =
        [[WR, EE, EE, EE, EE, EE, EE, WP],
         [WN, WP, EE, EE, EE, EE, EE, BN],
         [WB, WP, EE, EE, EE, EE, BP, EE],
         [WQ, WP, EE, EE, EE, EE, BP, BQ],
         [WK, WP, EE, EE, EE, EE, BP, BK],
         [WB, WP, EE, EE, EE, EE, BP, BB],
         [WN, WP, EE, EE, EE, EE, BP, BN],
         [WR, WP, EE, EE, EE, BP, EE, BR]],
      activeColor = CHR ''b'',
      blackCastleKingsideAvailable = True,
      blackCastleQueensideAvailable = False,
      whiteCastleKingsideAvailable = True,
      whiteCastleQueensideAvailable = True,
      twoSquarePawnMove = ''-'',
      numberOfHalfMoves = 0,
      numberOfFullMoves = 9,
      blackKingSquare = ''e8'',
      whiteKingSquare = ''e1'' \<rparr>"

text \<open>The white king has walked to d4, next to its pawn on e4 that attacks d5.\<close>

definition kingOnD4Calls :: "call list" where
  "kingOnD4Calls =
     [PlayLegal ''e2'' ''e4'', PlayLegal ''d7'' ''d5'', PlayLegal ''e1'' ''e2'',
      PlayLegal ''a7'' ''a6'', PlayLegal ''e2'' ''d3'', PlayLegal ''a6'' ''a5'',
      PlayLegal ''d3'' ''d4'', PlayLegal ''a5'' ''a4'']"

definition kingOnD4State :: BoardState where
  "kingOnD4State =
    \<lparr> position =
        [[WR, WP, EE, BP, EE, EE, EE, BR],
         [WN, WP, EE, EE, EE, EE, BP, BN],
         [WB, WP, EE, EE, EE, EE, BP, BB],
         [WQ, WP, EE, WK, BP, EE, EE, BQ],
         [EE, EE, EE, WP, EE, EE, BP, BK],
         [WB, WP, EE, EE, EE, EE, BP, BB],
         [WN, WP, EE, EE, EE, EE, BP, BN],
         [WR, WP, EE, EE, EE, EE, BP, BR]],
      activeColor = CHR ''w'',
      blackCastleKingsideAvailable = True,
      blackCastleQueensideAvailable = True,
      whiteCastleKingsideAvailable = False,
      whiteCastleQueensideAvailable = False,
      twoSquarePawnMove = ''-'',
      numberOfHalfMoves = 0,
      numberOfFullMoves = 8,
      blackKingSquare = ''e8'',
      whiteKingSquare = ''d4'' \<rparr>"



text \<open>The white pawn stands on e5 and the black d-pawn has just gone from d7 to d5.\<close>

definition epReadyCalls :: "call list" where
  "epReadyCalls =
     [PlayLegal ''e2'' ''e4'', PlayLegal ''a7'' ''a6'', PlayLegal ''e4'' ''e5'',
      PlayLegal ''d7'' ''d5'']"


text \<open>The two kings of the king walk go back to their home squares.\<close>

definition kingReturnCalls :: "call list" where
  "kingReturnCalls = [PlayLegal ''e2'' ''e1'', PlayLegal ''e7'' ''e8'']"

section \<open>Relations between states\<close>

text \<open>Every castling right that holds in \<open>s'\<close> holds in \<open>s\<close>.\<close>

definition rightsWithin :: "BoardState \<Rightarrow> BoardState \<Rightarrow> bool" where
  "rightsWithin s' s =
     ((whiteCastleKingsideAvailable s' \<longrightarrow> whiteCastleKingsideAvailable s)
      \<and> (whiteCastleQueensideAvailable s' \<longrightarrow> whiteCastleQueensideAvailable s)
      \<and> (blackCastleKingsideAvailable s' \<longrightarrow> blackCastleKingsideAvailable s)
      \<and> (blackCastleQueensideAvailable s' \<longrightarrow> blackCastleQueensideAvailable s))"

section \<open>The cached king squares\<close>

text \<open>The cached square of each colour holds the king of that colour.\<close>

definition kingSquaresHoldKings :: "BoardState \<Rightarrow> bool" where
  "kingSquaresHoldKings s =
     (getPieceOnSquare' s (whiteKingSquare s) = Some (Def WK)
      \<and> getPieceOnSquare' s (blackKingSquare s) = Some (Def BK))"

section \<open>Sequences of executed calls\<close>





section \<open>Evaluation lemmas\<close>

text \<open>
  Concrete games are evaluated by rewriting. The tables below give the conversions
  between squares and coordinates, the cells of the initial position, and the effect of an
  assignment on a later read, so that a position is handled as the initial array followed
  by the assignments made to it.
\<close>

lemma sq_table:
  "squareFromFileRank 0 0 = ''a1''" "squareFromFileRank 0 1 = ''a2''"
  "squareFromFileRank 0 2 = ''a3''" "squareFromFileRank 0 3 = ''a4''"
  "squareFromFileRank 0 4 = ''a5''" "squareFromFileRank 0 5 = ''a6''"
  "squareFromFileRank 0 6 = ''a7''" "squareFromFileRank 0 7 = ''a8''"
  "squareFromFileRank 1 0 = ''b1''" "squareFromFileRank 1 1 = ''b2''"
  "squareFromFileRank 1 2 = ''b3''" "squareFromFileRank 1 3 = ''b4''"
  "squareFromFileRank 1 4 = ''b5''" "squareFromFileRank 1 5 = ''b6''"
  "squareFromFileRank 1 6 = ''b7''" "squareFromFileRank 1 7 = ''b8''"
  "squareFromFileRank 2 0 = ''c1''" "squareFromFileRank 2 1 = ''c2''"
  "squareFromFileRank 2 2 = ''c3''" "squareFromFileRank 2 3 = ''c4''"
  "squareFromFileRank 2 4 = ''c5''" "squareFromFileRank 2 5 = ''c6''"
  "squareFromFileRank 2 6 = ''c7''" "squareFromFileRank 2 7 = ''c8''"
  "squareFromFileRank 3 0 = ''d1''" "squareFromFileRank 3 1 = ''d2''"
  "squareFromFileRank 3 2 = ''d3''" "squareFromFileRank 3 3 = ''d4''"
  "squareFromFileRank 3 4 = ''d5''" "squareFromFileRank 3 5 = ''d6''"
  "squareFromFileRank 3 6 = ''d7''" "squareFromFileRank 3 7 = ''d8''"
  "squareFromFileRank 4 0 = ''e1''" "squareFromFileRank 4 1 = ''e2''"
  "squareFromFileRank 4 2 = ''e3''" "squareFromFileRank 4 3 = ''e4''"
  "squareFromFileRank 4 4 = ''e5''" "squareFromFileRank 4 5 = ''e6''"
  "squareFromFileRank 4 6 = ''e7''" "squareFromFileRank 4 7 = ''e8''"
  "squareFromFileRank 5 0 = ''f1''" "squareFromFileRank 5 1 = ''f2''"
  "squareFromFileRank 5 2 = ''f3''" "squareFromFileRank 5 3 = ''f4''"
  "squareFromFileRank 5 4 = ''f5''" "squareFromFileRank 5 5 = ''f6''"
  "squareFromFileRank 5 6 = ''f7''" "squareFromFileRank 5 7 = ''f8''"
  "squareFromFileRank 6 0 = ''g1''" "squareFromFileRank 6 1 = ''g2''"
  "squareFromFileRank 6 2 = ''g3''" "squareFromFileRank 6 3 = ''g4''"
  "squareFromFileRank 6 4 = ''g5''" "squareFromFileRank 6 5 = ''g6''"
  "squareFromFileRank 6 6 = ''g7''" "squareFromFileRank 6 7 = ''g8''"
  "squareFromFileRank 7 0 = ''h1''" "squareFromFileRank 7 1 = ''h2''"
  "squareFromFileRank 7 2 = ''h3''" "squareFromFileRank 7 3 = ''h4''"
  "squareFromFileRank 7 4 = ''h5''" "squareFromFileRank 7 5 = ''h6''"
  "squareFromFileRank 7 6 = ''h7''" "squareFromFileRank 7 7 = ''h8''"
  by code_simp+

lemma file_table:
  "fileFromSquare (CHR ''a'' # cs) = 0" "fileFromSquare (CHR ''b'' # cs) = 1"
  "fileFromSquare (CHR ''c'' # cs) = 2" "fileFromSquare (CHR ''d'' # cs) = 3"
  "fileFromSquare (CHR ''e'' # cs) = 4" "fileFromSquare (CHR ''f'' # cs) = 5"
  "fileFromSquare (CHR ''g'' # cs) = 6" "fileFromSquare (CHR ''h'' # cs) = 7"
  by (simp_all add: fileFromSquare_def)

lemma rank_table:
  "rankFromSquare (c # CHR ''1'' # cs) = 0" "rankFromSquare (c # CHR ''2'' # cs) = 1"
  "rankFromSquare (c # CHR ''3'' # cs) = 2" "rankFromSquare (c # CHR ''4'' # cs) = 3"
  "rankFromSquare (c # CHR ''5'' # cs) = 4" "rankFromSquare (c # CHR ''6'' # cs) = 5"
  "rankFromSquare (c # CHR ''7'' # cs) = 6" "rankFromSquare (c # CHR ''8'' # cs) = 7"
  by (simp_all add: rankFromSquare_def)

lemma char_neq_table:
  "(CHR ''a'' = CHR ''b'') = False" "(CHR ''a'' = CHR ''c'') = False" "(CHR ''a'' = CHR ''d'') = False"
  "(CHR ''a'' = CHR ''e'') = False" "(CHR ''a'' = CHR ''f'') = False" "(CHR ''a'' = CHR ''g'') = False"
  "(CHR ''a'' = CHR ''h'') = False" "(CHR ''a'' = CHR ''w'') = False" "(CHR ''a'' = CHR ''p'') = False"
  "(CHR ''a'' = CHR ''r'') = False" "(CHR ''a'' = CHR ''n'') = False" "(CHR ''a'' = CHR ''q'') = False"
  "(CHR ''a'' = CHR ''k'') = False" "(CHR ''a'' = CHR ''1'') = False" "(CHR ''a'' = CHR ''2'') = False"
  "(CHR ''a'' = CHR ''3'') = False" "(CHR ''a'' = CHR ''4'') = False" "(CHR ''a'' = CHR ''5'') = False"
  "(CHR ''a'' = CHR ''6'') = False" "(CHR ''a'' = CHR ''7'') = False" "(CHR ''a'' = CHR ''8'') = False"
  "(CHR ''a'' = CHR ''-'') = False" "(CHR ''b'' = CHR ''a'') = False" "(CHR ''b'' = CHR ''c'') = False"
  "(CHR ''b'' = CHR ''d'') = False" "(CHR ''b'' = CHR ''e'') = False" "(CHR ''b'' = CHR ''f'') = False"
  "(CHR ''b'' = CHR ''g'') = False" "(CHR ''b'' = CHR ''h'') = False" "(CHR ''b'' = CHR ''w'') = False"
  "(CHR ''b'' = CHR ''p'') = False" "(CHR ''b'' = CHR ''r'') = False" "(CHR ''b'' = CHR ''n'') = False"
  "(CHR ''b'' = CHR ''q'') = False" "(CHR ''b'' = CHR ''k'') = False" "(CHR ''b'' = CHR ''1'') = False"
  "(CHR ''b'' = CHR ''2'') = False" "(CHR ''b'' = CHR ''3'') = False" "(CHR ''b'' = CHR ''4'') = False"
  "(CHR ''b'' = CHR ''5'') = False" "(CHR ''b'' = CHR ''6'') = False" "(CHR ''b'' = CHR ''7'') = False"
  "(CHR ''b'' = CHR ''8'') = False" "(CHR ''b'' = CHR ''-'') = False" "(CHR ''c'' = CHR ''a'') = False"
  "(CHR ''c'' = CHR ''b'') = False" "(CHR ''c'' = CHR ''d'') = False" "(CHR ''c'' = CHR ''e'') = False"
  "(CHR ''c'' = CHR ''f'') = False" "(CHR ''c'' = CHR ''g'') = False" "(CHR ''c'' = CHR ''h'') = False"
  "(CHR ''c'' = CHR ''w'') = False" "(CHR ''c'' = CHR ''p'') = False" "(CHR ''c'' = CHR ''r'') = False"
  "(CHR ''c'' = CHR ''n'') = False" "(CHR ''c'' = CHR ''q'') = False" "(CHR ''c'' = CHR ''k'') = False"
  "(CHR ''c'' = CHR ''1'') = False" "(CHR ''c'' = CHR ''2'') = False" "(CHR ''c'' = CHR ''3'') = False"
  "(CHR ''c'' = CHR ''4'') = False" "(CHR ''c'' = CHR ''5'') = False" "(CHR ''c'' = CHR ''6'') = False"
  "(CHR ''c'' = CHR ''7'') = False" "(CHR ''c'' = CHR ''8'') = False" "(CHR ''c'' = CHR ''-'') = False"
  "(CHR ''d'' = CHR ''a'') = False" "(CHR ''d'' = CHR ''b'') = False" "(CHR ''d'' = CHR ''c'') = False"
  "(CHR ''d'' = CHR ''e'') = False" "(CHR ''d'' = CHR ''f'') = False" "(CHR ''d'' = CHR ''g'') = False"
  "(CHR ''d'' = CHR ''h'') = False" "(CHR ''d'' = CHR ''w'') = False" "(CHR ''d'' = CHR ''p'') = False"
  "(CHR ''d'' = CHR ''r'') = False" "(CHR ''d'' = CHR ''n'') = False" "(CHR ''d'' = CHR ''q'') = False"
  "(CHR ''d'' = CHR ''k'') = False" "(CHR ''d'' = CHR ''1'') = False" "(CHR ''d'' = CHR ''2'') = False"
  "(CHR ''d'' = CHR ''3'') = False" "(CHR ''d'' = CHR ''4'') = False" "(CHR ''d'' = CHR ''5'') = False"
  "(CHR ''d'' = CHR ''6'') = False" "(CHR ''d'' = CHR ''7'') = False" "(CHR ''d'' = CHR ''8'') = False"
  "(CHR ''d'' = CHR ''-'') = False" "(CHR ''e'' = CHR ''a'') = False" "(CHR ''e'' = CHR ''b'') = False"
  "(CHR ''e'' = CHR ''c'') = False" "(CHR ''e'' = CHR ''d'') = False" "(CHR ''e'' = CHR ''f'') = False"
  "(CHR ''e'' = CHR ''g'') = False" "(CHR ''e'' = CHR ''h'') = False" "(CHR ''e'' = CHR ''w'') = False"
  "(CHR ''e'' = CHR ''p'') = False" "(CHR ''e'' = CHR ''r'') = False" "(CHR ''e'' = CHR ''n'') = False"
  "(CHR ''e'' = CHR ''q'') = False" "(CHR ''e'' = CHR ''k'') = False" "(CHR ''e'' = CHR ''1'') = False"
  "(CHR ''e'' = CHR ''2'') = False" "(CHR ''e'' = CHR ''3'') = False" "(CHR ''e'' = CHR ''4'') = False"
  "(CHR ''e'' = CHR ''5'') = False" "(CHR ''e'' = CHR ''6'') = False" "(CHR ''e'' = CHR ''7'') = False"
  "(CHR ''e'' = CHR ''8'') = False" "(CHR ''e'' = CHR ''-'') = False" "(CHR ''f'' = CHR ''a'') = False"
  "(CHR ''f'' = CHR ''b'') = False" "(CHR ''f'' = CHR ''c'') = False" "(CHR ''f'' = CHR ''d'') = False"
  "(CHR ''f'' = CHR ''e'') = False" "(CHR ''f'' = CHR ''g'') = False" "(CHR ''f'' = CHR ''h'') = False"
  "(CHR ''f'' = CHR ''w'') = False" "(CHR ''f'' = CHR ''p'') = False" "(CHR ''f'' = CHR ''r'') = False"
  "(CHR ''f'' = CHR ''n'') = False" "(CHR ''f'' = CHR ''q'') = False" "(CHR ''f'' = CHR ''k'') = False"
  "(CHR ''f'' = CHR ''1'') = False" "(CHR ''f'' = CHR ''2'') = False" "(CHR ''f'' = CHR ''3'') = False"
  "(CHR ''f'' = CHR ''4'') = False" "(CHR ''f'' = CHR ''5'') = False" "(CHR ''f'' = CHR ''6'') = False"
  "(CHR ''f'' = CHR ''7'') = False" "(CHR ''f'' = CHR ''8'') = False" "(CHR ''f'' = CHR ''-'') = False"
  "(CHR ''g'' = CHR ''a'') = False" "(CHR ''g'' = CHR ''b'') = False" "(CHR ''g'' = CHR ''c'') = False"
  "(CHR ''g'' = CHR ''d'') = False" "(CHR ''g'' = CHR ''e'') = False" "(CHR ''g'' = CHR ''f'') = False"
  "(CHR ''g'' = CHR ''h'') = False" "(CHR ''g'' = CHR ''w'') = False" "(CHR ''g'' = CHR ''p'') = False"
  "(CHR ''g'' = CHR ''r'') = False" "(CHR ''g'' = CHR ''n'') = False" "(CHR ''g'' = CHR ''q'') = False"
  "(CHR ''g'' = CHR ''k'') = False" "(CHR ''g'' = CHR ''1'') = False" "(CHR ''g'' = CHR ''2'') = False"
  "(CHR ''g'' = CHR ''3'') = False" "(CHR ''g'' = CHR ''4'') = False" "(CHR ''g'' = CHR ''5'') = False"
  "(CHR ''g'' = CHR ''6'') = False" "(CHR ''g'' = CHR ''7'') = False" "(CHR ''g'' = CHR ''8'') = False"
  "(CHR ''g'' = CHR ''-'') = False" "(CHR ''h'' = CHR ''a'') = False" "(CHR ''h'' = CHR ''b'') = False"
  "(CHR ''h'' = CHR ''c'') = False" "(CHR ''h'' = CHR ''d'') = False" "(CHR ''h'' = CHR ''e'') = False"
  "(CHR ''h'' = CHR ''f'') = False" "(CHR ''h'' = CHR ''g'') = False" "(CHR ''h'' = CHR ''w'') = False"
  "(CHR ''h'' = CHR ''p'') = False" "(CHR ''h'' = CHR ''r'') = False" "(CHR ''h'' = CHR ''n'') = False"
  "(CHR ''h'' = CHR ''q'') = False" "(CHR ''h'' = CHR ''k'') = False" "(CHR ''h'' = CHR ''1'') = False"
  "(CHR ''h'' = CHR ''2'') = False" "(CHR ''h'' = CHR ''3'') = False" "(CHR ''h'' = CHR ''4'') = False"
  "(CHR ''h'' = CHR ''5'') = False" "(CHR ''h'' = CHR ''6'') = False" "(CHR ''h'' = CHR ''7'') = False"
  "(CHR ''h'' = CHR ''8'') = False" "(CHR ''h'' = CHR ''-'') = False" "(CHR ''w'' = CHR ''a'') = False"
  "(CHR ''w'' = CHR ''b'') = False" "(CHR ''w'' = CHR ''c'') = False" "(CHR ''w'' = CHR ''d'') = False"
  "(CHR ''w'' = CHR ''e'') = False" "(CHR ''w'' = CHR ''f'') = False" "(CHR ''w'' = CHR ''g'') = False"
  "(CHR ''w'' = CHR ''h'') = False" "(CHR ''w'' = CHR ''p'') = False" "(CHR ''w'' = CHR ''r'') = False"
  "(CHR ''w'' = CHR ''n'') = False" "(CHR ''w'' = CHR ''q'') = False" "(CHR ''w'' = CHR ''k'') = False"
  "(CHR ''w'' = CHR ''1'') = False" "(CHR ''w'' = CHR ''2'') = False" "(CHR ''w'' = CHR ''3'') = False"
  "(CHR ''w'' = CHR ''4'') = False" "(CHR ''w'' = CHR ''5'') = False" "(CHR ''w'' = CHR ''6'') = False"
  "(CHR ''w'' = CHR ''7'') = False" "(CHR ''w'' = CHR ''8'') = False" "(CHR ''w'' = CHR ''-'') = False"
  "(CHR ''p'' = CHR ''a'') = False" "(CHR ''p'' = CHR ''b'') = False" "(CHR ''p'' = CHR ''c'') = False"
  "(CHR ''p'' = CHR ''d'') = False" "(CHR ''p'' = CHR ''e'') = False" "(CHR ''p'' = CHR ''f'') = False"
  "(CHR ''p'' = CHR ''g'') = False" "(CHR ''p'' = CHR ''h'') = False" "(CHR ''p'' = CHR ''w'') = False"
  "(CHR ''p'' = CHR ''r'') = False" "(CHR ''p'' = CHR ''n'') = False" "(CHR ''p'' = CHR ''q'') = False"
  "(CHR ''p'' = CHR ''k'') = False" "(CHR ''p'' = CHR ''1'') = False" "(CHR ''p'' = CHR ''2'') = False"
  "(CHR ''p'' = CHR ''3'') = False" "(CHR ''p'' = CHR ''4'') = False" "(CHR ''p'' = CHR ''5'') = False"
  "(CHR ''p'' = CHR ''6'') = False" "(CHR ''p'' = CHR ''7'') = False" "(CHR ''p'' = CHR ''8'') = False"
  "(CHR ''p'' = CHR ''-'') = False" "(CHR ''r'' = CHR ''a'') = False" "(CHR ''r'' = CHR ''b'') = False"
  "(CHR ''r'' = CHR ''c'') = False" "(CHR ''r'' = CHR ''d'') = False" "(CHR ''r'' = CHR ''e'') = False"
  "(CHR ''r'' = CHR ''f'') = False" "(CHR ''r'' = CHR ''g'') = False" "(CHR ''r'' = CHR ''h'') = False"
  "(CHR ''r'' = CHR ''w'') = False" "(CHR ''r'' = CHR ''p'') = False" "(CHR ''r'' = CHR ''n'') = False"
  "(CHR ''r'' = CHR ''q'') = False" "(CHR ''r'' = CHR ''k'') = False" "(CHR ''r'' = CHR ''1'') = False"
  "(CHR ''r'' = CHR ''2'') = False" "(CHR ''r'' = CHR ''3'') = False" "(CHR ''r'' = CHR ''4'') = False"
  "(CHR ''r'' = CHR ''5'') = False" "(CHR ''r'' = CHR ''6'') = False" "(CHR ''r'' = CHR ''7'') = False"
  "(CHR ''r'' = CHR ''8'') = False" "(CHR ''r'' = CHR ''-'') = False" "(CHR ''n'' = CHR ''a'') = False"
  "(CHR ''n'' = CHR ''b'') = False" "(CHR ''n'' = CHR ''c'') = False" "(CHR ''n'' = CHR ''d'') = False"
  "(CHR ''n'' = CHR ''e'') = False" "(CHR ''n'' = CHR ''f'') = False" "(CHR ''n'' = CHR ''g'') = False"
  "(CHR ''n'' = CHR ''h'') = False" "(CHR ''n'' = CHR ''w'') = False" "(CHR ''n'' = CHR ''p'') = False"
  "(CHR ''n'' = CHR ''r'') = False" "(CHR ''n'' = CHR ''q'') = False" "(CHR ''n'' = CHR ''k'') = False"
  "(CHR ''n'' = CHR ''1'') = False" "(CHR ''n'' = CHR ''2'') = False" "(CHR ''n'' = CHR ''3'') = False"
  "(CHR ''n'' = CHR ''4'') = False" "(CHR ''n'' = CHR ''5'') = False" "(CHR ''n'' = CHR ''6'') = False"
  "(CHR ''n'' = CHR ''7'') = False" "(CHR ''n'' = CHR ''8'') = False" "(CHR ''n'' = CHR ''-'') = False"
  "(CHR ''q'' = CHR ''a'') = False" "(CHR ''q'' = CHR ''b'') = False" "(CHR ''q'' = CHR ''c'') = False"
  "(CHR ''q'' = CHR ''d'') = False" "(CHR ''q'' = CHR ''e'') = False" "(CHR ''q'' = CHR ''f'') = False"
  "(CHR ''q'' = CHR ''g'') = False" "(CHR ''q'' = CHR ''h'') = False" "(CHR ''q'' = CHR ''w'') = False"
  "(CHR ''q'' = CHR ''p'') = False" "(CHR ''q'' = CHR ''r'') = False" "(CHR ''q'' = CHR ''n'') = False"
  "(CHR ''q'' = CHR ''k'') = False" "(CHR ''q'' = CHR ''1'') = False" "(CHR ''q'' = CHR ''2'') = False"
  "(CHR ''q'' = CHR ''3'') = False" "(CHR ''q'' = CHR ''4'') = False" "(CHR ''q'' = CHR ''5'') = False"
  "(CHR ''q'' = CHR ''6'') = False" "(CHR ''q'' = CHR ''7'') = False" "(CHR ''q'' = CHR ''8'') = False"
  "(CHR ''q'' = CHR ''-'') = False" "(CHR ''k'' = CHR ''a'') = False" "(CHR ''k'' = CHR ''b'') = False"
  "(CHR ''k'' = CHR ''c'') = False" "(CHR ''k'' = CHR ''d'') = False" "(CHR ''k'' = CHR ''e'') = False"
  "(CHR ''k'' = CHR ''f'') = False" "(CHR ''k'' = CHR ''g'') = False" "(CHR ''k'' = CHR ''h'') = False"
  "(CHR ''k'' = CHR ''w'') = False" "(CHR ''k'' = CHR ''p'') = False" "(CHR ''k'' = CHR ''r'') = False"
  "(CHR ''k'' = CHR ''n'') = False" "(CHR ''k'' = CHR ''q'') = False" "(CHR ''k'' = CHR ''1'') = False"
  "(CHR ''k'' = CHR ''2'') = False" "(CHR ''k'' = CHR ''3'') = False" "(CHR ''k'' = CHR ''4'') = False"
  "(CHR ''k'' = CHR ''5'') = False" "(CHR ''k'' = CHR ''6'') = False" "(CHR ''k'' = CHR ''7'') = False"
  "(CHR ''k'' = CHR ''8'') = False" "(CHR ''k'' = CHR ''-'') = False" "(CHR ''1'' = CHR ''a'') = False"
  "(CHR ''1'' = CHR ''b'') = False" "(CHR ''1'' = CHR ''c'') = False" "(CHR ''1'' = CHR ''d'') = False"
  "(CHR ''1'' = CHR ''e'') = False" "(CHR ''1'' = CHR ''f'') = False" "(CHR ''1'' = CHR ''g'') = False"
  "(CHR ''1'' = CHR ''h'') = False" "(CHR ''1'' = CHR ''w'') = False" "(CHR ''1'' = CHR ''p'') = False"
  "(CHR ''1'' = CHR ''r'') = False" "(CHR ''1'' = CHR ''n'') = False" "(CHR ''1'' = CHR ''q'') = False"
  "(CHR ''1'' = CHR ''k'') = False" "(CHR ''1'' = CHR ''2'') = False" "(CHR ''1'' = CHR ''3'') = False"
  "(CHR ''1'' = CHR ''4'') = False" "(CHR ''1'' = CHR ''5'') = False" "(CHR ''1'' = CHR ''6'') = False"
  "(CHR ''1'' = CHR ''7'') = False" "(CHR ''1'' = CHR ''8'') = False" "(CHR ''1'' = CHR ''-'') = False"
  "(CHR ''2'' = CHR ''a'') = False" "(CHR ''2'' = CHR ''b'') = False" "(CHR ''2'' = CHR ''c'') = False"
  "(CHR ''2'' = CHR ''d'') = False" "(CHR ''2'' = CHR ''e'') = False" "(CHR ''2'' = CHR ''f'') = False"
  "(CHR ''2'' = CHR ''g'') = False" "(CHR ''2'' = CHR ''h'') = False" "(CHR ''2'' = CHR ''w'') = False"
  "(CHR ''2'' = CHR ''p'') = False" "(CHR ''2'' = CHR ''r'') = False" "(CHR ''2'' = CHR ''n'') = False"
  "(CHR ''2'' = CHR ''q'') = False" "(CHR ''2'' = CHR ''k'') = False" "(CHR ''2'' = CHR ''1'') = False"
  "(CHR ''2'' = CHR ''3'') = False" "(CHR ''2'' = CHR ''4'') = False" "(CHR ''2'' = CHR ''5'') = False"
  "(CHR ''2'' = CHR ''6'') = False" "(CHR ''2'' = CHR ''7'') = False" "(CHR ''2'' = CHR ''8'') = False"
  "(CHR ''2'' = CHR ''-'') = False" "(CHR ''3'' = CHR ''a'') = False" "(CHR ''3'' = CHR ''b'') = False"
  "(CHR ''3'' = CHR ''c'') = False" "(CHR ''3'' = CHR ''d'') = False" "(CHR ''3'' = CHR ''e'') = False"
  "(CHR ''3'' = CHR ''f'') = False" "(CHR ''3'' = CHR ''g'') = False" "(CHR ''3'' = CHR ''h'') = False"
  "(CHR ''3'' = CHR ''w'') = False" "(CHR ''3'' = CHR ''p'') = False" "(CHR ''3'' = CHR ''r'') = False"
  "(CHR ''3'' = CHR ''n'') = False" "(CHR ''3'' = CHR ''q'') = False" "(CHR ''3'' = CHR ''k'') = False"
  "(CHR ''3'' = CHR ''1'') = False" "(CHR ''3'' = CHR ''2'') = False" "(CHR ''3'' = CHR ''4'') = False"
  "(CHR ''3'' = CHR ''5'') = False" "(CHR ''3'' = CHR ''6'') = False" "(CHR ''3'' = CHR ''7'') = False"
  "(CHR ''3'' = CHR ''8'') = False" "(CHR ''3'' = CHR ''-'') = False" "(CHR ''4'' = CHR ''a'') = False"
  "(CHR ''4'' = CHR ''b'') = False" "(CHR ''4'' = CHR ''c'') = False" "(CHR ''4'' = CHR ''d'') = False"
  "(CHR ''4'' = CHR ''e'') = False" "(CHR ''4'' = CHR ''f'') = False" "(CHR ''4'' = CHR ''g'') = False"
  "(CHR ''4'' = CHR ''h'') = False" "(CHR ''4'' = CHR ''w'') = False" "(CHR ''4'' = CHR ''p'') = False"
  "(CHR ''4'' = CHR ''r'') = False" "(CHR ''4'' = CHR ''n'') = False" "(CHR ''4'' = CHR ''q'') = False"
  "(CHR ''4'' = CHR ''k'') = False" "(CHR ''4'' = CHR ''1'') = False" "(CHR ''4'' = CHR ''2'') = False"
  "(CHR ''4'' = CHR ''3'') = False" "(CHR ''4'' = CHR ''5'') = False" "(CHR ''4'' = CHR ''6'') = False"
  "(CHR ''4'' = CHR ''7'') = False" "(CHR ''4'' = CHR ''8'') = False" "(CHR ''4'' = CHR ''-'') = False"
  "(CHR ''5'' = CHR ''a'') = False" "(CHR ''5'' = CHR ''b'') = False" "(CHR ''5'' = CHR ''c'') = False"
  "(CHR ''5'' = CHR ''d'') = False" "(CHR ''5'' = CHR ''e'') = False" "(CHR ''5'' = CHR ''f'') = False"
  "(CHR ''5'' = CHR ''g'') = False" "(CHR ''5'' = CHR ''h'') = False" "(CHR ''5'' = CHR ''w'') = False"
  "(CHR ''5'' = CHR ''p'') = False" "(CHR ''5'' = CHR ''r'') = False" "(CHR ''5'' = CHR ''n'') = False"
  "(CHR ''5'' = CHR ''q'') = False" "(CHR ''5'' = CHR ''k'') = False" "(CHR ''5'' = CHR ''1'') = False"
  "(CHR ''5'' = CHR ''2'') = False" "(CHR ''5'' = CHR ''3'') = False" "(CHR ''5'' = CHR ''4'') = False"
  "(CHR ''5'' = CHR ''6'') = False" "(CHR ''5'' = CHR ''7'') = False" "(CHR ''5'' = CHR ''8'') = False"
  "(CHR ''5'' = CHR ''-'') = False" "(CHR ''6'' = CHR ''a'') = False" "(CHR ''6'' = CHR ''b'') = False"
  "(CHR ''6'' = CHR ''c'') = False" "(CHR ''6'' = CHR ''d'') = False" "(CHR ''6'' = CHR ''e'') = False"
  "(CHR ''6'' = CHR ''f'') = False" "(CHR ''6'' = CHR ''g'') = False" "(CHR ''6'' = CHR ''h'') = False"
  "(CHR ''6'' = CHR ''w'') = False" "(CHR ''6'' = CHR ''p'') = False" "(CHR ''6'' = CHR ''r'') = False"
  "(CHR ''6'' = CHR ''n'') = False" "(CHR ''6'' = CHR ''q'') = False" "(CHR ''6'' = CHR ''k'') = False"
  "(CHR ''6'' = CHR ''1'') = False" "(CHR ''6'' = CHR ''2'') = False" "(CHR ''6'' = CHR ''3'') = False"
  "(CHR ''6'' = CHR ''4'') = False" "(CHR ''6'' = CHR ''5'') = False" "(CHR ''6'' = CHR ''7'') = False"
  "(CHR ''6'' = CHR ''8'') = False" "(CHR ''6'' = CHR ''-'') = False" "(CHR ''7'' = CHR ''a'') = False"
  "(CHR ''7'' = CHR ''b'') = False" "(CHR ''7'' = CHR ''c'') = False" "(CHR ''7'' = CHR ''d'') = False"
  "(CHR ''7'' = CHR ''e'') = False" "(CHR ''7'' = CHR ''f'') = False" "(CHR ''7'' = CHR ''g'') = False"
  "(CHR ''7'' = CHR ''h'') = False" "(CHR ''7'' = CHR ''w'') = False" "(CHR ''7'' = CHR ''p'') = False"
  "(CHR ''7'' = CHR ''r'') = False" "(CHR ''7'' = CHR ''n'') = False" "(CHR ''7'' = CHR ''q'') = False"
  "(CHR ''7'' = CHR ''k'') = False" "(CHR ''7'' = CHR ''1'') = False" "(CHR ''7'' = CHR ''2'') = False"
  "(CHR ''7'' = CHR ''3'') = False" "(CHR ''7'' = CHR ''4'') = False" "(CHR ''7'' = CHR ''5'') = False"
  "(CHR ''7'' = CHR ''6'') = False" "(CHR ''7'' = CHR ''8'') = False" "(CHR ''7'' = CHR ''-'') = False"
  "(CHR ''8'' = CHR ''a'') = False" "(CHR ''8'' = CHR ''b'') = False" "(CHR ''8'' = CHR ''c'') = False"
  "(CHR ''8'' = CHR ''d'') = False" "(CHR ''8'' = CHR ''e'') = False" "(CHR ''8'' = CHR ''f'') = False"
  "(CHR ''8'' = CHR ''g'') = False" "(CHR ''8'' = CHR ''h'') = False" "(CHR ''8'' = CHR ''w'') = False"
  "(CHR ''8'' = CHR ''p'') = False" "(CHR ''8'' = CHR ''r'') = False" "(CHR ''8'' = CHR ''n'') = False"
  "(CHR ''8'' = CHR ''q'') = False" "(CHR ''8'' = CHR ''k'') = False" "(CHR ''8'' = CHR ''1'') = False"
  "(CHR ''8'' = CHR ''2'') = False" "(CHR ''8'' = CHR ''3'') = False" "(CHR ''8'' = CHR ''4'') = False"
  "(CHR ''8'' = CHR ''5'') = False" "(CHR ''8'' = CHR ''6'') = False" "(CHR ''8'' = CHR ''7'') = False"
  "(CHR ''8'' = CHR ''-'') = False" "(CHR ''-'' = CHR ''a'') = False" "(CHR ''-'' = CHR ''b'') = False"
  "(CHR ''-'' = CHR ''c'') = False" "(CHR ''-'' = CHR ''d'') = False" "(CHR ''-'' = CHR ''e'') = False"
  "(CHR ''-'' = CHR ''f'') = False" "(CHR ''-'' = CHR ''g'') = False" "(CHR ''-'' = CHR ''h'') = False"
  "(CHR ''-'' = CHR ''w'') = False" "(CHR ''-'' = CHR ''p'') = False" "(CHR ''-'' = CHR ''r'') = False"
  "(CHR ''-'' = CHR ''n'') = False" "(CHR ''-'' = CHR ''q'') = False" "(CHR ''-'' = CHR ''k'') = False"
  "(CHR ''-'' = CHR ''1'') = False" "(CHR ''-'' = CHR ''2'') = False" "(CHR ''-'' = CHR ''3'') = False"
  "(CHR ''-'' = CHR ''4'') = False" "(CHR ''-'' = CHR ''5'') = False" "(CHR ''-'' = CHR ''6'') = False"
  "(CHR ''-'' = CHR ''7'') = False" "(CHR ''-'' = CHR ''8'') = False"
  by simp_all

lemma idx_table:
  "idx0 (Def EE) = Some CHR ''e''" "idx1 (Def EE) = Some CHR ''e''"
  "pieceStr EE ! 0 = CHR ''e''" "pieceStr EE ! 1 = CHR ''e''"
  "idx0 (Def WP) = Some CHR ''w''" "idx1 (Def WP) = Some CHR ''p''"
  "pieceStr WP ! 0 = CHR ''w''" "pieceStr WP ! 1 = CHR ''p''"
  "idx0 (Def WR) = Some CHR ''w''" "idx1 (Def WR) = Some CHR ''r''"
  "pieceStr WR ! 0 = CHR ''w''" "pieceStr WR ! 1 = CHR ''r''"
  "idx0 (Def WN) = Some CHR ''w''" "idx1 (Def WN) = Some CHR ''n''"
  "pieceStr WN ! 0 = CHR ''w''" "pieceStr WN ! 1 = CHR ''n''"
  "idx0 (Def WB) = Some CHR ''w''" "idx1 (Def WB) = Some CHR ''b''"
  "pieceStr WB ! 0 = CHR ''w''" "pieceStr WB ! 1 = CHR ''b''"
  "idx0 (Def WQ) = Some CHR ''w''" "idx1 (Def WQ) = Some CHR ''q''"
  "pieceStr WQ ! 0 = CHR ''w''" "pieceStr WQ ! 1 = CHR ''q''"
  "idx0 (Def WK) = Some CHR ''w''" "idx1 (Def WK) = Some CHR ''k''"
  "pieceStr WK ! 0 = CHR ''w''" "pieceStr WK ! 1 = CHR ''k''"
  "idx0 (Def BP) = Some CHR ''b''" "idx1 (Def BP) = Some CHR ''p''"
  "pieceStr BP ! 0 = CHR ''b''" "pieceStr BP ! 1 = CHR ''p''"
  "idx0 (Def BR) = Some CHR ''b''" "idx1 (Def BR) = Some CHR ''r''"
  "pieceStr BR ! 0 = CHR ''b''" "pieceStr BR ! 1 = CHR ''r''"
  "idx0 (Def BN) = Some CHR ''b''" "idx1 (Def BN) = Some CHR ''n''"
  "pieceStr BN ! 0 = CHR ''b''" "pieceStr BN ! 1 = CHR ''n''"
  "idx0 (Def BB) = Some CHR ''b''" "idx1 (Def BB) = Some CHR ''b''"
  "pieceStr BB ! 0 = CHR ''b''" "pieceStr BB ! 1 = CHR ''b''"
  "idx0 (Def BQ) = Some CHR ''b''" "idx1 (Def BQ) = Some CHR ''q''"
  "pieceStr BQ ! 0 = CHR ''b''" "pieceStr BQ ! 1 = CHR ''q''"
  "idx0 (Def BK) = Some CHR ''b''" "idx1 (Def BK) = Some CHR ''k''"
  "pieceStr BK ! 0 = CHR ''b''" "pieceStr BK ! 1 = CHR ''k''"
  "idx0 Undefined = None" "idx1 Undefined = None"
  by (simp_all add: idx0_def idx1_def)

lemma sel_upd:
  "position (position_update h0 s) = h0 (position s)"
  "position (activeColor_update h1 s) = position s"
  "position (blackCastleKingsideAvailable_update h2 s) = position s"
  "position (blackCastleQueensideAvailable_update h3 s) = position s"
  "position (whiteCastleKingsideAvailable_update h4 s) = position s"
  "position (whiteCastleQueensideAvailable_update h5 s) = position s"
  "position (twoSquarePawnMove_update h6 s) = position s"
  "position (numberOfHalfMoves_update h7 s) = position s"
  "position (numberOfFullMoves_update h8 s) = position s"
  "position (blackKingSquare_update h9 s) = position s"
  "position (whiteKingSquare_update h10 s) = position s"
  "activeColor (position_update h0 s) = activeColor s"
  "activeColor (activeColor_update h1 s) = h1 (activeColor s)"
  "activeColor (blackCastleKingsideAvailable_update h2 s) = activeColor s"
  "activeColor (blackCastleQueensideAvailable_update h3 s) = activeColor s"
  "activeColor (whiteCastleKingsideAvailable_update h4 s) = activeColor s"
  "activeColor (whiteCastleQueensideAvailable_update h5 s) = activeColor s"
  "activeColor (twoSquarePawnMove_update h6 s) = activeColor s"
  "activeColor (numberOfHalfMoves_update h7 s) = activeColor s"
  "activeColor (numberOfFullMoves_update h8 s) = activeColor s"
  "activeColor (blackKingSquare_update h9 s) = activeColor s"
  "activeColor (whiteKingSquare_update h10 s) = activeColor s"
  "blackCastleKingsideAvailable (position_update h0 s) = blackCastleKingsideAvailable s"
  "blackCastleKingsideAvailable (activeColor_update h1 s) = blackCastleKingsideAvailable s"
  "blackCastleKingsideAvailable (blackCastleKingsideAvailable_update h2 s) = h2 (blackCastleKingsideAvailable s)"
  "blackCastleKingsideAvailable (blackCastleQueensideAvailable_update h3 s) = blackCastleKingsideAvailable s"
  "blackCastleKingsideAvailable (whiteCastleKingsideAvailable_update h4 s) = blackCastleKingsideAvailable s"
  "blackCastleKingsideAvailable (whiteCastleQueensideAvailable_update h5 s) = blackCastleKingsideAvailable s"
  "blackCastleKingsideAvailable (twoSquarePawnMove_update h6 s) = blackCastleKingsideAvailable s"
  "blackCastleKingsideAvailable (numberOfHalfMoves_update h7 s) = blackCastleKingsideAvailable s"
  "blackCastleKingsideAvailable (numberOfFullMoves_update h8 s) = blackCastleKingsideAvailable s"
  "blackCastleKingsideAvailable (blackKingSquare_update h9 s) = blackCastleKingsideAvailable s"
  "blackCastleKingsideAvailable (whiteKingSquare_update h10 s) = blackCastleKingsideAvailable s"
  "blackCastleQueensideAvailable (position_update h0 s) = blackCastleQueensideAvailable s"
  "blackCastleQueensideAvailable (activeColor_update h1 s) = blackCastleQueensideAvailable s"
  "blackCastleQueensideAvailable (blackCastleKingsideAvailable_update h2 s) = blackCastleQueensideAvailable s"
  "blackCastleQueensideAvailable (blackCastleQueensideAvailable_update h3 s) = h3 (blackCastleQueensideAvailable s)"
  "blackCastleQueensideAvailable (whiteCastleKingsideAvailable_update h4 s) = blackCastleQueensideAvailable s"
  "blackCastleQueensideAvailable (whiteCastleQueensideAvailable_update h5 s) = blackCastleQueensideAvailable s"
  "blackCastleQueensideAvailable (twoSquarePawnMove_update h6 s) = blackCastleQueensideAvailable s"
  "blackCastleQueensideAvailable (numberOfHalfMoves_update h7 s) = blackCastleQueensideAvailable s"
  "blackCastleQueensideAvailable (numberOfFullMoves_update h8 s) = blackCastleQueensideAvailable s"
  "blackCastleQueensideAvailable (blackKingSquare_update h9 s) = blackCastleQueensideAvailable s"
  "blackCastleQueensideAvailable (whiteKingSquare_update h10 s) = blackCastleQueensideAvailable s"
  "whiteCastleKingsideAvailable (position_update h0 s) = whiteCastleKingsideAvailable s"
  "whiteCastleKingsideAvailable (activeColor_update h1 s) = whiteCastleKingsideAvailable s"
  "whiteCastleKingsideAvailable (blackCastleKingsideAvailable_update h2 s) = whiteCastleKingsideAvailable s"
  "whiteCastleKingsideAvailable (blackCastleQueensideAvailable_update h3 s) = whiteCastleKingsideAvailable s"
  "whiteCastleKingsideAvailable (whiteCastleKingsideAvailable_update h4 s) = h4 (whiteCastleKingsideAvailable s)"
  "whiteCastleKingsideAvailable (whiteCastleQueensideAvailable_update h5 s) = whiteCastleKingsideAvailable s"
  "whiteCastleKingsideAvailable (twoSquarePawnMove_update h6 s) = whiteCastleKingsideAvailable s"
  "whiteCastleKingsideAvailable (numberOfHalfMoves_update h7 s) = whiteCastleKingsideAvailable s"
  "whiteCastleKingsideAvailable (numberOfFullMoves_update h8 s) = whiteCastleKingsideAvailable s"
  "whiteCastleKingsideAvailable (blackKingSquare_update h9 s) = whiteCastleKingsideAvailable s"
  "whiteCastleKingsideAvailable (whiteKingSquare_update h10 s) = whiteCastleKingsideAvailable s"
  "whiteCastleQueensideAvailable (position_update h0 s) = whiteCastleQueensideAvailable s"
  "whiteCastleQueensideAvailable (activeColor_update h1 s) = whiteCastleQueensideAvailable s"
  "whiteCastleQueensideAvailable (blackCastleKingsideAvailable_update h2 s) = whiteCastleQueensideAvailable s"
  "whiteCastleQueensideAvailable (blackCastleQueensideAvailable_update h3 s) = whiteCastleQueensideAvailable s"
  "whiteCastleQueensideAvailable (whiteCastleKingsideAvailable_update h4 s) = whiteCastleQueensideAvailable s"
  "whiteCastleQueensideAvailable (whiteCastleQueensideAvailable_update h5 s) = h5 (whiteCastleQueensideAvailable s)"
  "whiteCastleQueensideAvailable (twoSquarePawnMove_update h6 s) = whiteCastleQueensideAvailable s"
  "whiteCastleQueensideAvailable (numberOfHalfMoves_update h7 s) = whiteCastleQueensideAvailable s"
  "whiteCastleQueensideAvailable (numberOfFullMoves_update h8 s) = whiteCastleQueensideAvailable s"
  "whiteCastleQueensideAvailable (blackKingSquare_update h9 s) = whiteCastleQueensideAvailable s"
  "whiteCastleQueensideAvailable (whiteKingSquare_update h10 s) = whiteCastleQueensideAvailable s"
  "twoSquarePawnMove (position_update h0 s) = twoSquarePawnMove s"
  "twoSquarePawnMove (activeColor_update h1 s) = twoSquarePawnMove s"
  "twoSquarePawnMove (blackCastleKingsideAvailable_update h2 s) = twoSquarePawnMove s"
  "twoSquarePawnMove (blackCastleQueensideAvailable_update h3 s) = twoSquarePawnMove s"
  "twoSquarePawnMove (whiteCastleKingsideAvailable_update h4 s) = twoSquarePawnMove s"
  "twoSquarePawnMove (whiteCastleQueensideAvailable_update h5 s) = twoSquarePawnMove s"
  "twoSquarePawnMove (twoSquarePawnMove_update h6 s) = h6 (twoSquarePawnMove s)"
  "twoSquarePawnMove (numberOfHalfMoves_update h7 s) = twoSquarePawnMove s"
  "twoSquarePawnMove (numberOfFullMoves_update h8 s) = twoSquarePawnMove s"
  "twoSquarePawnMove (blackKingSquare_update h9 s) = twoSquarePawnMove s"
  "twoSquarePawnMove (whiteKingSquare_update h10 s) = twoSquarePawnMove s"
  "numberOfHalfMoves (position_update h0 s) = numberOfHalfMoves s"
  "numberOfHalfMoves (activeColor_update h1 s) = numberOfHalfMoves s"
  "numberOfHalfMoves (blackCastleKingsideAvailable_update h2 s) = numberOfHalfMoves s"
  "numberOfHalfMoves (blackCastleQueensideAvailable_update h3 s) = numberOfHalfMoves s"
  "numberOfHalfMoves (whiteCastleKingsideAvailable_update h4 s) = numberOfHalfMoves s"
  "numberOfHalfMoves (whiteCastleQueensideAvailable_update h5 s) = numberOfHalfMoves s"
  "numberOfHalfMoves (twoSquarePawnMove_update h6 s) = numberOfHalfMoves s"
  "numberOfHalfMoves (numberOfHalfMoves_update h7 s) = h7 (numberOfHalfMoves s)"
  "numberOfHalfMoves (numberOfFullMoves_update h8 s) = numberOfHalfMoves s"
  "numberOfHalfMoves (blackKingSquare_update h9 s) = numberOfHalfMoves s"
  "numberOfHalfMoves (whiteKingSquare_update h10 s) = numberOfHalfMoves s"
  "numberOfFullMoves (position_update h0 s) = numberOfFullMoves s"
  "numberOfFullMoves (activeColor_update h1 s) = numberOfFullMoves s"
  "numberOfFullMoves (blackCastleKingsideAvailable_update h2 s) = numberOfFullMoves s"
  "numberOfFullMoves (blackCastleQueensideAvailable_update h3 s) = numberOfFullMoves s"
  "numberOfFullMoves (whiteCastleKingsideAvailable_update h4 s) = numberOfFullMoves s"
  "numberOfFullMoves (whiteCastleQueensideAvailable_update h5 s) = numberOfFullMoves s"
  "numberOfFullMoves (twoSquarePawnMove_update h6 s) = numberOfFullMoves s"
  "numberOfFullMoves (numberOfHalfMoves_update h7 s) = numberOfFullMoves s"
  "numberOfFullMoves (numberOfFullMoves_update h8 s) = h8 (numberOfFullMoves s)"
  "numberOfFullMoves (blackKingSquare_update h9 s) = numberOfFullMoves s"
  "numberOfFullMoves (whiteKingSquare_update h10 s) = numberOfFullMoves s"
  "blackKingSquare (position_update h0 s) = blackKingSquare s"
  "blackKingSquare (activeColor_update h1 s) = blackKingSquare s"
  "blackKingSquare (blackCastleKingsideAvailable_update h2 s) = blackKingSquare s"
  "blackKingSquare (blackCastleQueensideAvailable_update h3 s) = blackKingSquare s"
  "blackKingSquare (whiteCastleKingsideAvailable_update h4 s) = blackKingSquare s"
  "blackKingSquare (whiteCastleQueensideAvailable_update h5 s) = blackKingSquare s"
  "blackKingSquare (twoSquarePawnMove_update h6 s) = blackKingSquare s"
  "blackKingSquare (numberOfHalfMoves_update h7 s) = blackKingSquare s"
  "blackKingSquare (numberOfFullMoves_update h8 s) = blackKingSquare s"
  "blackKingSquare (blackKingSquare_update h9 s) = h9 (blackKingSquare s)"
  "blackKingSquare (whiteKingSquare_update h10 s) = blackKingSquare s"
  "whiteKingSquare (position_update h0 s) = whiteKingSquare s"
  "whiteKingSquare (activeColor_update h1 s) = whiteKingSquare s"
  "whiteKingSquare (blackCastleKingsideAvailable_update h2 s) = whiteKingSquare s"
  "whiteKingSquare (blackCastleQueensideAvailable_update h3 s) = whiteKingSquare s"
  "whiteKingSquare (whiteCastleKingsideAvailable_update h4 s) = whiteKingSquare s"
  "whiteKingSquare (whiteCastleQueensideAvailable_update h5 s) = whiteKingSquare s"
  "whiteKingSquare (twoSquarePawnMove_update h6 s) = whiteKingSquare s"
  "whiteKingSquare (numberOfHalfMoves_update h7 s) = whiteKingSquare s"
  "whiteKingSquare (numberOfFullMoves_update h8 s) = whiteKingSquare s"
  "whiteKingSquare (blackKingSquare_update h9 s) = whiteKingSquare s"
  "whiteKingSquare (whiteKingSquare_update h10 s) = h10 (whiteKingSquare s)"
  by simp_all

lemma boardShape_initial: "boardShape initialPosition"
  by (simp add: boardShape_def initialPosition_def)

lemma posAt_boardShape:
  assumes "boardShape p"
  shows "posAt p f r =
     (if 0 \<le> f \<and> f < 8
      then Some (if 0 \<le> r \<and> r < 8 then Def (p ! nat f ! nat r) else Undefined)
      else None)"
proof -
  have len: "length p = 8" and col: "\<And>n. n < 8 \<Longrightarrow> length (p ! n) = 8"
    using assms by (simp_all add: boardShape_def list_all_length)
  show ?thesis
  proof (cases "0 \<le> f \<and> f < 8")
    case False
    then show ?thesis using len by (auto simp: posAt_def)
  next
    case True
    then have "nat f < 8" by linarith
    from col[OF this] True len show ?thesis by (simp add: posAt_def)
  qed
qed

text \<open>
  Reads and assignments on an explicit 8 by 8 array. They keep every position of a
  concrete game in the form of the array literal.
\<close>

lemma literal_read:
  "posAt [[a00, a01, a02, a03, a04, a05, a06, a07], [a10, a11, a12, a13, a14, a15, a16, a17],
    [a20, a21, a22, a23, a24, a25, a26, a27], [a30, a31, a32, a33, a34, a35, a36, a37], [a40,
    a41, a42, a43, a44, a45, a46, a47], [a50, a51, a52, a53, a54, a55, a56, a57], [a60, a61,
    a62, a63, a64, a65, a66, a67], [a70, a71, a72, a73, a74, a75, a76,
    a77]] 0 0 = Some (Def a00)"
  "posAt [[a00, a01, a02, a03, a04, a05, a06, a07], [a10, a11, a12, a13, a14, a15, a16, a17],
    [a20, a21, a22, a23, a24, a25, a26, a27], [a30, a31, a32, a33, a34, a35, a36, a37], [a40,
    a41, a42, a43, a44, a45, a46, a47], [a50, a51, a52, a53, a54, a55, a56, a57], [a60, a61,
    a62, a63, a64, a65, a66, a67], [a70, a71, a72, a73, a74, a75, a76,
    a77]] 0 1 = Some (Def a01)"
  "posAt [[a00, a01, a02, a03, a04, a05, a06, a07], [a10, a11, a12, a13, a14, a15, a16, a17],
    [a20, a21, a22, a23, a24, a25, a26, a27], [a30, a31, a32, a33, a34, a35, a36, a37], [a40,
    a41, a42, a43, a44, a45, a46, a47], [a50, a51, a52, a53, a54, a55, a56, a57], [a60, a61,
    a62, a63, a64, a65, a66, a67], [a70, a71, a72, a73, a74, a75, a76,
    a77]] 0 2 = Some (Def a02)"
  "posAt [[a00, a01, a02, a03, a04, a05, a06, a07], [a10, a11, a12, a13, a14, a15, a16, a17],
    [a20, a21, a22, a23, a24, a25, a26, a27], [a30, a31, a32, a33, a34, a35, a36, a37], [a40,
    a41, a42, a43, a44, a45, a46, a47], [a50, a51, a52, a53, a54, a55, a56, a57], [a60, a61,
    a62, a63, a64, a65, a66, a67], [a70, a71, a72, a73, a74, a75, a76,
    a77]] 0 3 = Some (Def a03)"
  "posAt [[a00, a01, a02, a03, a04, a05, a06, a07], [a10, a11, a12, a13, a14, a15, a16, a17],
    [a20, a21, a22, a23, a24, a25, a26, a27], [a30, a31, a32, a33, a34, a35, a36, a37], [a40,
    a41, a42, a43, a44, a45, a46, a47], [a50, a51, a52, a53, a54, a55, a56, a57], [a60, a61,
    a62, a63, a64, a65, a66, a67], [a70, a71, a72, a73, a74, a75, a76,
    a77]] 0 4 = Some (Def a04)"
  "posAt [[a00, a01, a02, a03, a04, a05, a06, a07], [a10, a11, a12, a13, a14, a15, a16, a17],
    [a20, a21, a22, a23, a24, a25, a26, a27], [a30, a31, a32, a33, a34, a35, a36, a37], [a40,
    a41, a42, a43, a44, a45, a46, a47], [a50, a51, a52, a53, a54, a55, a56, a57], [a60, a61,
    a62, a63, a64, a65, a66, a67], [a70, a71, a72, a73, a74, a75, a76,
    a77]] 0 5 = Some (Def a05)"
  "posAt [[a00, a01, a02, a03, a04, a05, a06, a07], [a10, a11, a12, a13, a14, a15, a16, a17],
    [a20, a21, a22, a23, a24, a25, a26, a27], [a30, a31, a32, a33, a34, a35, a36, a37], [a40,
    a41, a42, a43, a44, a45, a46, a47], [a50, a51, a52, a53, a54, a55, a56, a57], [a60, a61,
    a62, a63, a64, a65, a66, a67], [a70, a71, a72, a73, a74, a75, a76,
    a77]] 0 6 = Some (Def a06)"
  "posAt [[a00, a01, a02, a03, a04, a05, a06, a07], [a10, a11, a12, a13, a14, a15, a16, a17],
    [a20, a21, a22, a23, a24, a25, a26, a27], [a30, a31, a32, a33, a34, a35, a36, a37], [a40,
    a41, a42, a43, a44, a45, a46, a47], [a50, a51, a52, a53, a54, a55, a56, a57], [a60, a61,
    a62, a63, a64, a65, a66, a67], [a70, a71, a72, a73, a74, a75, a76,
    a77]] 0 7 = Some (Def a07)"
  "posAt [[a00, a01, a02, a03, a04, a05, a06, a07], [a10, a11, a12, a13, a14, a15, a16, a17],
    [a20, a21, a22, a23, a24, a25, a26, a27], [a30, a31, a32, a33, a34, a35, a36, a37], [a40,
    a41, a42, a43, a44, a45, a46, a47], [a50, a51, a52, a53, a54, a55, a56, a57], [a60, a61,
    a62, a63, a64, a65, a66, a67], [a70, a71, a72, a73, a74, a75, a76,
    a77]] 1 0 = Some (Def a10)"
  "posAt [[a00, a01, a02, a03, a04, a05, a06, a07], [a10, a11, a12, a13, a14, a15, a16, a17],
    [a20, a21, a22, a23, a24, a25, a26, a27], [a30, a31, a32, a33, a34, a35, a36, a37], [a40,
    a41, a42, a43, a44, a45, a46, a47], [a50, a51, a52, a53, a54, a55, a56, a57], [a60, a61,
    a62, a63, a64, a65, a66, a67], [a70, a71, a72, a73, a74, a75, a76,
    a77]] 1 1 = Some (Def a11)"
  "posAt [[a00, a01, a02, a03, a04, a05, a06, a07], [a10, a11, a12, a13, a14, a15, a16, a17],
    [a20, a21, a22, a23, a24, a25, a26, a27], [a30, a31, a32, a33, a34, a35, a36, a37], [a40,
    a41, a42, a43, a44, a45, a46, a47], [a50, a51, a52, a53, a54, a55, a56, a57], [a60, a61,
    a62, a63, a64, a65, a66, a67], [a70, a71, a72, a73, a74, a75, a76,
    a77]] 1 2 = Some (Def a12)"
  "posAt [[a00, a01, a02, a03, a04, a05, a06, a07], [a10, a11, a12, a13, a14, a15, a16, a17],
    [a20, a21, a22, a23, a24, a25, a26, a27], [a30, a31, a32, a33, a34, a35, a36, a37], [a40,
    a41, a42, a43, a44, a45, a46, a47], [a50, a51, a52, a53, a54, a55, a56, a57], [a60, a61,
    a62, a63, a64, a65, a66, a67], [a70, a71, a72, a73, a74, a75, a76,
    a77]] 1 3 = Some (Def a13)"
  "posAt [[a00, a01, a02, a03, a04, a05, a06, a07], [a10, a11, a12, a13, a14, a15, a16, a17],
    [a20, a21, a22, a23, a24, a25, a26, a27], [a30, a31, a32, a33, a34, a35, a36, a37], [a40,
    a41, a42, a43, a44, a45, a46, a47], [a50, a51, a52, a53, a54, a55, a56, a57], [a60, a61,
    a62, a63, a64, a65, a66, a67], [a70, a71, a72, a73, a74, a75, a76,
    a77]] 1 4 = Some (Def a14)"
  "posAt [[a00, a01, a02, a03, a04, a05, a06, a07], [a10, a11, a12, a13, a14, a15, a16, a17],
    [a20, a21, a22, a23, a24, a25, a26, a27], [a30, a31, a32, a33, a34, a35, a36, a37], [a40,
    a41, a42, a43, a44, a45, a46, a47], [a50, a51, a52, a53, a54, a55, a56, a57], [a60, a61,
    a62, a63, a64, a65, a66, a67], [a70, a71, a72, a73, a74, a75, a76,
    a77]] 1 5 = Some (Def a15)"
  "posAt [[a00, a01, a02, a03, a04, a05, a06, a07], [a10, a11, a12, a13, a14, a15, a16, a17],
    [a20, a21, a22, a23, a24, a25, a26, a27], [a30, a31, a32, a33, a34, a35, a36, a37], [a40,
    a41, a42, a43, a44, a45, a46, a47], [a50, a51, a52, a53, a54, a55, a56, a57], [a60, a61,
    a62, a63, a64, a65, a66, a67], [a70, a71, a72, a73, a74, a75, a76,
    a77]] 1 6 = Some (Def a16)"
  "posAt [[a00, a01, a02, a03, a04, a05, a06, a07], [a10, a11, a12, a13, a14, a15, a16, a17],
    [a20, a21, a22, a23, a24, a25, a26, a27], [a30, a31, a32, a33, a34, a35, a36, a37], [a40,
    a41, a42, a43, a44, a45, a46, a47], [a50, a51, a52, a53, a54, a55, a56, a57], [a60, a61,
    a62, a63, a64, a65, a66, a67], [a70, a71, a72, a73, a74, a75, a76,
    a77]] 1 7 = Some (Def a17)"
  "posAt [[a00, a01, a02, a03, a04, a05, a06, a07], [a10, a11, a12, a13, a14, a15, a16, a17],
    [a20, a21, a22, a23, a24, a25, a26, a27], [a30, a31, a32, a33, a34, a35, a36, a37], [a40,
    a41, a42, a43, a44, a45, a46, a47], [a50, a51, a52, a53, a54, a55, a56, a57], [a60, a61,
    a62, a63, a64, a65, a66, a67], [a70, a71, a72, a73, a74, a75, a76,
    a77]] 2 0 = Some (Def a20)"
  "posAt [[a00, a01, a02, a03, a04, a05, a06, a07], [a10, a11, a12, a13, a14, a15, a16, a17],
    [a20, a21, a22, a23, a24, a25, a26, a27], [a30, a31, a32, a33, a34, a35, a36, a37], [a40,
    a41, a42, a43, a44, a45, a46, a47], [a50, a51, a52, a53, a54, a55, a56, a57], [a60, a61,
    a62, a63, a64, a65, a66, a67], [a70, a71, a72, a73, a74, a75, a76,
    a77]] 2 1 = Some (Def a21)"
  "posAt [[a00, a01, a02, a03, a04, a05, a06, a07], [a10, a11, a12, a13, a14, a15, a16, a17],
    [a20, a21, a22, a23, a24, a25, a26, a27], [a30, a31, a32, a33, a34, a35, a36, a37], [a40,
    a41, a42, a43, a44, a45, a46, a47], [a50, a51, a52, a53, a54, a55, a56, a57], [a60, a61,
    a62, a63, a64, a65, a66, a67], [a70, a71, a72, a73, a74, a75, a76,
    a77]] 2 2 = Some (Def a22)"
  "posAt [[a00, a01, a02, a03, a04, a05, a06, a07], [a10, a11, a12, a13, a14, a15, a16, a17],
    [a20, a21, a22, a23, a24, a25, a26, a27], [a30, a31, a32, a33, a34, a35, a36, a37], [a40,
    a41, a42, a43, a44, a45, a46, a47], [a50, a51, a52, a53, a54, a55, a56, a57], [a60, a61,
    a62, a63, a64, a65, a66, a67], [a70, a71, a72, a73, a74, a75, a76,
    a77]] 2 3 = Some (Def a23)"
  "posAt [[a00, a01, a02, a03, a04, a05, a06, a07], [a10, a11, a12, a13, a14, a15, a16, a17],
    [a20, a21, a22, a23, a24, a25, a26, a27], [a30, a31, a32, a33, a34, a35, a36, a37], [a40,
    a41, a42, a43, a44, a45, a46, a47], [a50, a51, a52, a53, a54, a55, a56, a57], [a60, a61,
    a62, a63, a64, a65, a66, a67], [a70, a71, a72, a73, a74, a75, a76,
    a77]] 2 4 = Some (Def a24)"
  "posAt [[a00, a01, a02, a03, a04, a05, a06, a07], [a10, a11, a12, a13, a14, a15, a16, a17],
    [a20, a21, a22, a23, a24, a25, a26, a27], [a30, a31, a32, a33, a34, a35, a36, a37], [a40,
    a41, a42, a43, a44, a45, a46, a47], [a50, a51, a52, a53, a54, a55, a56, a57], [a60, a61,
    a62, a63, a64, a65, a66, a67], [a70, a71, a72, a73, a74, a75, a76,
    a77]] 2 5 = Some (Def a25)"
  "posAt [[a00, a01, a02, a03, a04, a05, a06, a07], [a10, a11, a12, a13, a14, a15, a16, a17],
    [a20, a21, a22, a23, a24, a25, a26, a27], [a30, a31, a32, a33, a34, a35, a36, a37], [a40,
    a41, a42, a43, a44, a45, a46, a47], [a50, a51, a52, a53, a54, a55, a56, a57], [a60, a61,
    a62, a63, a64, a65, a66, a67], [a70, a71, a72, a73, a74, a75, a76,
    a77]] 2 6 = Some (Def a26)"
  "posAt [[a00, a01, a02, a03, a04, a05, a06, a07], [a10, a11, a12, a13, a14, a15, a16, a17],
    [a20, a21, a22, a23, a24, a25, a26, a27], [a30, a31, a32, a33, a34, a35, a36, a37], [a40,
    a41, a42, a43, a44, a45, a46, a47], [a50, a51, a52, a53, a54, a55, a56, a57], [a60, a61,
    a62, a63, a64, a65, a66, a67], [a70, a71, a72, a73, a74, a75, a76,
    a77]] 2 7 = Some (Def a27)"
  "posAt [[a00, a01, a02, a03, a04, a05, a06, a07], [a10, a11, a12, a13, a14, a15, a16, a17],
    [a20, a21, a22, a23, a24, a25, a26, a27], [a30, a31, a32, a33, a34, a35, a36, a37], [a40,
    a41, a42, a43, a44, a45, a46, a47], [a50, a51, a52, a53, a54, a55, a56, a57], [a60, a61,
    a62, a63, a64, a65, a66, a67], [a70, a71, a72, a73, a74, a75, a76,
    a77]] 3 0 = Some (Def a30)"
  "posAt [[a00, a01, a02, a03, a04, a05, a06, a07], [a10, a11, a12, a13, a14, a15, a16, a17],
    [a20, a21, a22, a23, a24, a25, a26, a27], [a30, a31, a32, a33, a34, a35, a36, a37], [a40,
    a41, a42, a43, a44, a45, a46, a47], [a50, a51, a52, a53, a54, a55, a56, a57], [a60, a61,
    a62, a63, a64, a65, a66, a67], [a70, a71, a72, a73, a74, a75, a76,
    a77]] 3 1 = Some (Def a31)"
  "posAt [[a00, a01, a02, a03, a04, a05, a06, a07], [a10, a11, a12, a13, a14, a15, a16, a17],
    [a20, a21, a22, a23, a24, a25, a26, a27], [a30, a31, a32, a33, a34, a35, a36, a37], [a40,
    a41, a42, a43, a44, a45, a46, a47], [a50, a51, a52, a53, a54, a55, a56, a57], [a60, a61,
    a62, a63, a64, a65, a66, a67], [a70, a71, a72, a73, a74, a75, a76,
    a77]] 3 2 = Some (Def a32)"
  "posAt [[a00, a01, a02, a03, a04, a05, a06, a07], [a10, a11, a12, a13, a14, a15, a16, a17],
    [a20, a21, a22, a23, a24, a25, a26, a27], [a30, a31, a32, a33, a34, a35, a36, a37], [a40,
    a41, a42, a43, a44, a45, a46, a47], [a50, a51, a52, a53, a54, a55, a56, a57], [a60, a61,
    a62, a63, a64, a65, a66, a67], [a70, a71, a72, a73, a74, a75, a76,
    a77]] 3 3 = Some (Def a33)"
  "posAt [[a00, a01, a02, a03, a04, a05, a06, a07], [a10, a11, a12, a13, a14, a15, a16, a17],
    [a20, a21, a22, a23, a24, a25, a26, a27], [a30, a31, a32, a33, a34, a35, a36, a37], [a40,
    a41, a42, a43, a44, a45, a46, a47], [a50, a51, a52, a53, a54, a55, a56, a57], [a60, a61,
    a62, a63, a64, a65, a66, a67], [a70, a71, a72, a73, a74, a75, a76,
    a77]] 3 4 = Some (Def a34)"
  "posAt [[a00, a01, a02, a03, a04, a05, a06, a07], [a10, a11, a12, a13, a14, a15, a16, a17],
    [a20, a21, a22, a23, a24, a25, a26, a27], [a30, a31, a32, a33, a34, a35, a36, a37], [a40,
    a41, a42, a43, a44, a45, a46, a47], [a50, a51, a52, a53, a54, a55, a56, a57], [a60, a61,
    a62, a63, a64, a65, a66, a67], [a70, a71, a72, a73, a74, a75, a76,
    a77]] 3 5 = Some (Def a35)"
  "posAt [[a00, a01, a02, a03, a04, a05, a06, a07], [a10, a11, a12, a13, a14, a15, a16, a17],
    [a20, a21, a22, a23, a24, a25, a26, a27], [a30, a31, a32, a33, a34, a35, a36, a37], [a40,
    a41, a42, a43, a44, a45, a46, a47], [a50, a51, a52, a53, a54, a55, a56, a57], [a60, a61,
    a62, a63, a64, a65, a66, a67], [a70, a71, a72, a73, a74, a75, a76,
    a77]] 3 6 = Some (Def a36)"
  "posAt [[a00, a01, a02, a03, a04, a05, a06, a07], [a10, a11, a12, a13, a14, a15, a16, a17],
    [a20, a21, a22, a23, a24, a25, a26, a27], [a30, a31, a32, a33, a34, a35, a36, a37], [a40,
    a41, a42, a43, a44, a45, a46, a47], [a50, a51, a52, a53, a54, a55, a56, a57], [a60, a61,
    a62, a63, a64, a65, a66, a67], [a70, a71, a72, a73, a74, a75, a76,
    a77]] 3 7 = Some (Def a37)"
  "posAt [[a00, a01, a02, a03, a04, a05, a06, a07], [a10, a11, a12, a13, a14, a15, a16, a17],
    [a20, a21, a22, a23, a24, a25, a26, a27], [a30, a31, a32, a33, a34, a35, a36, a37], [a40,
    a41, a42, a43, a44, a45, a46, a47], [a50, a51, a52, a53, a54, a55, a56, a57], [a60, a61,
    a62, a63, a64, a65, a66, a67], [a70, a71, a72, a73, a74, a75, a76,
    a77]] 4 0 = Some (Def a40)"
  "posAt [[a00, a01, a02, a03, a04, a05, a06, a07], [a10, a11, a12, a13, a14, a15, a16, a17],
    [a20, a21, a22, a23, a24, a25, a26, a27], [a30, a31, a32, a33, a34, a35, a36, a37], [a40,
    a41, a42, a43, a44, a45, a46, a47], [a50, a51, a52, a53, a54, a55, a56, a57], [a60, a61,
    a62, a63, a64, a65, a66, a67], [a70, a71, a72, a73, a74, a75, a76,
    a77]] 4 1 = Some (Def a41)"
  "posAt [[a00, a01, a02, a03, a04, a05, a06, a07], [a10, a11, a12, a13, a14, a15, a16, a17],
    [a20, a21, a22, a23, a24, a25, a26, a27], [a30, a31, a32, a33, a34, a35, a36, a37], [a40,
    a41, a42, a43, a44, a45, a46, a47], [a50, a51, a52, a53, a54, a55, a56, a57], [a60, a61,
    a62, a63, a64, a65, a66, a67], [a70, a71, a72, a73, a74, a75, a76,
    a77]] 4 2 = Some (Def a42)"
  "posAt [[a00, a01, a02, a03, a04, a05, a06, a07], [a10, a11, a12, a13, a14, a15, a16, a17],
    [a20, a21, a22, a23, a24, a25, a26, a27], [a30, a31, a32, a33, a34, a35, a36, a37], [a40,
    a41, a42, a43, a44, a45, a46, a47], [a50, a51, a52, a53, a54, a55, a56, a57], [a60, a61,
    a62, a63, a64, a65, a66, a67], [a70, a71, a72, a73, a74, a75, a76,
    a77]] 4 3 = Some (Def a43)"
  "posAt [[a00, a01, a02, a03, a04, a05, a06, a07], [a10, a11, a12, a13, a14, a15, a16, a17],
    [a20, a21, a22, a23, a24, a25, a26, a27], [a30, a31, a32, a33, a34, a35, a36, a37], [a40,
    a41, a42, a43, a44, a45, a46, a47], [a50, a51, a52, a53, a54, a55, a56, a57], [a60, a61,
    a62, a63, a64, a65, a66, a67], [a70, a71, a72, a73, a74, a75, a76,
    a77]] 4 4 = Some (Def a44)"
  "posAt [[a00, a01, a02, a03, a04, a05, a06, a07], [a10, a11, a12, a13, a14, a15, a16, a17],
    [a20, a21, a22, a23, a24, a25, a26, a27], [a30, a31, a32, a33, a34, a35, a36, a37], [a40,
    a41, a42, a43, a44, a45, a46, a47], [a50, a51, a52, a53, a54, a55, a56, a57], [a60, a61,
    a62, a63, a64, a65, a66, a67], [a70, a71, a72, a73, a74, a75, a76,
    a77]] 4 5 = Some (Def a45)"
  "posAt [[a00, a01, a02, a03, a04, a05, a06, a07], [a10, a11, a12, a13, a14, a15, a16, a17],
    [a20, a21, a22, a23, a24, a25, a26, a27], [a30, a31, a32, a33, a34, a35, a36, a37], [a40,
    a41, a42, a43, a44, a45, a46, a47], [a50, a51, a52, a53, a54, a55, a56, a57], [a60, a61,
    a62, a63, a64, a65, a66, a67], [a70, a71, a72, a73, a74, a75, a76,
    a77]] 4 6 = Some (Def a46)"
  "posAt [[a00, a01, a02, a03, a04, a05, a06, a07], [a10, a11, a12, a13, a14, a15, a16, a17],
    [a20, a21, a22, a23, a24, a25, a26, a27], [a30, a31, a32, a33, a34, a35, a36, a37], [a40,
    a41, a42, a43, a44, a45, a46, a47], [a50, a51, a52, a53, a54, a55, a56, a57], [a60, a61,
    a62, a63, a64, a65, a66, a67], [a70, a71, a72, a73, a74, a75, a76,
    a77]] 4 7 = Some (Def a47)"
  "posAt [[a00, a01, a02, a03, a04, a05, a06, a07], [a10, a11, a12, a13, a14, a15, a16, a17],
    [a20, a21, a22, a23, a24, a25, a26, a27], [a30, a31, a32, a33, a34, a35, a36, a37], [a40,
    a41, a42, a43, a44, a45, a46, a47], [a50, a51, a52, a53, a54, a55, a56, a57], [a60, a61,
    a62, a63, a64, a65, a66, a67], [a70, a71, a72, a73, a74, a75, a76,
    a77]] 5 0 = Some (Def a50)"
  "posAt [[a00, a01, a02, a03, a04, a05, a06, a07], [a10, a11, a12, a13, a14, a15, a16, a17],
    [a20, a21, a22, a23, a24, a25, a26, a27], [a30, a31, a32, a33, a34, a35, a36, a37], [a40,
    a41, a42, a43, a44, a45, a46, a47], [a50, a51, a52, a53, a54, a55, a56, a57], [a60, a61,
    a62, a63, a64, a65, a66, a67], [a70, a71, a72, a73, a74, a75, a76,
    a77]] 5 1 = Some (Def a51)"
  "posAt [[a00, a01, a02, a03, a04, a05, a06, a07], [a10, a11, a12, a13, a14, a15, a16, a17],
    [a20, a21, a22, a23, a24, a25, a26, a27], [a30, a31, a32, a33, a34, a35, a36, a37], [a40,
    a41, a42, a43, a44, a45, a46, a47], [a50, a51, a52, a53, a54, a55, a56, a57], [a60, a61,
    a62, a63, a64, a65, a66, a67], [a70, a71, a72, a73, a74, a75, a76,
    a77]] 5 2 = Some (Def a52)"
  "posAt [[a00, a01, a02, a03, a04, a05, a06, a07], [a10, a11, a12, a13, a14, a15, a16, a17],
    [a20, a21, a22, a23, a24, a25, a26, a27], [a30, a31, a32, a33, a34, a35, a36, a37], [a40,
    a41, a42, a43, a44, a45, a46, a47], [a50, a51, a52, a53, a54, a55, a56, a57], [a60, a61,
    a62, a63, a64, a65, a66, a67], [a70, a71, a72, a73, a74, a75, a76,
    a77]] 5 3 = Some (Def a53)"
  "posAt [[a00, a01, a02, a03, a04, a05, a06, a07], [a10, a11, a12, a13, a14, a15, a16, a17],
    [a20, a21, a22, a23, a24, a25, a26, a27], [a30, a31, a32, a33, a34, a35, a36, a37], [a40,
    a41, a42, a43, a44, a45, a46, a47], [a50, a51, a52, a53, a54, a55, a56, a57], [a60, a61,
    a62, a63, a64, a65, a66, a67], [a70, a71, a72, a73, a74, a75, a76,
    a77]] 5 4 = Some (Def a54)"
  "posAt [[a00, a01, a02, a03, a04, a05, a06, a07], [a10, a11, a12, a13, a14, a15, a16, a17],
    [a20, a21, a22, a23, a24, a25, a26, a27], [a30, a31, a32, a33, a34, a35, a36, a37], [a40,
    a41, a42, a43, a44, a45, a46, a47], [a50, a51, a52, a53, a54, a55, a56, a57], [a60, a61,
    a62, a63, a64, a65, a66, a67], [a70, a71, a72, a73, a74, a75, a76,
    a77]] 5 5 = Some (Def a55)"
  "posAt [[a00, a01, a02, a03, a04, a05, a06, a07], [a10, a11, a12, a13, a14, a15, a16, a17],
    [a20, a21, a22, a23, a24, a25, a26, a27], [a30, a31, a32, a33, a34, a35, a36, a37], [a40,
    a41, a42, a43, a44, a45, a46, a47], [a50, a51, a52, a53, a54, a55, a56, a57], [a60, a61,
    a62, a63, a64, a65, a66, a67], [a70, a71, a72, a73, a74, a75, a76,
    a77]] 5 6 = Some (Def a56)"
  "posAt [[a00, a01, a02, a03, a04, a05, a06, a07], [a10, a11, a12, a13, a14, a15, a16, a17],
    [a20, a21, a22, a23, a24, a25, a26, a27], [a30, a31, a32, a33, a34, a35, a36, a37], [a40,
    a41, a42, a43, a44, a45, a46, a47], [a50, a51, a52, a53, a54, a55, a56, a57], [a60, a61,
    a62, a63, a64, a65, a66, a67], [a70, a71, a72, a73, a74, a75, a76,
    a77]] 5 7 = Some (Def a57)"
  "posAt [[a00, a01, a02, a03, a04, a05, a06, a07], [a10, a11, a12, a13, a14, a15, a16, a17],
    [a20, a21, a22, a23, a24, a25, a26, a27], [a30, a31, a32, a33, a34, a35, a36, a37], [a40,
    a41, a42, a43, a44, a45, a46, a47], [a50, a51, a52, a53, a54, a55, a56, a57], [a60, a61,
    a62, a63, a64, a65, a66, a67], [a70, a71, a72, a73, a74, a75, a76,
    a77]] 6 0 = Some (Def a60)"
  "posAt [[a00, a01, a02, a03, a04, a05, a06, a07], [a10, a11, a12, a13, a14, a15, a16, a17],
    [a20, a21, a22, a23, a24, a25, a26, a27], [a30, a31, a32, a33, a34, a35, a36, a37], [a40,
    a41, a42, a43, a44, a45, a46, a47], [a50, a51, a52, a53, a54, a55, a56, a57], [a60, a61,
    a62, a63, a64, a65, a66, a67], [a70, a71, a72, a73, a74, a75, a76,
    a77]] 6 1 = Some (Def a61)"
  "posAt [[a00, a01, a02, a03, a04, a05, a06, a07], [a10, a11, a12, a13, a14, a15, a16, a17],
    [a20, a21, a22, a23, a24, a25, a26, a27], [a30, a31, a32, a33, a34, a35, a36, a37], [a40,
    a41, a42, a43, a44, a45, a46, a47], [a50, a51, a52, a53, a54, a55, a56, a57], [a60, a61,
    a62, a63, a64, a65, a66, a67], [a70, a71, a72, a73, a74, a75, a76,
    a77]] 6 2 = Some (Def a62)"
  "posAt [[a00, a01, a02, a03, a04, a05, a06, a07], [a10, a11, a12, a13, a14, a15, a16, a17],
    [a20, a21, a22, a23, a24, a25, a26, a27], [a30, a31, a32, a33, a34, a35, a36, a37], [a40,
    a41, a42, a43, a44, a45, a46, a47], [a50, a51, a52, a53, a54, a55, a56, a57], [a60, a61,
    a62, a63, a64, a65, a66, a67], [a70, a71, a72, a73, a74, a75, a76,
    a77]] 6 3 = Some (Def a63)"
  "posAt [[a00, a01, a02, a03, a04, a05, a06, a07], [a10, a11, a12, a13, a14, a15, a16, a17],
    [a20, a21, a22, a23, a24, a25, a26, a27], [a30, a31, a32, a33, a34, a35, a36, a37], [a40,
    a41, a42, a43, a44, a45, a46, a47], [a50, a51, a52, a53, a54, a55, a56, a57], [a60, a61,
    a62, a63, a64, a65, a66, a67], [a70, a71, a72, a73, a74, a75, a76,
    a77]] 6 4 = Some (Def a64)"
  "posAt [[a00, a01, a02, a03, a04, a05, a06, a07], [a10, a11, a12, a13, a14, a15, a16, a17],
    [a20, a21, a22, a23, a24, a25, a26, a27], [a30, a31, a32, a33, a34, a35, a36, a37], [a40,
    a41, a42, a43, a44, a45, a46, a47], [a50, a51, a52, a53, a54, a55, a56, a57], [a60, a61,
    a62, a63, a64, a65, a66, a67], [a70, a71, a72, a73, a74, a75, a76,
    a77]] 6 5 = Some (Def a65)"
  "posAt [[a00, a01, a02, a03, a04, a05, a06, a07], [a10, a11, a12, a13, a14, a15, a16, a17],
    [a20, a21, a22, a23, a24, a25, a26, a27], [a30, a31, a32, a33, a34, a35, a36, a37], [a40,
    a41, a42, a43, a44, a45, a46, a47], [a50, a51, a52, a53, a54, a55, a56, a57], [a60, a61,
    a62, a63, a64, a65, a66, a67], [a70, a71, a72, a73, a74, a75, a76,
    a77]] 6 6 = Some (Def a66)"
  "posAt [[a00, a01, a02, a03, a04, a05, a06, a07], [a10, a11, a12, a13, a14, a15, a16, a17],
    [a20, a21, a22, a23, a24, a25, a26, a27], [a30, a31, a32, a33, a34, a35, a36, a37], [a40,
    a41, a42, a43, a44, a45, a46, a47], [a50, a51, a52, a53, a54, a55, a56, a57], [a60, a61,
    a62, a63, a64, a65, a66, a67], [a70, a71, a72, a73, a74, a75, a76,
    a77]] 6 7 = Some (Def a67)"
  "posAt [[a00, a01, a02, a03, a04, a05, a06, a07], [a10, a11, a12, a13, a14, a15, a16, a17],
    [a20, a21, a22, a23, a24, a25, a26, a27], [a30, a31, a32, a33, a34, a35, a36, a37], [a40,
    a41, a42, a43, a44, a45, a46, a47], [a50, a51, a52, a53, a54, a55, a56, a57], [a60, a61,
    a62, a63, a64, a65, a66, a67], [a70, a71, a72, a73, a74, a75, a76,
    a77]] 7 0 = Some (Def a70)"
  "posAt [[a00, a01, a02, a03, a04, a05, a06, a07], [a10, a11, a12, a13, a14, a15, a16, a17],
    [a20, a21, a22, a23, a24, a25, a26, a27], [a30, a31, a32, a33, a34, a35, a36, a37], [a40,
    a41, a42, a43, a44, a45, a46, a47], [a50, a51, a52, a53, a54, a55, a56, a57], [a60, a61,
    a62, a63, a64, a65, a66, a67], [a70, a71, a72, a73, a74, a75, a76,
    a77]] 7 1 = Some (Def a71)"
  "posAt [[a00, a01, a02, a03, a04, a05, a06, a07], [a10, a11, a12, a13, a14, a15, a16, a17],
    [a20, a21, a22, a23, a24, a25, a26, a27], [a30, a31, a32, a33, a34, a35, a36, a37], [a40,
    a41, a42, a43, a44, a45, a46, a47], [a50, a51, a52, a53, a54, a55, a56, a57], [a60, a61,
    a62, a63, a64, a65, a66, a67], [a70, a71, a72, a73, a74, a75, a76,
    a77]] 7 2 = Some (Def a72)"
  "posAt [[a00, a01, a02, a03, a04, a05, a06, a07], [a10, a11, a12, a13, a14, a15, a16, a17],
    [a20, a21, a22, a23, a24, a25, a26, a27], [a30, a31, a32, a33, a34, a35, a36, a37], [a40,
    a41, a42, a43, a44, a45, a46, a47], [a50, a51, a52, a53, a54, a55, a56, a57], [a60, a61,
    a62, a63, a64, a65, a66, a67], [a70, a71, a72, a73, a74, a75, a76,
    a77]] 7 3 = Some (Def a73)"
  "posAt [[a00, a01, a02, a03, a04, a05, a06, a07], [a10, a11, a12, a13, a14, a15, a16, a17],
    [a20, a21, a22, a23, a24, a25, a26, a27], [a30, a31, a32, a33, a34, a35, a36, a37], [a40,
    a41, a42, a43, a44, a45, a46, a47], [a50, a51, a52, a53, a54, a55, a56, a57], [a60, a61,
    a62, a63, a64, a65, a66, a67], [a70, a71, a72, a73, a74, a75, a76,
    a77]] 7 4 = Some (Def a74)"
  "posAt [[a00, a01, a02, a03, a04, a05, a06, a07], [a10, a11, a12, a13, a14, a15, a16, a17],
    [a20, a21, a22, a23, a24, a25, a26, a27], [a30, a31, a32, a33, a34, a35, a36, a37], [a40,
    a41, a42, a43, a44, a45, a46, a47], [a50, a51, a52, a53, a54, a55, a56, a57], [a60, a61,
    a62, a63, a64, a65, a66, a67], [a70, a71, a72, a73, a74, a75, a76,
    a77]] 7 5 = Some (Def a75)"
  "posAt [[a00, a01, a02, a03, a04, a05, a06, a07], [a10, a11, a12, a13, a14, a15, a16, a17],
    [a20, a21, a22, a23, a24, a25, a26, a27], [a30, a31, a32, a33, a34, a35, a36, a37], [a40,
    a41, a42, a43, a44, a45, a46, a47], [a50, a51, a52, a53, a54, a55, a56, a57], [a60, a61,
    a62, a63, a64, a65, a66, a67], [a70, a71, a72, a73, a74, a75, a76,
    a77]] 7 6 = Some (Def a76)"
  "posAt [[a00, a01, a02, a03, a04, a05, a06, a07], [a10, a11, a12, a13, a14, a15, a16, a17],
    [a20, a21, a22, a23, a24, a25, a26, a27], [a30, a31, a32, a33, a34, a35, a36, a37], [a40,
    a41, a42, a43, a44, a45, a46, a47], [a50, a51, a52, a53, a54, a55, a56, a57], [a60, a61,
    a62, a63, a64, a65, a66, a67], [a70, a71, a72, a73, a74, a75, a76,
    a77]] 7 7 = Some (Def a77)"
  by (simp_all add: posAt_def)

lemma literal_edge:
  "posAt [[a00, a01, a02, a03, a04, a05, a06, a07], [a10, a11, a12, a13, a14, a15, a16, a17],
    [a20, a21, a22, a23, a24, a25, a26, a27], [a30, a31, a32, a33, a34, a35, a36, a37], [a40,
    a41, a42, a43, a44, a45, a46, a47], [a50, a51, a52, a53, a54, a55, a56, a57], [a60, a61,
    a62, a63, a64, a65, a66, a67], [a70, a71, a72, a73, a74, a75, a76,
    a77]] 0 8 = Some Undefined"
  "posAt [[a00, a01, a02, a03, a04, a05, a06, a07], [a10, a11, a12, a13, a14, a15, a16, a17],
    [a20, a21, a22, a23, a24, a25, a26, a27], [a30, a31, a32, a33, a34, a35, a36, a37], [a40,
    a41, a42, a43, a44, a45, a46, a47], [a50, a51, a52, a53, a54, a55, a56, a57], [a60, a61,
    a62, a63, a64, a65, a66, a67], [a70, a71, a72, a73, a74, a75, a76,
    a77]] 1 8 = Some Undefined"
  "posAt [[a00, a01, a02, a03, a04, a05, a06, a07], [a10, a11, a12, a13, a14, a15, a16, a17],
    [a20, a21, a22, a23, a24, a25, a26, a27], [a30, a31, a32, a33, a34, a35, a36, a37], [a40,
    a41, a42, a43, a44, a45, a46, a47], [a50, a51, a52, a53, a54, a55, a56, a57], [a60, a61,
    a62, a63, a64, a65, a66, a67], [a70, a71, a72, a73, a74, a75, a76,
    a77]] 2 8 = Some Undefined"
  "posAt [[a00, a01, a02, a03, a04, a05, a06, a07], [a10, a11, a12, a13, a14, a15, a16, a17],
    [a20, a21, a22, a23, a24, a25, a26, a27], [a30, a31, a32, a33, a34, a35, a36, a37], [a40,
    a41, a42, a43, a44, a45, a46, a47], [a50, a51, a52, a53, a54, a55, a56, a57], [a60, a61,
    a62, a63, a64, a65, a66, a67], [a70, a71, a72, a73, a74, a75, a76,
    a77]] 3 8 = Some Undefined"
  "posAt [[a00, a01, a02, a03, a04, a05, a06, a07], [a10, a11, a12, a13, a14, a15, a16, a17],
    [a20, a21, a22, a23, a24, a25, a26, a27], [a30, a31, a32, a33, a34, a35, a36, a37], [a40,
    a41, a42, a43, a44, a45, a46, a47], [a50, a51, a52, a53, a54, a55, a56, a57], [a60, a61,
    a62, a63, a64, a65, a66, a67], [a70, a71, a72, a73, a74, a75, a76,
    a77]] 4 8 = Some Undefined"
  "posAt [[a00, a01, a02, a03, a04, a05, a06, a07], [a10, a11, a12, a13, a14, a15, a16, a17],
    [a20, a21, a22, a23, a24, a25, a26, a27], [a30, a31, a32, a33, a34, a35, a36, a37], [a40,
    a41, a42, a43, a44, a45, a46, a47], [a50, a51, a52, a53, a54, a55, a56, a57], [a60, a61,
    a62, a63, a64, a65, a66, a67], [a70, a71, a72, a73, a74, a75, a76,
    a77]] 5 8 = Some Undefined"
  "posAt [[a00, a01, a02, a03, a04, a05, a06, a07], [a10, a11, a12, a13, a14, a15, a16, a17],
    [a20, a21, a22, a23, a24, a25, a26, a27], [a30, a31, a32, a33, a34, a35, a36, a37], [a40,
    a41, a42, a43, a44, a45, a46, a47], [a50, a51, a52, a53, a54, a55, a56, a57], [a60, a61,
    a62, a63, a64, a65, a66, a67], [a70, a71, a72, a73, a74, a75, a76,
    a77]] 6 8 = Some Undefined"
  "posAt [[a00, a01, a02, a03, a04, a05, a06, a07], [a10, a11, a12, a13, a14, a15, a16, a17],
    [a20, a21, a22, a23, a24, a25, a26, a27], [a30, a31, a32, a33, a34, a35, a36, a37], [a40,
    a41, a42, a43, a44, a45, a46, a47], [a50, a51, a52, a53, a54, a55, a56, a57], [a60, a61,
    a62, a63, a64, a65, a66, a67], [a70, a71, a72, a73, a74, a75, a76,
    a77]] 7 8 = Some Undefined"
  "posAt [[a00, a01, a02, a03, a04, a05, a06, a07], [a10, a11, a12, a13, a14, a15, a16, a17],
    [a20, a21, a22, a23, a24, a25, a26, a27], [a30, a31, a32, a33, a34, a35, a36, a37], [a40,
    a41, a42, a43, a44, a45, a46, a47], [a50, a51, a52, a53, a54, a55, a56, a57], [a60, a61,
    a62, a63, a64, a65, a66, a67], [a70, a71, a72, a73, a74, a75, a76,
    a77]] 0 (- 1) = Some Undefined"
  "posAt [[a00, a01, a02, a03, a04, a05, a06, a07], [a10, a11, a12, a13, a14, a15, a16, a17],
    [a20, a21, a22, a23, a24, a25, a26, a27], [a30, a31, a32, a33, a34, a35, a36, a37], [a40,
    a41, a42, a43, a44, a45, a46, a47], [a50, a51, a52, a53, a54, a55, a56, a57], [a60, a61,
    a62, a63, a64, a65, a66, a67], [a70, a71, a72, a73, a74, a75, a76,
    a77]] 1 (- 1) = Some Undefined"
  "posAt [[a00, a01, a02, a03, a04, a05, a06, a07], [a10, a11, a12, a13, a14, a15, a16, a17],
    [a20, a21, a22, a23, a24, a25, a26, a27], [a30, a31, a32, a33, a34, a35, a36, a37], [a40,
    a41, a42, a43, a44, a45, a46, a47], [a50, a51, a52, a53, a54, a55, a56, a57], [a60, a61,
    a62, a63, a64, a65, a66, a67], [a70, a71, a72, a73, a74, a75, a76,
    a77]] 2 (- 1) = Some Undefined"
  "posAt [[a00, a01, a02, a03, a04, a05, a06, a07], [a10, a11, a12, a13, a14, a15, a16, a17],
    [a20, a21, a22, a23, a24, a25, a26, a27], [a30, a31, a32, a33, a34, a35, a36, a37], [a40,
    a41, a42, a43, a44, a45, a46, a47], [a50, a51, a52, a53, a54, a55, a56, a57], [a60, a61,
    a62, a63, a64, a65, a66, a67], [a70, a71, a72, a73, a74, a75, a76,
    a77]] 3 (- 1) = Some Undefined"
  "posAt [[a00, a01, a02, a03, a04, a05, a06, a07], [a10, a11, a12, a13, a14, a15, a16, a17],
    [a20, a21, a22, a23, a24, a25, a26, a27], [a30, a31, a32, a33, a34, a35, a36, a37], [a40,
    a41, a42, a43, a44, a45, a46, a47], [a50, a51, a52, a53, a54, a55, a56, a57], [a60, a61,
    a62, a63, a64, a65, a66, a67], [a70, a71, a72, a73, a74, a75, a76,
    a77]] 4 (- 1) = Some Undefined"
  "posAt [[a00, a01, a02, a03, a04, a05, a06, a07], [a10, a11, a12, a13, a14, a15, a16, a17],
    [a20, a21, a22, a23, a24, a25, a26, a27], [a30, a31, a32, a33, a34, a35, a36, a37], [a40,
    a41, a42, a43, a44, a45, a46, a47], [a50, a51, a52, a53, a54, a55, a56, a57], [a60, a61,
    a62, a63, a64, a65, a66, a67], [a70, a71, a72, a73, a74, a75, a76,
    a77]] 5 (- 1) = Some Undefined"
  "posAt [[a00, a01, a02, a03, a04, a05, a06, a07], [a10, a11, a12, a13, a14, a15, a16, a17],
    [a20, a21, a22, a23, a24, a25, a26, a27], [a30, a31, a32, a33, a34, a35, a36, a37], [a40,
    a41, a42, a43, a44, a45, a46, a47], [a50, a51, a52, a53, a54, a55, a56, a57], [a60, a61,
    a62, a63, a64, a65, a66, a67], [a70, a71, a72, a73, a74, a75, a76,
    a77]] 6 (- 1) = Some Undefined"
  "posAt [[a00, a01, a02, a03, a04, a05, a06, a07], [a10, a11, a12, a13, a14, a15, a16, a17],
    [a20, a21, a22, a23, a24, a25, a26, a27], [a30, a31, a32, a33, a34, a35, a36, a37], [a40,
    a41, a42, a43, a44, a45, a46, a47], [a50, a51, a52, a53, a54, a55, a56, a57], [a60, a61,
    a62, a63, a64, a65, a66, a67], [a70, a71, a72, a73, a74, a75, a76,
    a77]] 7 (- 1) = Some Undefined"
  by (simp_all add: posAt_def)

lemma literal_write:
  "setPieceOnSquare [[a00, a01, a02, a03, a04, a05, a06, a07], [a10, a11, a12, a13, a14, a15,
    a16, a17], [a20, a21, a22, a23, a24, a25, a26, a27], [a30, a31, a32, a33, a34, a35, a36,
    a37], [a40, a41, a42, a43, a44, a45, a46, a47], [a50, a51, a52, a53, a54, a55, a56, a57],
    [a60, a61, a62, a63, a64, a65, a66, a67], [a70, a71, a72, a73, a74, a75, a76,
    a77]] ''a1'' x = [[x, a01, a02, a03, a04, a05, a06, a07], [a10, a11, a12, a13, a14, a15,
    a16, a17], [a20, a21, a22, a23, a24, a25, a26, a27], [a30, a31, a32, a33, a34, a35, a36,
    a37], [a40, a41, a42, a43, a44, a45, a46, a47], [a50, a51, a52, a53, a54, a55, a56, a57],
    [a60, a61, a62, a63, a64, a65, a66, a67], [a70, a71, a72, a73, a74, a75, a76, a77]]"
  "setPieceOnSquare [[a00, a01, a02, a03, a04, a05, a06, a07], [a10, a11, a12, a13, a14, a15,
    a16, a17], [a20, a21, a22, a23, a24, a25, a26, a27], [a30, a31, a32, a33, a34, a35, a36,
    a37], [a40, a41, a42, a43, a44, a45, a46, a47], [a50, a51, a52, a53, a54, a55, a56, a57],
    [a60, a61, a62, a63, a64, a65, a66, a67], [a70, a71, a72, a73, a74, a75, a76,
    a77]] ''a2'' x = [[a00, x, a02, a03, a04, a05, a06, a07], [a10, a11, a12, a13, a14, a15,
    a16, a17], [a20, a21, a22, a23, a24, a25, a26, a27], [a30, a31, a32, a33, a34, a35, a36,
    a37], [a40, a41, a42, a43, a44, a45, a46, a47], [a50, a51, a52, a53, a54, a55, a56, a57],
    [a60, a61, a62, a63, a64, a65, a66, a67], [a70, a71, a72, a73, a74, a75, a76, a77]]"
  "setPieceOnSquare [[a00, a01, a02, a03, a04, a05, a06, a07], [a10, a11, a12, a13, a14, a15,
    a16, a17], [a20, a21, a22, a23, a24, a25, a26, a27], [a30, a31, a32, a33, a34, a35, a36,
    a37], [a40, a41, a42, a43, a44, a45, a46, a47], [a50, a51, a52, a53, a54, a55, a56, a57],
    [a60, a61, a62, a63, a64, a65, a66, a67], [a70, a71, a72, a73, a74, a75, a76,
    a77]] ''a3'' x = [[a00, a01, x, a03, a04, a05, a06, a07], [a10, a11, a12, a13, a14, a15,
    a16, a17], [a20, a21, a22, a23, a24, a25, a26, a27], [a30, a31, a32, a33, a34, a35, a36,
    a37], [a40, a41, a42, a43, a44, a45, a46, a47], [a50, a51, a52, a53, a54, a55, a56, a57],
    [a60, a61, a62, a63, a64, a65, a66, a67], [a70, a71, a72, a73, a74, a75, a76, a77]]"
  "setPieceOnSquare [[a00, a01, a02, a03, a04, a05, a06, a07], [a10, a11, a12, a13, a14, a15,
    a16, a17], [a20, a21, a22, a23, a24, a25, a26, a27], [a30, a31, a32, a33, a34, a35, a36,
    a37], [a40, a41, a42, a43, a44, a45, a46, a47], [a50, a51, a52, a53, a54, a55, a56, a57],
    [a60, a61, a62, a63, a64, a65, a66, a67], [a70, a71, a72, a73, a74, a75, a76,
    a77]] ''a4'' x = [[a00, a01, a02, x, a04, a05, a06, a07], [a10, a11, a12, a13, a14, a15,
    a16, a17], [a20, a21, a22, a23, a24, a25, a26, a27], [a30, a31, a32, a33, a34, a35, a36,
    a37], [a40, a41, a42, a43, a44, a45, a46, a47], [a50, a51, a52, a53, a54, a55, a56, a57],
    [a60, a61, a62, a63, a64, a65, a66, a67], [a70, a71, a72, a73, a74, a75, a76, a77]]"
  "setPieceOnSquare [[a00, a01, a02, a03, a04, a05, a06, a07], [a10, a11, a12, a13, a14, a15,
    a16, a17], [a20, a21, a22, a23, a24, a25, a26, a27], [a30, a31, a32, a33, a34, a35, a36,
    a37], [a40, a41, a42, a43, a44, a45, a46, a47], [a50, a51, a52, a53, a54, a55, a56, a57],
    [a60, a61, a62, a63, a64, a65, a66, a67], [a70, a71, a72, a73, a74, a75, a76,
    a77]] ''a5'' x = [[a00, a01, a02, a03, x, a05, a06, a07], [a10, a11, a12, a13, a14, a15,
    a16, a17], [a20, a21, a22, a23, a24, a25, a26, a27], [a30, a31, a32, a33, a34, a35, a36,
    a37], [a40, a41, a42, a43, a44, a45, a46, a47], [a50, a51, a52, a53, a54, a55, a56, a57],
    [a60, a61, a62, a63, a64, a65, a66, a67], [a70, a71, a72, a73, a74, a75, a76, a77]]"
  "setPieceOnSquare [[a00, a01, a02, a03, a04, a05, a06, a07], [a10, a11, a12, a13, a14, a15,
    a16, a17], [a20, a21, a22, a23, a24, a25, a26, a27], [a30, a31, a32, a33, a34, a35, a36,
    a37], [a40, a41, a42, a43, a44, a45, a46, a47], [a50, a51, a52, a53, a54, a55, a56, a57],
    [a60, a61, a62, a63, a64, a65, a66, a67], [a70, a71, a72, a73, a74, a75, a76,
    a77]] ''a6'' x = [[a00, a01, a02, a03, a04, x, a06, a07], [a10, a11, a12, a13, a14, a15,
    a16, a17], [a20, a21, a22, a23, a24, a25, a26, a27], [a30, a31, a32, a33, a34, a35, a36,
    a37], [a40, a41, a42, a43, a44, a45, a46, a47], [a50, a51, a52, a53, a54, a55, a56, a57],
    [a60, a61, a62, a63, a64, a65, a66, a67], [a70, a71, a72, a73, a74, a75, a76, a77]]"
  "setPieceOnSquare [[a00, a01, a02, a03, a04, a05, a06, a07], [a10, a11, a12, a13, a14, a15,
    a16, a17], [a20, a21, a22, a23, a24, a25, a26, a27], [a30, a31, a32, a33, a34, a35, a36,
    a37], [a40, a41, a42, a43, a44, a45, a46, a47], [a50, a51, a52, a53, a54, a55, a56, a57],
    [a60, a61, a62, a63, a64, a65, a66, a67], [a70, a71, a72, a73, a74, a75, a76,
    a77]] ''a7'' x = [[a00, a01, a02, a03, a04, a05, x, a07], [a10, a11, a12, a13, a14, a15,
    a16, a17], [a20, a21, a22, a23, a24, a25, a26, a27], [a30, a31, a32, a33, a34, a35, a36,
    a37], [a40, a41, a42, a43, a44, a45, a46, a47], [a50, a51, a52, a53, a54, a55, a56, a57],
    [a60, a61, a62, a63, a64, a65, a66, a67], [a70, a71, a72, a73, a74, a75, a76, a77]]"
  "setPieceOnSquare [[a00, a01, a02, a03, a04, a05, a06, a07], [a10, a11, a12, a13, a14, a15,
    a16, a17], [a20, a21, a22, a23, a24, a25, a26, a27], [a30, a31, a32, a33, a34, a35, a36,
    a37], [a40, a41, a42, a43, a44, a45, a46, a47], [a50, a51, a52, a53, a54, a55, a56, a57],
    [a60, a61, a62, a63, a64, a65, a66, a67], [a70, a71, a72, a73, a74, a75, a76,
    a77]] ''a8'' x = [[a00, a01, a02, a03, a04, a05, a06, x], [a10, a11, a12, a13, a14, a15,
    a16, a17], [a20, a21, a22, a23, a24, a25, a26, a27], [a30, a31, a32, a33, a34, a35, a36,
    a37], [a40, a41, a42, a43, a44, a45, a46, a47], [a50, a51, a52, a53, a54, a55, a56, a57],
    [a60, a61, a62, a63, a64, a65, a66, a67], [a70, a71, a72, a73, a74, a75, a76, a77]]"
  "setPieceOnSquare [[a00, a01, a02, a03, a04, a05, a06, a07], [a10, a11, a12, a13, a14, a15,
    a16, a17], [a20, a21, a22, a23, a24, a25, a26, a27], [a30, a31, a32, a33, a34, a35, a36,
    a37], [a40, a41, a42, a43, a44, a45, a46, a47], [a50, a51, a52, a53, a54, a55, a56, a57],
    [a60, a61, a62, a63, a64, a65, a66, a67], [a70, a71, a72, a73, a74, a75, a76,
    a77]] ''b1'' x = [[a00, a01, a02, a03, a04, a05, a06, a07], [x, a11, a12, a13, a14, a15,
    a16, a17], [a20, a21, a22, a23, a24, a25, a26, a27], [a30, a31, a32, a33, a34, a35, a36,
    a37], [a40, a41, a42, a43, a44, a45, a46, a47], [a50, a51, a52, a53, a54, a55, a56, a57],
    [a60, a61, a62, a63, a64, a65, a66, a67], [a70, a71, a72, a73, a74, a75, a76, a77]]"
  "setPieceOnSquare [[a00, a01, a02, a03, a04, a05, a06, a07], [a10, a11, a12, a13, a14, a15,
    a16, a17], [a20, a21, a22, a23, a24, a25, a26, a27], [a30, a31, a32, a33, a34, a35, a36,
    a37], [a40, a41, a42, a43, a44, a45, a46, a47], [a50, a51, a52, a53, a54, a55, a56, a57],
    [a60, a61, a62, a63, a64, a65, a66, a67], [a70, a71, a72, a73, a74, a75, a76,
    a77]] ''b2'' x = [[a00, a01, a02, a03, a04, a05, a06, a07], [a10, x, a12, a13, a14, a15,
    a16, a17], [a20, a21, a22, a23, a24, a25, a26, a27], [a30, a31, a32, a33, a34, a35, a36,
    a37], [a40, a41, a42, a43, a44, a45, a46, a47], [a50, a51, a52, a53, a54, a55, a56, a57],
    [a60, a61, a62, a63, a64, a65, a66, a67], [a70, a71, a72, a73, a74, a75, a76, a77]]"
  "setPieceOnSquare [[a00, a01, a02, a03, a04, a05, a06, a07], [a10, a11, a12, a13, a14, a15,
    a16, a17], [a20, a21, a22, a23, a24, a25, a26, a27], [a30, a31, a32, a33, a34, a35, a36,
    a37], [a40, a41, a42, a43, a44, a45, a46, a47], [a50, a51, a52, a53, a54, a55, a56, a57],
    [a60, a61, a62, a63, a64, a65, a66, a67], [a70, a71, a72, a73, a74, a75, a76,
    a77]] ''b3'' x = [[a00, a01, a02, a03, a04, a05, a06, a07], [a10, a11, x, a13, a14, a15,
    a16, a17], [a20, a21, a22, a23, a24, a25, a26, a27], [a30, a31, a32, a33, a34, a35, a36,
    a37], [a40, a41, a42, a43, a44, a45, a46, a47], [a50, a51, a52, a53, a54, a55, a56, a57],
    [a60, a61, a62, a63, a64, a65, a66, a67], [a70, a71, a72, a73, a74, a75, a76, a77]]"
  "setPieceOnSquare [[a00, a01, a02, a03, a04, a05, a06, a07], [a10, a11, a12, a13, a14, a15,
    a16, a17], [a20, a21, a22, a23, a24, a25, a26, a27], [a30, a31, a32, a33, a34, a35, a36,
    a37], [a40, a41, a42, a43, a44, a45, a46, a47], [a50, a51, a52, a53, a54, a55, a56, a57],
    [a60, a61, a62, a63, a64, a65, a66, a67], [a70, a71, a72, a73, a74, a75, a76,
    a77]] ''b4'' x = [[a00, a01, a02, a03, a04, a05, a06, a07], [a10, a11, a12, x, a14, a15,
    a16, a17], [a20, a21, a22, a23, a24, a25, a26, a27], [a30, a31, a32, a33, a34, a35, a36,
    a37], [a40, a41, a42, a43, a44, a45, a46, a47], [a50, a51, a52, a53, a54, a55, a56, a57],
    [a60, a61, a62, a63, a64, a65, a66, a67], [a70, a71, a72, a73, a74, a75, a76, a77]]"
  "setPieceOnSquare [[a00, a01, a02, a03, a04, a05, a06, a07], [a10, a11, a12, a13, a14, a15,
    a16, a17], [a20, a21, a22, a23, a24, a25, a26, a27], [a30, a31, a32, a33, a34, a35, a36,
    a37], [a40, a41, a42, a43, a44, a45, a46, a47], [a50, a51, a52, a53, a54, a55, a56, a57],
    [a60, a61, a62, a63, a64, a65, a66, a67], [a70, a71, a72, a73, a74, a75, a76,
    a77]] ''b5'' x = [[a00, a01, a02, a03, a04, a05, a06, a07], [a10, a11, a12, a13, x, a15,
    a16, a17], [a20, a21, a22, a23, a24, a25, a26, a27], [a30, a31, a32, a33, a34, a35, a36,
    a37], [a40, a41, a42, a43, a44, a45, a46, a47], [a50, a51, a52, a53, a54, a55, a56, a57],
    [a60, a61, a62, a63, a64, a65, a66, a67], [a70, a71, a72, a73, a74, a75, a76, a77]]"
  "setPieceOnSquare [[a00, a01, a02, a03, a04, a05, a06, a07], [a10, a11, a12, a13, a14, a15,
    a16, a17], [a20, a21, a22, a23, a24, a25, a26, a27], [a30, a31, a32, a33, a34, a35, a36,
    a37], [a40, a41, a42, a43, a44, a45, a46, a47], [a50, a51, a52, a53, a54, a55, a56, a57],
    [a60, a61, a62, a63, a64, a65, a66, a67], [a70, a71, a72, a73, a74, a75, a76,
    a77]] ''b6'' x = [[a00, a01, a02, a03, a04, a05, a06, a07], [a10, a11, a12, a13, a14, x,
    a16, a17], [a20, a21, a22, a23, a24, a25, a26, a27], [a30, a31, a32, a33, a34, a35, a36,
    a37], [a40, a41, a42, a43, a44, a45, a46, a47], [a50, a51, a52, a53, a54, a55, a56, a57],
    [a60, a61, a62, a63, a64, a65, a66, a67], [a70, a71, a72, a73, a74, a75, a76, a77]]"
  "setPieceOnSquare [[a00, a01, a02, a03, a04, a05, a06, a07], [a10, a11, a12, a13, a14, a15,
    a16, a17], [a20, a21, a22, a23, a24, a25, a26, a27], [a30, a31, a32, a33, a34, a35, a36,
    a37], [a40, a41, a42, a43, a44, a45, a46, a47], [a50, a51, a52, a53, a54, a55, a56, a57],
    [a60, a61, a62, a63, a64, a65, a66, a67], [a70, a71, a72, a73, a74, a75, a76,
    a77]] ''b7'' x = [[a00, a01, a02, a03, a04, a05, a06, a07], [a10, a11, a12, a13, a14, a15,
    x, a17], [a20, a21, a22, a23, a24, a25, a26, a27], [a30, a31, a32, a33, a34, a35, a36,
    a37], [a40, a41, a42, a43, a44, a45, a46, a47], [a50, a51, a52, a53, a54, a55, a56, a57],
    [a60, a61, a62, a63, a64, a65, a66, a67], [a70, a71, a72, a73, a74, a75, a76, a77]]"
  "setPieceOnSquare [[a00, a01, a02, a03, a04, a05, a06, a07], [a10, a11, a12, a13, a14, a15,
    a16, a17], [a20, a21, a22, a23, a24, a25, a26, a27], [a30, a31, a32, a33, a34, a35, a36,
    a37], [a40, a41, a42, a43, a44, a45, a46, a47], [a50, a51, a52, a53, a54, a55, a56, a57],
    [a60, a61, a62, a63, a64, a65, a66, a67], [a70, a71, a72, a73, a74, a75, a76,
    a77]] ''b8'' x = [[a00, a01, a02, a03, a04, a05, a06, a07], [a10, a11, a12, a13, a14, a15,
    a16, x], [a20, a21, a22, a23, a24, a25, a26, a27], [a30, a31, a32, a33, a34, a35, a36,
    a37], [a40, a41, a42, a43, a44, a45, a46, a47], [a50, a51, a52, a53, a54, a55, a56, a57],
    [a60, a61, a62, a63, a64, a65, a66, a67], [a70, a71, a72, a73, a74, a75, a76, a77]]"
  "setPieceOnSquare [[a00, a01, a02, a03, a04, a05, a06, a07], [a10, a11, a12, a13, a14, a15,
    a16, a17], [a20, a21, a22, a23, a24, a25, a26, a27], [a30, a31, a32, a33, a34, a35, a36,
    a37], [a40, a41, a42, a43, a44, a45, a46, a47], [a50, a51, a52, a53, a54, a55, a56, a57],
    [a60, a61, a62, a63, a64, a65, a66, a67], [a70, a71, a72, a73, a74, a75, a76,
    a77]] ''c1'' x = [[a00, a01, a02, a03, a04, a05, a06, a07], [a10, a11, a12, a13, a14, a15,
    a16, a17], [x, a21, a22, a23, a24, a25, a26, a27], [a30, a31, a32, a33, a34, a35, a36,
    a37], [a40, a41, a42, a43, a44, a45, a46, a47], [a50, a51, a52, a53, a54, a55, a56, a57],
    [a60, a61, a62, a63, a64, a65, a66, a67], [a70, a71, a72, a73, a74, a75, a76, a77]]"
  "setPieceOnSquare [[a00, a01, a02, a03, a04, a05, a06, a07], [a10, a11, a12, a13, a14, a15,
    a16, a17], [a20, a21, a22, a23, a24, a25, a26, a27], [a30, a31, a32, a33, a34, a35, a36,
    a37], [a40, a41, a42, a43, a44, a45, a46, a47], [a50, a51, a52, a53, a54, a55, a56, a57],
    [a60, a61, a62, a63, a64, a65, a66, a67], [a70, a71, a72, a73, a74, a75, a76,
    a77]] ''c2'' x = [[a00, a01, a02, a03, a04, a05, a06, a07], [a10, a11, a12, a13, a14, a15,
    a16, a17], [a20, x, a22, a23, a24, a25, a26, a27], [a30, a31, a32, a33, a34, a35, a36,
    a37], [a40, a41, a42, a43, a44, a45, a46, a47], [a50, a51, a52, a53, a54, a55, a56, a57],
    [a60, a61, a62, a63, a64, a65, a66, a67], [a70, a71, a72, a73, a74, a75, a76, a77]]"
  "setPieceOnSquare [[a00, a01, a02, a03, a04, a05, a06, a07], [a10, a11, a12, a13, a14, a15,
    a16, a17], [a20, a21, a22, a23, a24, a25, a26, a27], [a30, a31, a32, a33, a34, a35, a36,
    a37], [a40, a41, a42, a43, a44, a45, a46, a47], [a50, a51, a52, a53, a54, a55, a56, a57],
    [a60, a61, a62, a63, a64, a65, a66, a67], [a70, a71, a72, a73, a74, a75, a76,
    a77]] ''c3'' x = [[a00, a01, a02, a03, a04, a05, a06, a07], [a10, a11, a12, a13, a14, a15,
    a16, a17], [a20, a21, x, a23, a24, a25, a26, a27], [a30, a31, a32, a33, a34, a35, a36,
    a37], [a40, a41, a42, a43, a44, a45, a46, a47], [a50, a51, a52, a53, a54, a55, a56, a57],
    [a60, a61, a62, a63, a64, a65, a66, a67], [a70, a71, a72, a73, a74, a75, a76, a77]]"
  "setPieceOnSquare [[a00, a01, a02, a03, a04, a05, a06, a07], [a10, a11, a12, a13, a14, a15,
    a16, a17], [a20, a21, a22, a23, a24, a25, a26, a27], [a30, a31, a32, a33, a34, a35, a36,
    a37], [a40, a41, a42, a43, a44, a45, a46, a47], [a50, a51, a52, a53, a54, a55, a56, a57],
    [a60, a61, a62, a63, a64, a65, a66, a67], [a70, a71, a72, a73, a74, a75, a76,
    a77]] ''c4'' x = [[a00, a01, a02, a03, a04, a05, a06, a07], [a10, a11, a12, a13, a14, a15,
    a16, a17], [a20, a21, a22, x, a24, a25, a26, a27], [a30, a31, a32, a33, a34, a35, a36,
    a37], [a40, a41, a42, a43, a44, a45, a46, a47], [a50, a51, a52, a53, a54, a55, a56, a57],
    [a60, a61, a62, a63, a64, a65, a66, a67], [a70, a71, a72, a73, a74, a75, a76, a77]]"
  "setPieceOnSquare [[a00, a01, a02, a03, a04, a05, a06, a07], [a10, a11, a12, a13, a14, a15,
    a16, a17], [a20, a21, a22, a23, a24, a25, a26, a27], [a30, a31, a32, a33, a34, a35, a36,
    a37], [a40, a41, a42, a43, a44, a45, a46, a47], [a50, a51, a52, a53, a54, a55, a56, a57],
    [a60, a61, a62, a63, a64, a65, a66, a67], [a70, a71, a72, a73, a74, a75, a76,
    a77]] ''c5'' x = [[a00, a01, a02, a03, a04, a05, a06, a07], [a10, a11, a12, a13, a14, a15,
    a16, a17], [a20, a21, a22, a23, x, a25, a26, a27], [a30, a31, a32, a33, a34, a35, a36,
    a37], [a40, a41, a42, a43, a44, a45, a46, a47], [a50, a51, a52, a53, a54, a55, a56, a57],
    [a60, a61, a62, a63, a64, a65, a66, a67], [a70, a71, a72, a73, a74, a75, a76, a77]]"
  "setPieceOnSquare [[a00, a01, a02, a03, a04, a05, a06, a07], [a10, a11, a12, a13, a14, a15,
    a16, a17], [a20, a21, a22, a23, a24, a25, a26, a27], [a30, a31, a32, a33, a34, a35, a36,
    a37], [a40, a41, a42, a43, a44, a45, a46, a47], [a50, a51, a52, a53, a54, a55, a56, a57],
    [a60, a61, a62, a63, a64, a65, a66, a67], [a70, a71, a72, a73, a74, a75, a76,
    a77]] ''c6'' x = [[a00, a01, a02, a03, a04, a05, a06, a07], [a10, a11, a12, a13, a14, a15,
    a16, a17], [a20, a21, a22, a23, a24, x, a26, a27], [a30, a31, a32, a33, a34, a35, a36,
    a37], [a40, a41, a42, a43, a44, a45, a46, a47], [a50, a51, a52, a53, a54, a55, a56, a57],
    [a60, a61, a62, a63, a64, a65, a66, a67], [a70, a71, a72, a73, a74, a75, a76, a77]]"
  "setPieceOnSquare [[a00, a01, a02, a03, a04, a05, a06, a07], [a10, a11, a12, a13, a14, a15,
    a16, a17], [a20, a21, a22, a23, a24, a25, a26, a27], [a30, a31, a32, a33, a34, a35, a36,
    a37], [a40, a41, a42, a43, a44, a45, a46, a47], [a50, a51, a52, a53, a54, a55, a56, a57],
    [a60, a61, a62, a63, a64, a65, a66, a67], [a70, a71, a72, a73, a74, a75, a76,
    a77]] ''c7'' x = [[a00, a01, a02, a03, a04, a05, a06, a07], [a10, a11, a12, a13, a14, a15,
    a16, a17], [a20, a21, a22, a23, a24, a25, x, a27], [a30, a31, a32, a33, a34, a35, a36,
    a37], [a40, a41, a42, a43, a44, a45, a46, a47], [a50, a51, a52, a53, a54, a55, a56, a57],
    [a60, a61, a62, a63, a64, a65, a66, a67], [a70, a71, a72, a73, a74, a75, a76, a77]]"
  "setPieceOnSquare [[a00, a01, a02, a03, a04, a05, a06, a07], [a10, a11, a12, a13, a14, a15,
    a16, a17], [a20, a21, a22, a23, a24, a25, a26, a27], [a30, a31, a32, a33, a34, a35, a36,
    a37], [a40, a41, a42, a43, a44, a45, a46, a47], [a50, a51, a52, a53, a54, a55, a56, a57],
    [a60, a61, a62, a63, a64, a65, a66, a67], [a70, a71, a72, a73, a74, a75, a76,
    a77]] ''c8'' x = [[a00, a01, a02, a03, a04, a05, a06, a07], [a10, a11, a12, a13, a14, a15,
    a16, a17], [a20, a21, a22, a23, a24, a25, a26, x], [a30, a31, a32, a33, a34, a35, a36,
    a37], [a40, a41, a42, a43, a44, a45, a46, a47], [a50, a51, a52, a53, a54, a55, a56, a57],
    [a60, a61, a62, a63, a64, a65, a66, a67], [a70, a71, a72, a73, a74, a75, a76, a77]]"
  "setPieceOnSquare [[a00, a01, a02, a03, a04, a05, a06, a07], [a10, a11, a12, a13, a14, a15,
    a16, a17], [a20, a21, a22, a23, a24, a25, a26, a27], [a30, a31, a32, a33, a34, a35, a36,
    a37], [a40, a41, a42, a43, a44, a45, a46, a47], [a50, a51, a52, a53, a54, a55, a56, a57],
    [a60, a61, a62, a63, a64, a65, a66, a67], [a70, a71, a72, a73, a74, a75, a76,
    a77]] ''d1'' x = [[a00, a01, a02, a03, a04, a05, a06, a07], [a10, a11, a12, a13, a14, a15,
    a16, a17], [a20, a21, a22, a23, a24, a25, a26, a27], [x, a31, a32, a33, a34, a35, a36,
    a37], [a40, a41, a42, a43, a44, a45, a46, a47], [a50, a51, a52, a53, a54, a55, a56, a57],
    [a60, a61, a62, a63, a64, a65, a66, a67], [a70, a71, a72, a73, a74, a75, a76, a77]]"
  "setPieceOnSquare [[a00, a01, a02, a03, a04, a05, a06, a07], [a10, a11, a12, a13, a14, a15,
    a16, a17], [a20, a21, a22, a23, a24, a25, a26, a27], [a30, a31, a32, a33, a34, a35, a36,
    a37], [a40, a41, a42, a43, a44, a45, a46, a47], [a50, a51, a52, a53, a54, a55, a56, a57],
    [a60, a61, a62, a63, a64, a65, a66, a67], [a70, a71, a72, a73, a74, a75, a76,
    a77]] ''d2'' x = [[a00, a01, a02, a03, a04, a05, a06, a07], [a10, a11, a12, a13, a14, a15,
    a16, a17], [a20, a21, a22, a23, a24, a25, a26, a27], [a30, x, a32, a33, a34, a35, a36,
    a37], [a40, a41, a42, a43, a44, a45, a46, a47], [a50, a51, a52, a53, a54, a55, a56, a57],
    [a60, a61, a62, a63, a64, a65, a66, a67], [a70, a71, a72, a73, a74, a75, a76, a77]]"
  "setPieceOnSquare [[a00, a01, a02, a03, a04, a05, a06, a07], [a10, a11, a12, a13, a14, a15,
    a16, a17], [a20, a21, a22, a23, a24, a25, a26, a27], [a30, a31, a32, a33, a34, a35, a36,
    a37], [a40, a41, a42, a43, a44, a45, a46, a47], [a50, a51, a52, a53, a54, a55, a56, a57],
    [a60, a61, a62, a63, a64, a65, a66, a67], [a70, a71, a72, a73, a74, a75, a76,
    a77]] ''d3'' x = [[a00, a01, a02, a03, a04, a05, a06, a07], [a10, a11, a12, a13, a14, a15,
    a16, a17], [a20, a21, a22, a23, a24, a25, a26, a27], [a30, a31, x, a33, a34, a35, a36,
    a37], [a40, a41, a42, a43, a44, a45, a46, a47], [a50, a51, a52, a53, a54, a55, a56, a57],
    [a60, a61, a62, a63, a64, a65, a66, a67], [a70, a71, a72, a73, a74, a75, a76, a77]]"
  "setPieceOnSquare [[a00, a01, a02, a03, a04, a05, a06, a07], [a10, a11, a12, a13, a14, a15,
    a16, a17], [a20, a21, a22, a23, a24, a25, a26, a27], [a30, a31, a32, a33, a34, a35, a36,
    a37], [a40, a41, a42, a43, a44, a45, a46, a47], [a50, a51, a52, a53, a54, a55, a56, a57],
    [a60, a61, a62, a63, a64, a65, a66, a67], [a70, a71, a72, a73, a74, a75, a76,
    a77]] ''d4'' x = [[a00, a01, a02, a03, a04, a05, a06, a07], [a10, a11, a12, a13, a14, a15,
    a16, a17], [a20, a21, a22, a23, a24, a25, a26, a27], [a30, a31, a32, x, a34, a35, a36,
    a37], [a40, a41, a42, a43, a44, a45, a46, a47], [a50, a51, a52, a53, a54, a55, a56, a57],
    [a60, a61, a62, a63, a64, a65, a66, a67], [a70, a71, a72, a73, a74, a75, a76, a77]]"
  "setPieceOnSquare [[a00, a01, a02, a03, a04, a05, a06, a07], [a10, a11, a12, a13, a14, a15,
    a16, a17], [a20, a21, a22, a23, a24, a25, a26, a27], [a30, a31, a32, a33, a34, a35, a36,
    a37], [a40, a41, a42, a43, a44, a45, a46, a47], [a50, a51, a52, a53, a54, a55, a56, a57],
    [a60, a61, a62, a63, a64, a65, a66, a67], [a70, a71, a72, a73, a74, a75, a76,
    a77]] ''d5'' x = [[a00, a01, a02, a03, a04, a05, a06, a07], [a10, a11, a12, a13, a14, a15,
    a16, a17], [a20, a21, a22, a23, a24, a25, a26, a27], [a30, a31, a32, a33, x, a35, a36,
    a37], [a40, a41, a42, a43, a44, a45, a46, a47], [a50, a51, a52, a53, a54, a55, a56, a57],
    [a60, a61, a62, a63, a64, a65, a66, a67], [a70, a71, a72, a73, a74, a75, a76, a77]]"
  "setPieceOnSquare [[a00, a01, a02, a03, a04, a05, a06, a07], [a10, a11, a12, a13, a14, a15,
    a16, a17], [a20, a21, a22, a23, a24, a25, a26, a27], [a30, a31, a32, a33, a34, a35, a36,
    a37], [a40, a41, a42, a43, a44, a45, a46, a47], [a50, a51, a52, a53, a54, a55, a56, a57],
    [a60, a61, a62, a63, a64, a65, a66, a67], [a70, a71, a72, a73, a74, a75, a76,
    a77]] ''d6'' x = [[a00, a01, a02, a03, a04, a05, a06, a07], [a10, a11, a12, a13, a14, a15,
    a16, a17], [a20, a21, a22, a23, a24, a25, a26, a27], [a30, a31, a32, a33, a34, x, a36,
    a37], [a40, a41, a42, a43, a44, a45, a46, a47], [a50, a51, a52, a53, a54, a55, a56, a57],
    [a60, a61, a62, a63, a64, a65, a66, a67], [a70, a71, a72, a73, a74, a75, a76, a77]]"
  "setPieceOnSquare [[a00, a01, a02, a03, a04, a05, a06, a07], [a10, a11, a12, a13, a14, a15,
    a16, a17], [a20, a21, a22, a23, a24, a25, a26, a27], [a30, a31, a32, a33, a34, a35, a36,
    a37], [a40, a41, a42, a43, a44, a45, a46, a47], [a50, a51, a52, a53, a54, a55, a56, a57],
    [a60, a61, a62, a63, a64, a65, a66, a67], [a70, a71, a72, a73, a74, a75, a76,
    a77]] ''d7'' x = [[a00, a01, a02, a03, a04, a05, a06, a07], [a10, a11, a12, a13, a14, a15,
    a16, a17], [a20, a21, a22, a23, a24, a25, a26, a27], [a30, a31, a32, a33, a34, a35, x,
    a37], [a40, a41, a42, a43, a44, a45, a46, a47], [a50, a51, a52, a53, a54, a55, a56, a57],
    [a60, a61, a62, a63, a64, a65, a66, a67], [a70, a71, a72, a73, a74, a75, a76, a77]]"
  "setPieceOnSquare [[a00, a01, a02, a03, a04, a05, a06, a07], [a10, a11, a12, a13, a14, a15,
    a16, a17], [a20, a21, a22, a23, a24, a25, a26, a27], [a30, a31, a32, a33, a34, a35, a36,
    a37], [a40, a41, a42, a43, a44, a45, a46, a47], [a50, a51, a52, a53, a54, a55, a56, a57],
    [a60, a61, a62, a63, a64, a65, a66, a67], [a70, a71, a72, a73, a74, a75, a76,
    a77]] ''d8'' x = [[a00, a01, a02, a03, a04, a05, a06, a07], [a10, a11, a12, a13, a14, a15,
    a16, a17], [a20, a21, a22, a23, a24, a25, a26, a27], [a30, a31, a32, a33, a34, a35, a36,
    x], [a40, a41, a42, a43, a44, a45, a46, a47], [a50, a51, a52, a53, a54, a55, a56, a57],
    [a60, a61, a62, a63, a64, a65, a66, a67], [a70, a71, a72, a73, a74, a75, a76, a77]]"
  "setPieceOnSquare [[a00, a01, a02, a03, a04, a05, a06, a07], [a10, a11, a12, a13, a14, a15,
    a16, a17], [a20, a21, a22, a23, a24, a25, a26, a27], [a30, a31, a32, a33, a34, a35, a36,
    a37], [a40, a41, a42, a43, a44, a45, a46, a47], [a50, a51, a52, a53, a54, a55, a56, a57],
    [a60, a61, a62, a63, a64, a65, a66, a67], [a70, a71, a72, a73, a74, a75, a76,
    a77]] ''e1'' x = [[a00, a01, a02, a03, a04, a05, a06, a07], [a10, a11, a12, a13, a14, a15,
    a16, a17], [a20, a21, a22, a23, a24, a25, a26, a27], [a30, a31, a32, a33, a34, a35, a36,
    a37], [x, a41, a42, a43, a44, a45, a46, a47], [a50, a51, a52, a53, a54, a55, a56, a57],
    [a60, a61, a62, a63, a64, a65, a66, a67], [a70, a71, a72, a73, a74, a75, a76, a77]]"
  "setPieceOnSquare [[a00, a01, a02, a03, a04, a05, a06, a07], [a10, a11, a12, a13, a14, a15,
    a16, a17], [a20, a21, a22, a23, a24, a25, a26, a27], [a30, a31, a32, a33, a34, a35, a36,
    a37], [a40, a41, a42, a43, a44, a45, a46, a47], [a50, a51, a52, a53, a54, a55, a56, a57],
    [a60, a61, a62, a63, a64, a65, a66, a67], [a70, a71, a72, a73, a74, a75, a76,
    a77]] ''e2'' x = [[a00, a01, a02, a03, a04, a05, a06, a07], [a10, a11, a12, a13, a14, a15,
    a16, a17], [a20, a21, a22, a23, a24, a25, a26, a27], [a30, a31, a32, a33, a34, a35, a36,
    a37], [a40, x, a42, a43, a44, a45, a46, a47], [a50, a51, a52, a53, a54, a55, a56, a57],
    [a60, a61, a62, a63, a64, a65, a66, a67], [a70, a71, a72, a73, a74, a75, a76, a77]]"
  "setPieceOnSquare [[a00, a01, a02, a03, a04, a05, a06, a07], [a10, a11, a12, a13, a14, a15,
    a16, a17], [a20, a21, a22, a23, a24, a25, a26, a27], [a30, a31, a32, a33, a34, a35, a36,
    a37], [a40, a41, a42, a43, a44, a45, a46, a47], [a50, a51, a52, a53, a54, a55, a56, a57],
    [a60, a61, a62, a63, a64, a65, a66, a67], [a70, a71, a72, a73, a74, a75, a76,
    a77]] ''e3'' x = [[a00, a01, a02, a03, a04, a05, a06, a07], [a10, a11, a12, a13, a14, a15,
    a16, a17], [a20, a21, a22, a23, a24, a25, a26, a27], [a30, a31, a32, a33, a34, a35, a36,
    a37], [a40, a41, x, a43, a44, a45, a46, a47], [a50, a51, a52, a53, a54, a55, a56, a57],
    [a60, a61, a62, a63, a64, a65, a66, a67], [a70, a71, a72, a73, a74, a75, a76, a77]]"
  "setPieceOnSquare [[a00, a01, a02, a03, a04, a05, a06, a07], [a10, a11, a12, a13, a14, a15,
    a16, a17], [a20, a21, a22, a23, a24, a25, a26, a27], [a30, a31, a32, a33, a34, a35, a36,
    a37], [a40, a41, a42, a43, a44, a45, a46, a47], [a50, a51, a52, a53, a54, a55, a56, a57],
    [a60, a61, a62, a63, a64, a65, a66, a67], [a70, a71, a72, a73, a74, a75, a76,
    a77]] ''e4'' x = [[a00, a01, a02, a03, a04, a05, a06, a07], [a10, a11, a12, a13, a14, a15,
    a16, a17], [a20, a21, a22, a23, a24, a25, a26, a27], [a30, a31, a32, a33, a34, a35, a36,
    a37], [a40, a41, a42, x, a44, a45, a46, a47], [a50, a51, a52, a53, a54, a55, a56, a57],
    [a60, a61, a62, a63, a64, a65, a66, a67], [a70, a71, a72, a73, a74, a75, a76, a77]]"
  "setPieceOnSquare [[a00, a01, a02, a03, a04, a05, a06, a07], [a10, a11, a12, a13, a14, a15,
    a16, a17], [a20, a21, a22, a23, a24, a25, a26, a27], [a30, a31, a32, a33, a34, a35, a36,
    a37], [a40, a41, a42, a43, a44, a45, a46, a47], [a50, a51, a52, a53, a54, a55, a56, a57],
    [a60, a61, a62, a63, a64, a65, a66, a67], [a70, a71, a72, a73, a74, a75, a76,
    a77]] ''e5'' x = [[a00, a01, a02, a03, a04, a05, a06, a07], [a10, a11, a12, a13, a14, a15,
    a16, a17], [a20, a21, a22, a23, a24, a25, a26, a27], [a30, a31, a32, a33, a34, a35, a36,
    a37], [a40, a41, a42, a43, x, a45, a46, a47], [a50, a51, a52, a53, a54, a55, a56, a57],
    [a60, a61, a62, a63, a64, a65, a66, a67], [a70, a71, a72, a73, a74, a75, a76, a77]]"
  "setPieceOnSquare [[a00, a01, a02, a03, a04, a05, a06, a07], [a10, a11, a12, a13, a14, a15,
    a16, a17], [a20, a21, a22, a23, a24, a25, a26, a27], [a30, a31, a32, a33, a34, a35, a36,
    a37], [a40, a41, a42, a43, a44, a45, a46, a47], [a50, a51, a52, a53, a54, a55, a56, a57],
    [a60, a61, a62, a63, a64, a65, a66, a67], [a70, a71, a72, a73, a74, a75, a76,
    a77]] ''e6'' x = [[a00, a01, a02, a03, a04, a05, a06, a07], [a10, a11, a12, a13, a14, a15,
    a16, a17], [a20, a21, a22, a23, a24, a25, a26, a27], [a30, a31, a32, a33, a34, a35, a36,
    a37], [a40, a41, a42, a43, a44, x, a46, a47], [a50, a51, a52, a53, a54, a55, a56, a57],
    [a60, a61, a62, a63, a64, a65, a66, a67], [a70, a71, a72, a73, a74, a75, a76, a77]]"
  "setPieceOnSquare [[a00, a01, a02, a03, a04, a05, a06, a07], [a10, a11, a12, a13, a14, a15,
    a16, a17], [a20, a21, a22, a23, a24, a25, a26, a27], [a30, a31, a32, a33, a34, a35, a36,
    a37], [a40, a41, a42, a43, a44, a45, a46, a47], [a50, a51, a52, a53, a54, a55, a56, a57],
    [a60, a61, a62, a63, a64, a65, a66, a67], [a70, a71, a72, a73, a74, a75, a76,
    a77]] ''e7'' x = [[a00, a01, a02, a03, a04, a05, a06, a07], [a10, a11, a12, a13, a14, a15,
    a16, a17], [a20, a21, a22, a23, a24, a25, a26, a27], [a30, a31, a32, a33, a34, a35, a36,
    a37], [a40, a41, a42, a43, a44, a45, x, a47], [a50, a51, a52, a53, a54, a55, a56, a57],
    [a60, a61, a62, a63, a64, a65, a66, a67], [a70, a71, a72, a73, a74, a75, a76, a77]]"
  "setPieceOnSquare [[a00, a01, a02, a03, a04, a05, a06, a07], [a10, a11, a12, a13, a14, a15,
    a16, a17], [a20, a21, a22, a23, a24, a25, a26, a27], [a30, a31, a32, a33, a34, a35, a36,
    a37], [a40, a41, a42, a43, a44, a45, a46, a47], [a50, a51, a52, a53, a54, a55, a56, a57],
    [a60, a61, a62, a63, a64, a65, a66, a67], [a70, a71, a72, a73, a74, a75, a76,
    a77]] ''e8'' x = [[a00, a01, a02, a03, a04, a05, a06, a07], [a10, a11, a12, a13, a14, a15,
    a16, a17], [a20, a21, a22, a23, a24, a25, a26, a27], [a30, a31, a32, a33, a34, a35, a36,
    a37], [a40, a41, a42, a43, a44, a45, a46, x], [a50, a51, a52, a53, a54, a55, a56, a57],
    [a60, a61, a62, a63, a64, a65, a66, a67], [a70, a71, a72, a73, a74, a75, a76, a77]]"
  "setPieceOnSquare [[a00, a01, a02, a03, a04, a05, a06, a07], [a10, a11, a12, a13, a14, a15,
    a16, a17], [a20, a21, a22, a23, a24, a25, a26, a27], [a30, a31, a32, a33, a34, a35, a36,
    a37], [a40, a41, a42, a43, a44, a45, a46, a47], [a50, a51, a52, a53, a54, a55, a56, a57],
    [a60, a61, a62, a63, a64, a65, a66, a67], [a70, a71, a72, a73, a74, a75, a76,
    a77]] ''f1'' x = [[a00, a01, a02, a03, a04, a05, a06, a07], [a10, a11, a12, a13, a14, a15,
    a16, a17], [a20, a21, a22, a23, a24, a25, a26, a27], [a30, a31, a32, a33, a34, a35, a36,
    a37], [a40, a41, a42, a43, a44, a45, a46, a47], [x, a51, a52, a53, a54, a55, a56, a57],
    [a60, a61, a62, a63, a64, a65, a66, a67], [a70, a71, a72, a73, a74, a75, a76, a77]]"
  "setPieceOnSquare [[a00, a01, a02, a03, a04, a05, a06, a07], [a10, a11, a12, a13, a14, a15,
    a16, a17], [a20, a21, a22, a23, a24, a25, a26, a27], [a30, a31, a32, a33, a34, a35, a36,
    a37], [a40, a41, a42, a43, a44, a45, a46, a47], [a50, a51, a52, a53, a54, a55, a56, a57],
    [a60, a61, a62, a63, a64, a65, a66, a67], [a70, a71, a72, a73, a74, a75, a76,
    a77]] ''f2'' x = [[a00, a01, a02, a03, a04, a05, a06, a07], [a10, a11, a12, a13, a14, a15,
    a16, a17], [a20, a21, a22, a23, a24, a25, a26, a27], [a30, a31, a32, a33, a34, a35, a36,
    a37], [a40, a41, a42, a43, a44, a45, a46, a47], [a50, x, a52, a53, a54, a55, a56, a57],
    [a60, a61, a62, a63, a64, a65, a66, a67], [a70, a71, a72, a73, a74, a75, a76, a77]]"
  "setPieceOnSquare [[a00, a01, a02, a03, a04, a05, a06, a07], [a10, a11, a12, a13, a14, a15,
    a16, a17], [a20, a21, a22, a23, a24, a25, a26, a27], [a30, a31, a32, a33, a34, a35, a36,
    a37], [a40, a41, a42, a43, a44, a45, a46, a47], [a50, a51, a52, a53, a54, a55, a56, a57],
    [a60, a61, a62, a63, a64, a65, a66, a67], [a70, a71, a72, a73, a74, a75, a76,
    a77]] ''f3'' x = [[a00, a01, a02, a03, a04, a05, a06, a07], [a10, a11, a12, a13, a14, a15,
    a16, a17], [a20, a21, a22, a23, a24, a25, a26, a27], [a30, a31, a32, a33, a34, a35, a36,
    a37], [a40, a41, a42, a43, a44, a45, a46, a47], [a50, a51, x, a53, a54, a55, a56, a57],
    [a60, a61, a62, a63, a64, a65, a66, a67], [a70, a71, a72, a73, a74, a75, a76, a77]]"
  "setPieceOnSquare [[a00, a01, a02, a03, a04, a05, a06, a07], [a10, a11, a12, a13, a14, a15,
    a16, a17], [a20, a21, a22, a23, a24, a25, a26, a27], [a30, a31, a32, a33, a34, a35, a36,
    a37], [a40, a41, a42, a43, a44, a45, a46, a47], [a50, a51, a52, a53, a54, a55, a56, a57],
    [a60, a61, a62, a63, a64, a65, a66, a67], [a70, a71, a72, a73, a74, a75, a76,
    a77]] ''f4'' x = [[a00, a01, a02, a03, a04, a05, a06, a07], [a10, a11, a12, a13, a14, a15,
    a16, a17], [a20, a21, a22, a23, a24, a25, a26, a27], [a30, a31, a32, a33, a34, a35, a36,
    a37], [a40, a41, a42, a43, a44, a45, a46, a47], [a50, a51, a52, x, a54, a55, a56, a57],
    [a60, a61, a62, a63, a64, a65, a66, a67], [a70, a71, a72, a73, a74, a75, a76, a77]]"
  "setPieceOnSquare [[a00, a01, a02, a03, a04, a05, a06, a07], [a10, a11, a12, a13, a14, a15,
    a16, a17], [a20, a21, a22, a23, a24, a25, a26, a27], [a30, a31, a32, a33, a34, a35, a36,
    a37], [a40, a41, a42, a43, a44, a45, a46, a47], [a50, a51, a52, a53, a54, a55, a56, a57],
    [a60, a61, a62, a63, a64, a65, a66, a67], [a70, a71, a72, a73, a74, a75, a76,
    a77]] ''f5'' x = [[a00, a01, a02, a03, a04, a05, a06, a07], [a10, a11, a12, a13, a14, a15,
    a16, a17], [a20, a21, a22, a23, a24, a25, a26, a27], [a30, a31, a32, a33, a34, a35, a36,
    a37], [a40, a41, a42, a43, a44, a45, a46, a47], [a50, a51, a52, a53, x, a55, a56, a57],
    [a60, a61, a62, a63, a64, a65, a66, a67], [a70, a71, a72, a73, a74, a75, a76, a77]]"
  "setPieceOnSquare [[a00, a01, a02, a03, a04, a05, a06, a07], [a10, a11, a12, a13, a14, a15,
    a16, a17], [a20, a21, a22, a23, a24, a25, a26, a27], [a30, a31, a32, a33, a34, a35, a36,
    a37], [a40, a41, a42, a43, a44, a45, a46, a47], [a50, a51, a52, a53, a54, a55, a56, a57],
    [a60, a61, a62, a63, a64, a65, a66, a67], [a70, a71, a72, a73, a74, a75, a76,
    a77]] ''f6'' x = [[a00, a01, a02, a03, a04, a05, a06, a07], [a10, a11, a12, a13, a14, a15,
    a16, a17], [a20, a21, a22, a23, a24, a25, a26, a27], [a30, a31, a32, a33, a34, a35, a36,
    a37], [a40, a41, a42, a43, a44, a45, a46, a47], [a50, a51, a52, a53, a54, x, a56, a57],
    [a60, a61, a62, a63, a64, a65, a66, a67], [a70, a71, a72, a73, a74, a75, a76, a77]]"
  "setPieceOnSquare [[a00, a01, a02, a03, a04, a05, a06, a07], [a10, a11, a12, a13, a14, a15,
    a16, a17], [a20, a21, a22, a23, a24, a25, a26, a27], [a30, a31, a32, a33, a34, a35, a36,
    a37], [a40, a41, a42, a43, a44, a45, a46, a47], [a50, a51, a52, a53, a54, a55, a56, a57],
    [a60, a61, a62, a63, a64, a65, a66, a67], [a70, a71, a72, a73, a74, a75, a76,
    a77]] ''f7'' x = [[a00, a01, a02, a03, a04, a05, a06, a07], [a10, a11, a12, a13, a14, a15,
    a16, a17], [a20, a21, a22, a23, a24, a25, a26, a27], [a30, a31, a32, a33, a34, a35, a36,
    a37], [a40, a41, a42, a43, a44, a45, a46, a47], [a50, a51, a52, a53, a54, a55, x, a57],
    [a60, a61, a62, a63, a64, a65, a66, a67], [a70, a71, a72, a73, a74, a75, a76, a77]]"
  "setPieceOnSquare [[a00, a01, a02, a03, a04, a05, a06, a07], [a10, a11, a12, a13, a14, a15,
    a16, a17], [a20, a21, a22, a23, a24, a25, a26, a27], [a30, a31, a32, a33, a34, a35, a36,
    a37], [a40, a41, a42, a43, a44, a45, a46, a47], [a50, a51, a52, a53, a54, a55, a56, a57],
    [a60, a61, a62, a63, a64, a65, a66, a67], [a70, a71, a72, a73, a74, a75, a76,
    a77]] ''f8'' x = [[a00, a01, a02, a03, a04, a05, a06, a07], [a10, a11, a12, a13, a14, a15,
    a16, a17], [a20, a21, a22, a23, a24, a25, a26, a27], [a30, a31, a32, a33, a34, a35, a36,
    a37], [a40, a41, a42, a43, a44, a45, a46, a47], [a50, a51, a52, a53, a54, a55, a56, x],
    [a60, a61, a62, a63, a64, a65, a66, a67], [a70, a71, a72, a73, a74, a75, a76, a77]]"
  "setPieceOnSquare [[a00, a01, a02, a03, a04, a05, a06, a07], [a10, a11, a12, a13, a14, a15,
    a16, a17], [a20, a21, a22, a23, a24, a25, a26, a27], [a30, a31, a32, a33, a34, a35, a36,
    a37], [a40, a41, a42, a43, a44, a45, a46, a47], [a50, a51, a52, a53, a54, a55, a56, a57],
    [a60, a61, a62, a63, a64, a65, a66, a67], [a70, a71, a72, a73, a74, a75, a76,
    a77]] ''g1'' x = [[a00, a01, a02, a03, a04, a05, a06, a07], [a10, a11, a12, a13, a14, a15,
    a16, a17], [a20, a21, a22, a23, a24, a25, a26, a27], [a30, a31, a32, a33, a34, a35, a36,
    a37], [a40, a41, a42, a43, a44, a45, a46, a47], [a50, a51, a52, a53, a54, a55, a56, a57],
    [x, a61, a62, a63, a64, a65, a66, a67], [a70, a71, a72, a73, a74, a75, a76, a77]]"
  "setPieceOnSquare [[a00, a01, a02, a03, a04, a05, a06, a07], [a10, a11, a12, a13, a14, a15,
    a16, a17], [a20, a21, a22, a23, a24, a25, a26, a27], [a30, a31, a32, a33, a34, a35, a36,
    a37], [a40, a41, a42, a43, a44, a45, a46, a47], [a50, a51, a52, a53, a54, a55, a56, a57],
    [a60, a61, a62, a63, a64, a65, a66, a67], [a70, a71, a72, a73, a74, a75, a76,
    a77]] ''g2'' x = [[a00, a01, a02, a03, a04, a05, a06, a07], [a10, a11, a12, a13, a14, a15,
    a16, a17], [a20, a21, a22, a23, a24, a25, a26, a27], [a30, a31, a32, a33, a34, a35, a36,
    a37], [a40, a41, a42, a43, a44, a45, a46, a47], [a50, a51, a52, a53, a54, a55, a56, a57],
    [a60, x, a62, a63, a64, a65, a66, a67], [a70, a71, a72, a73, a74, a75, a76, a77]]"
  "setPieceOnSquare [[a00, a01, a02, a03, a04, a05, a06, a07], [a10, a11, a12, a13, a14, a15,
    a16, a17], [a20, a21, a22, a23, a24, a25, a26, a27], [a30, a31, a32, a33, a34, a35, a36,
    a37], [a40, a41, a42, a43, a44, a45, a46, a47], [a50, a51, a52, a53, a54, a55, a56, a57],
    [a60, a61, a62, a63, a64, a65, a66, a67], [a70, a71, a72, a73, a74, a75, a76,
    a77]] ''g3'' x = [[a00, a01, a02, a03, a04, a05, a06, a07], [a10, a11, a12, a13, a14, a15,
    a16, a17], [a20, a21, a22, a23, a24, a25, a26, a27], [a30, a31, a32, a33, a34, a35, a36,
    a37], [a40, a41, a42, a43, a44, a45, a46, a47], [a50, a51, a52, a53, a54, a55, a56, a57],
    [a60, a61, x, a63, a64, a65, a66, a67], [a70, a71, a72, a73, a74, a75, a76, a77]]"
  "setPieceOnSquare [[a00, a01, a02, a03, a04, a05, a06, a07], [a10, a11, a12, a13, a14, a15,
    a16, a17], [a20, a21, a22, a23, a24, a25, a26, a27], [a30, a31, a32, a33, a34, a35, a36,
    a37], [a40, a41, a42, a43, a44, a45, a46, a47], [a50, a51, a52, a53, a54, a55, a56, a57],
    [a60, a61, a62, a63, a64, a65, a66, a67], [a70, a71, a72, a73, a74, a75, a76,
    a77]] ''g4'' x = [[a00, a01, a02, a03, a04, a05, a06, a07], [a10, a11, a12, a13, a14, a15,
    a16, a17], [a20, a21, a22, a23, a24, a25, a26, a27], [a30, a31, a32, a33, a34, a35, a36,
    a37], [a40, a41, a42, a43, a44, a45, a46, a47], [a50, a51, a52, a53, a54, a55, a56, a57],
    [a60, a61, a62, x, a64, a65, a66, a67], [a70, a71, a72, a73, a74, a75, a76, a77]]"
  "setPieceOnSquare [[a00, a01, a02, a03, a04, a05, a06, a07], [a10, a11, a12, a13, a14, a15,
    a16, a17], [a20, a21, a22, a23, a24, a25, a26, a27], [a30, a31, a32, a33, a34, a35, a36,
    a37], [a40, a41, a42, a43, a44, a45, a46, a47], [a50, a51, a52, a53, a54, a55, a56, a57],
    [a60, a61, a62, a63, a64, a65, a66, a67], [a70, a71, a72, a73, a74, a75, a76,
    a77]] ''g5'' x = [[a00, a01, a02, a03, a04, a05, a06, a07], [a10, a11, a12, a13, a14, a15,
    a16, a17], [a20, a21, a22, a23, a24, a25, a26, a27], [a30, a31, a32, a33, a34, a35, a36,
    a37], [a40, a41, a42, a43, a44, a45, a46, a47], [a50, a51, a52, a53, a54, a55, a56, a57],
    [a60, a61, a62, a63, x, a65, a66, a67], [a70, a71, a72, a73, a74, a75, a76, a77]]"
  "setPieceOnSquare [[a00, a01, a02, a03, a04, a05, a06, a07], [a10, a11, a12, a13, a14, a15,
    a16, a17], [a20, a21, a22, a23, a24, a25, a26, a27], [a30, a31, a32, a33, a34, a35, a36,
    a37], [a40, a41, a42, a43, a44, a45, a46, a47], [a50, a51, a52, a53, a54, a55, a56, a57],
    [a60, a61, a62, a63, a64, a65, a66, a67], [a70, a71, a72, a73, a74, a75, a76,
    a77]] ''g6'' x = [[a00, a01, a02, a03, a04, a05, a06, a07], [a10, a11, a12, a13, a14, a15,
    a16, a17], [a20, a21, a22, a23, a24, a25, a26, a27], [a30, a31, a32, a33, a34, a35, a36,
    a37], [a40, a41, a42, a43, a44, a45, a46, a47], [a50, a51, a52, a53, a54, a55, a56, a57],
    [a60, a61, a62, a63, a64, x, a66, a67], [a70, a71, a72, a73, a74, a75, a76, a77]]"
  "setPieceOnSquare [[a00, a01, a02, a03, a04, a05, a06, a07], [a10, a11, a12, a13, a14, a15,
    a16, a17], [a20, a21, a22, a23, a24, a25, a26, a27], [a30, a31, a32, a33, a34, a35, a36,
    a37], [a40, a41, a42, a43, a44, a45, a46, a47], [a50, a51, a52, a53, a54, a55, a56, a57],
    [a60, a61, a62, a63, a64, a65, a66, a67], [a70, a71, a72, a73, a74, a75, a76,
    a77]] ''g7'' x = [[a00, a01, a02, a03, a04, a05, a06, a07], [a10, a11, a12, a13, a14, a15,
    a16, a17], [a20, a21, a22, a23, a24, a25, a26, a27], [a30, a31, a32, a33, a34, a35, a36,
    a37], [a40, a41, a42, a43, a44, a45, a46, a47], [a50, a51, a52, a53, a54, a55, a56, a57],
    [a60, a61, a62, a63, a64, a65, x, a67], [a70, a71, a72, a73, a74, a75, a76, a77]]"
  "setPieceOnSquare [[a00, a01, a02, a03, a04, a05, a06, a07], [a10, a11, a12, a13, a14, a15,
    a16, a17], [a20, a21, a22, a23, a24, a25, a26, a27], [a30, a31, a32, a33, a34, a35, a36,
    a37], [a40, a41, a42, a43, a44, a45, a46, a47], [a50, a51, a52, a53, a54, a55, a56, a57],
    [a60, a61, a62, a63, a64, a65, a66, a67], [a70, a71, a72, a73, a74, a75, a76,
    a77]] ''g8'' x = [[a00, a01, a02, a03, a04, a05, a06, a07], [a10, a11, a12, a13, a14, a15,
    a16, a17], [a20, a21, a22, a23, a24, a25, a26, a27], [a30, a31, a32, a33, a34, a35, a36,
    a37], [a40, a41, a42, a43, a44, a45, a46, a47], [a50, a51, a52, a53, a54, a55, a56, a57],
    [a60, a61, a62, a63, a64, a65, a66, x], [a70, a71, a72, a73, a74, a75, a76, a77]]"
  "setPieceOnSquare [[a00, a01, a02, a03, a04, a05, a06, a07], [a10, a11, a12, a13, a14, a15,
    a16, a17], [a20, a21, a22, a23, a24, a25, a26, a27], [a30, a31, a32, a33, a34, a35, a36,
    a37], [a40, a41, a42, a43, a44, a45, a46, a47], [a50, a51, a52, a53, a54, a55, a56, a57],
    [a60, a61, a62, a63, a64, a65, a66, a67], [a70, a71, a72, a73, a74, a75, a76,
    a77]] ''h1'' x = [[a00, a01, a02, a03, a04, a05, a06, a07], [a10, a11, a12, a13, a14, a15,
    a16, a17], [a20, a21, a22, a23, a24, a25, a26, a27], [a30, a31, a32, a33, a34, a35, a36,
    a37], [a40, a41, a42, a43, a44, a45, a46, a47], [a50, a51, a52, a53, a54, a55, a56, a57],
    [a60, a61, a62, a63, a64, a65, a66, a67], [x, a71, a72, a73, a74, a75, a76, a77]]"
  "setPieceOnSquare [[a00, a01, a02, a03, a04, a05, a06, a07], [a10, a11, a12, a13, a14, a15,
    a16, a17], [a20, a21, a22, a23, a24, a25, a26, a27], [a30, a31, a32, a33, a34, a35, a36,
    a37], [a40, a41, a42, a43, a44, a45, a46, a47], [a50, a51, a52, a53, a54, a55, a56, a57],
    [a60, a61, a62, a63, a64, a65, a66, a67], [a70, a71, a72, a73, a74, a75, a76,
    a77]] ''h2'' x = [[a00, a01, a02, a03, a04, a05, a06, a07], [a10, a11, a12, a13, a14, a15,
    a16, a17], [a20, a21, a22, a23, a24, a25, a26, a27], [a30, a31, a32, a33, a34, a35, a36,
    a37], [a40, a41, a42, a43, a44, a45, a46, a47], [a50, a51, a52, a53, a54, a55, a56, a57],
    [a60, a61, a62, a63, a64, a65, a66, a67], [a70, x, a72, a73, a74, a75, a76, a77]]"
  "setPieceOnSquare [[a00, a01, a02, a03, a04, a05, a06, a07], [a10, a11, a12, a13, a14, a15,
    a16, a17], [a20, a21, a22, a23, a24, a25, a26, a27], [a30, a31, a32, a33, a34, a35, a36,
    a37], [a40, a41, a42, a43, a44, a45, a46, a47], [a50, a51, a52, a53, a54, a55, a56, a57],
    [a60, a61, a62, a63, a64, a65, a66, a67], [a70, a71, a72, a73, a74, a75, a76,
    a77]] ''h3'' x = [[a00, a01, a02, a03, a04, a05, a06, a07], [a10, a11, a12, a13, a14, a15,
    a16, a17], [a20, a21, a22, a23, a24, a25, a26, a27], [a30, a31, a32, a33, a34, a35, a36,
    a37], [a40, a41, a42, a43, a44, a45, a46, a47], [a50, a51, a52, a53, a54, a55, a56, a57],
    [a60, a61, a62, a63, a64, a65, a66, a67], [a70, a71, x, a73, a74, a75, a76, a77]]"
  "setPieceOnSquare [[a00, a01, a02, a03, a04, a05, a06, a07], [a10, a11, a12, a13, a14, a15,
    a16, a17], [a20, a21, a22, a23, a24, a25, a26, a27], [a30, a31, a32, a33, a34, a35, a36,
    a37], [a40, a41, a42, a43, a44, a45, a46, a47], [a50, a51, a52, a53, a54, a55, a56, a57],
    [a60, a61, a62, a63, a64, a65, a66, a67], [a70, a71, a72, a73, a74, a75, a76,
    a77]] ''h4'' x = [[a00, a01, a02, a03, a04, a05, a06, a07], [a10, a11, a12, a13, a14, a15,
    a16, a17], [a20, a21, a22, a23, a24, a25, a26, a27], [a30, a31, a32, a33, a34, a35, a36,
    a37], [a40, a41, a42, a43, a44, a45, a46, a47], [a50, a51, a52, a53, a54, a55, a56, a57],
    [a60, a61, a62, a63, a64, a65, a66, a67], [a70, a71, a72, x, a74, a75, a76, a77]]"
  "setPieceOnSquare [[a00, a01, a02, a03, a04, a05, a06, a07], [a10, a11, a12, a13, a14, a15,
    a16, a17], [a20, a21, a22, a23, a24, a25, a26, a27], [a30, a31, a32, a33, a34, a35, a36,
    a37], [a40, a41, a42, a43, a44, a45, a46, a47], [a50, a51, a52, a53, a54, a55, a56, a57],
    [a60, a61, a62, a63, a64, a65, a66, a67], [a70, a71, a72, a73, a74, a75, a76,
    a77]] ''h5'' x = [[a00, a01, a02, a03, a04, a05, a06, a07], [a10, a11, a12, a13, a14, a15,
    a16, a17], [a20, a21, a22, a23, a24, a25, a26, a27], [a30, a31, a32, a33, a34, a35, a36,
    a37], [a40, a41, a42, a43, a44, a45, a46, a47], [a50, a51, a52, a53, a54, a55, a56, a57],
    [a60, a61, a62, a63, a64, a65, a66, a67], [a70, a71, a72, a73, x, a75, a76, a77]]"
  "setPieceOnSquare [[a00, a01, a02, a03, a04, a05, a06, a07], [a10, a11, a12, a13, a14, a15,
    a16, a17], [a20, a21, a22, a23, a24, a25, a26, a27], [a30, a31, a32, a33, a34, a35, a36,
    a37], [a40, a41, a42, a43, a44, a45, a46, a47], [a50, a51, a52, a53, a54, a55, a56, a57],
    [a60, a61, a62, a63, a64, a65, a66, a67], [a70, a71, a72, a73, a74, a75, a76,
    a77]] ''h6'' x = [[a00, a01, a02, a03, a04, a05, a06, a07], [a10, a11, a12, a13, a14, a15,
    a16, a17], [a20, a21, a22, a23, a24, a25, a26, a27], [a30, a31, a32, a33, a34, a35, a36,
    a37], [a40, a41, a42, a43, a44, a45, a46, a47], [a50, a51, a52, a53, a54, a55, a56, a57],
    [a60, a61, a62, a63, a64, a65, a66, a67], [a70, a71, a72, a73, a74, x, a76, a77]]"
  "setPieceOnSquare [[a00, a01, a02, a03, a04, a05, a06, a07], [a10, a11, a12, a13, a14, a15,
    a16, a17], [a20, a21, a22, a23, a24, a25, a26, a27], [a30, a31, a32, a33, a34, a35, a36,
    a37], [a40, a41, a42, a43, a44, a45, a46, a47], [a50, a51, a52, a53, a54, a55, a56, a57],
    [a60, a61, a62, a63, a64, a65, a66, a67], [a70, a71, a72, a73, a74, a75, a76,
    a77]] ''h7'' x = [[a00, a01, a02, a03, a04, a05, a06, a07], [a10, a11, a12, a13, a14, a15,
    a16, a17], [a20, a21, a22, a23, a24, a25, a26, a27], [a30, a31, a32, a33, a34, a35, a36,
    a37], [a40, a41, a42, a43, a44, a45, a46, a47], [a50, a51, a52, a53, a54, a55, a56, a57],
    [a60, a61, a62, a63, a64, a65, a66, a67], [a70, a71, a72, a73, a74, a75, x, a77]]"
  "setPieceOnSquare [[a00, a01, a02, a03, a04, a05, a06, a07], [a10, a11, a12, a13, a14, a15,
    a16, a17], [a20, a21, a22, a23, a24, a25, a26, a27], [a30, a31, a32, a33, a34, a35, a36,
    a37], [a40, a41, a42, a43, a44, a45, a46, a47], [a50, a51, a52, a53, a54, a55, a56, a57],
    [a60, a61, a62, a63, a64, a65, a66, a67], [a70, a71, a72, a73, a74, a75, a76,
    a77]] ''h8'' x = [[a00, a01, a02, a03, a04, a05, a06, a07], [a10, a11, a12, a13, a14, a15,
    a16, a17], [a20, a21, a22, a23, a24, a25, a26, a27], [a30, a31, a32, a33, a34, a35, a36,
    a37], [a40, a41, a42, a43, a44, a45, a46, a47], [a50, a51, a52, a53, a54, a55, a56, a57],
    [a60, a61, a62, a63, a64, a65, a66, a67], [a70, a71, a72, a73, a74, a75, a76, x]]"
  by (simp_all add: setPieceOnSquare_def file_table rank_table)

lemma literal_shape:
  "boardShape
    [[a00, a01, a02, a03, a04, a05, a06, a07], [a10, a11, a12, a13, a14, a15, a16, a17], [a20,
     a21, a22, a23, a24, a25, a26, a27], [a30, a31, a32, a33, a34, a35, a36, a37], [a40, a41,
     a42, a43, a44, a45, a46, a47], [a50, a51, a52, a53, a54, a55, a56, a57], [a60, a61, a62,
     a63, a64, a65, a66, a67], [a70, a71, a72, a73, a74, a75, a76, a77]]"
  by (simp add: boardShape_def)

lemma init_fields:
  "position initialState = initialPosition"
  "activeColor initialState = CHR ''w''"
  "whiteKingSquare initialState = ''e1''"
  "blackKingSquare initialState = ''e8''"
  "twoSquarePawnMove initialState = ''-''"
  "whiteCastleKingsideAvailable initialState = True"
  "whiteCastleQueensideAvailable initialState = True"
  "blackCastleKingsideAvailable initialState = True"
  "blackCastleQueensideAvailable initialState = True"
  "numberOfHalfMoves initialState = 0"
  "numberOfFullMoves initialState = 0"
  by (simp_all add: initialState_def)

lemma upto07: "[0..7] = [0, 1, 2, 3, 4, 5, 6, (7::int)]"
  by code_simp

lemma nth_upd2:
  "(p[i := (p ! i)[j := x]]) ! a ! b =
     (if a = i \<and> b = j \<and> i < length p \<and> j < length (p ! i) then x else p ! a ! b)"
proof (cases "i < length p")
  case False
  then show ?thesis by (simp add: list_update_beyond)
next
  case True
  show ?thesis
  proof (cases "a = i")
    case False
    then show ?thesis by simp
  next
    case a: True
    show ?thesis
    proof (cases "j < length (p ! i)")
      case False
      then show ?thesis using True a by (simp add: list_update_beyond)
    next
      case j: True
      then show ?thesis using True a by (cases "b = j") simp_all
    qed
  qed
qed

lemma length_upd2: "length ((p[i := (p ! i)[j := x]]) ! a) = length (p ! a)"
  by (cases "i < length p"; cases "a = i") (simp_all add: list_update_beyond)

lemma length_setPiece: "length (setPieceOnSquare p sq x) = length p"
  by (simp add: setPieceOnSquare_def Let_def)

lemma length_setPiece_col: "length (setPieceOnSquare p sq x ! a) = length (p ! a)"
  by (simp add: setPieceOnSquare_def Let_def length_upd2)

lemma boardShape_setPiece: "boardShape (setPieceOnSquare p sq x) = boardShape p"
  by (simp add: boardShape_def list_all_length length_setPiece length_setPiece_col)

text \<open>A read after an assignment, for a square whose coordinates are not negative.\<close>

lemma posAt_setPiece:
  assumes "0 \<le> fileFromSquare sq" "0 \<le> rankFromSquare sq"
  shows "posAt (setPieceOnSquare p sq x) f r =
     (if f = fileFromSquare sq \<and> r = rankFromSquare sq
      then (case posAt p f r of Some (Def y) \<Rightarrow> Some (Def x) | v \<Rightarrow> v)
      else posAt p f r)"
proof -
  have "setPieceOnSquare p sq x ! nat f ! nat r =
        (if nat f = nat (fileFromSquare sq) \<and> nat r = nat (rankFromSquare sq)
            \<and> nat (fileFromSquare sq) < length p
            \<and> nat (rankFromSquare sq) < length (p ! nat (fileFromSquare sq))
         then x else p ! nat f ! nat r)"
    by (simp add: setPieceOnSquare_def Let_def nth_upd2)
  then show ?thesis
    using assms by (auto simp: posAt_def length_setPiece length_setPiece_col)
qed

lemma those_map_Some: "those (map (\<lambda>x. Some (f x)) xs) = Some (map f xs)"
  by (induction xs) simp_all

text \<open>On an 8 by 8 array the copy is the state itself.\<close>

lemma copy_boardShape:
  assumes "boardShape (position s)"
  shows "copy s = Some s"
proof -
  let ?p = "position s"
  have len: "length ?p = 8" and col: "\<And>n. n < 8 \<Longrightarrow> length (?p ! n) = 8"
    using assms by (simp_all add: boardShape_def list_all_length)
  have cell: "copyCell ?p fl rk = Some (?p ! nat fl ! nat rk)"
    if "fl \<in> set [0..7]" "rk \<in> set [0..7]" for fl rk
    using that len col[of "nat fl"] by (auto simp: copyCell_def posAt_def)
  have inner: "those (map (\<lambda>rk. copyCell ?p fl rk) [0..7])
                 = Some (map (\<lambda>rk. ?p ! nat fl ! nat rk) [0..7])"
    if "fl \<in> set [0..7]" for fl
  proof -
    have "map (\<lambda>rk. copyCell ?p fl rk) [0..7]
            = map (\<lambda>rk. Some (?p ! nat fl ! nat rk)) [0..7]"
      using cell[OF that] by (intro map_cong) auto
    then show ?thesis by (simp only: those_map_Some)
  qed
  have outer: "those (map (\<lambda>fl. those (map (\<lambda>rk. copyCell ?p fl rk) [0..7])) [0..7])
                 = Some (map (\<lambda>fl. map (\<lambda>rk. ?p ! nat fl ! nat rk) [0..7]) [0..7])"
  proof -
    have "map (\<lambda>fl. those (map (\<lambda>rk. copyCell ?p fl rk) [0..7])) [0..7]
            = map (\<lambda>fl. Some (map (\<lambda>rk. ?p ! nat fl ! nat rk) [0..7])) [0..7]"
      using inner by (intro map_cong) auto
    then show ?thesis by (simp only: those_map_Some)
  qed
  have up: "[0..7] ! n = int n" if "n < 8" for n
    using that by (simp add: upto07 nth_Cons split: nat.splits)
  have same: "map (\<lambda>fl. map (\<lambda>rk. ?p ! nat fl ! nat rk) [0..7]) [0..7] = ?p"
  proof (rule nth_equalityI)
    show "length (map (\<lambda>fl. map (\<lambda>rk. ?p ! nat fl ! nat rk) [0..7]) [0..7]) = length ?p"
      using len by (simp add: upto07)
  next
    fix i assume "i < length (map (\<lambda>fl. map (\<lambda>rk. ?p ! nat fl ! nat rk) [0..7]) [0..7])"
    then have i: "i < 8" by (simp add: upto07)
    have "map (\<lambda>rk. ?p ! i ! nat rk) [0..7] = ?p ! i"
    proof (rule nth_equalityI)
      show "length (map (\<lambda>rk. ?p ! i ! nat rk) [0..7]) = length (?p ! i)"
        using col[OF i] by (simp add: upto07)
    next
      fix j assume "j < length (map (\<lambda>rk. ?p ! i ! nat rk) [0..7])"
      then have j: "j < 8" by (simp add: upto07)
      have "j < length [0..7]" using j by (simp add: upto07)
      then show "map (\<lambda>rk. ?p ! i ! nat rk) [0..7] ! j = ?p ! i ! j"
        using up[OF j] by (simp add: nth_map)
    qed
    moreover have "i < length [0..7]" using i by (simp add: upto07)
    ultimately show "map (\<lambda>fl. map (\<lambda>rk. ?p ! nat fl ! nat rk) [0..7]) [0..7] ! i = ?p ! i"
      using up[OF i] by (simp add: nth_map)
  qed
  show ?thesis
    unfolding copy_def outer same by simp
qed

lemma nth_literal: "(c # cs) ! 0 = c" "(c # d # cs) ! 1 = d" "(c # d # cs) ! Suc 0 = d"
  by simp_all

lemma bind_weak_cong: "m = m' \<Longrightarrow> Option.bind m f = Option.bind m' f"
  by simp

lemmas evalLogic =
  if_True if_False simp_thms Option.bind.simps option.case js.case list.case prod.case
  bool.case outcome.case option.inject option.distinct js.inject js.distinct piece.distinct list.inject list.distinct
  prod.inject outcome.distinct fst_conv snd_conv
  Let_def append.simps list.set insert_iff empty_iff list.size foldl.simps
  arith_simps rel_simps more_arith_simps arith_special
  Num.inc.simps numeral_plus_one one_plus_numeral numeral_One abs_minus_cancel abs_numeral abs_neg_numeral abs_zero abs_one
  char_neq_table

lemmas evalModel =
  sq_table file_table rank_table idx_table literal_read literal_edge literal_write literal_shape
  BoardState.select_convs BoardState.update_convs initialState_def initialPosition_def
  kingOffsets_def copy_boardShape nth_literal
  isEmptyAt_def sameColorAt_def enemyAt_def diffColorAt_def getPieceOnSquare'_def
  whitePawnMoves_def blackPawnMoves_def getPawnPseudoLegalMoves_def
  rayStep_def rookRight.simps rookLeft.simps rookUp.simps rookDown.simps
  getRookPseudoLegalMoves_def
  bishopUpRight.simps bishopDownRight.simps bishopDownLeft.simps bishopUpLeft.simps
  getBishopPseudoLegalMoves_def getQueenPseudoLegalMoves_def
  jump_def getKnightPseudoLegalMoves_def kingLoop.simps allEmpty.simps castle_def
  getKingPseudoLegalMoves_def getPseudoLegalMoves_def moveIsPseudoLegal_def
  swapColor_def updateCastling_def saveTwoSquarePawnMove_def updateKingSquare_def
  relocate_def moveRook_def updateHalfMoves_def playPseudoLegalMove_def
  checkLoop.simps kingIsInCheck_def kingWouldBeInCheck_def legalLoop.simps
  getLegalMoves_def moveIsLegal_def playLegalMove_def hasMovesLoop.simps
  playerHasLegalMoves_def isCheckmate_def isStalemate_def
  perform.simps run_def

lemmas evalCong =
  if_weak_cong let_weak_cong bind_weak_cong option.case_cong_weak js.case_cong_weak
  prod.case_cong_weak list.case_cong_weak outcome.case_cong_weak bool.case_cong_weak


section \<open>What the generators push\<close>

text \<open>
  Each generator appends squares under a guard. The lemmas of this section say that a
  property which holds of every square pushed under its guard holds of every square of the
  result; they are used for the properties "is a valid square" and "does not hold a piece
  of the mover's colour".
\<close>

lemma rayStep_pushes:
  assumes "rayStep p piece f r moves = Some (go, moves')" "list_all Q moves"
    "sameColorAt p f r piece = Some False \<Longrightarrow> Q (squareFromFileRank f r)"
  shows "list_all Q moves'"
  using assms
  by (auto simp: rayStep_def Let_def Option.bind_eq_Some_conv split: if_splits)

lemma rookRight_pushes:
  "(\<And>f r. sameColorAt p f r piece = Some False \<Longrightarrow> Q (squareFromFileRank f r))
   \<Longrightarrow> list_all Q moves \<Longrightarrow> rookRight p piece rank f moves = Some ms \<Longrightarrow> list_all Q ms"
proof (induction p piece rank f moves rule: rookRight.induct)
  case (1 p piece rank f moves)
  show ?case
  proof (cases "f < 8")
    case False
    have "rookRight p piece rank f moves = Some moves"
      by (simp only: rookRight.simps[of p piece rank f moves] if_not_P[OF False])
    then show ?thesis using "1.prems" by simp
  next
    case True
    have unfold: "rookRight p piece rank f moves =
        (case rayStep p piece f rank moves of
           None \<Rightarrow> None
         | Some (go, moves') \<Rightarrow>
             if go then rookRight p piece rank (f + 1) moves' else Some moves')"
      by (simp only: rookRight.simps[of p piece rank f moves] if_P[OF True])
    then obtain go moves' where st: "rayStep p piece f rank moves = Some (go, moves')"
      using "1.prems"(3) by (auto split: option.splits)
    have v: "list_all Q moves'"
      by (rule rayStep_pushes[where Q = Q, OF st "1.prems"(2)]) (rule "1.prems"(1))
    show ?thesis
    proof (cases go)
      case False
      then show ?thesis using "1.prems"(3) st v unfold by simp
    next
      case go: True
      have "rookRight p piece rank (f + 1) moves' = Some ms"
        using "1.prems"(3) st go unfold by simp
      then show ?thesis using "1.IH"[OF True st refl go "1.prems"(1) v] by simp
    qed
  qed
qed

lemma rookLeft_pushes:
  "(\<And>f r. sameColorAt p f r piece = Some False \<Longrightarrow> Q (squareFromFileRank f r))
   \<Longrightarrow> list_all Q moves \<Longrightarrow> rookLeft p piece rank f moves = Some ms \<Longrightarrow> list_all Q ms"
proof (induction p piece rank f moves rule: rookLeft.induct)
  case (1 p piece rank f moves)
  show ?case
  proof (cases "f \<ge> 0")
    case False
    have "rookLeft p piece rank f moves = Some moves"
      by (simp only: rookLeft.simps[of p piece rank f moves] if_not_P[OF False])
    then show ?thesis using "1.prems" by simp
  next
    case True
    have unfold: "rookLeft p piece rank f moves =
        (case rayStep p piece f rank moves of
           None \<Rightarrow> None
         | Some (go, moves') \<Rightarrow>
             if go then rookLeft p piece rank (f - 1) moves' else Some moves')"
      by (simp only: rookLeft.simps[of p piece rank f moves] if_P[OF True])
    then obtain go moves' where st: "rayStep p piece f rank moves = Some (go, moves')"
      using "1.prems"(3) by (auto split: option.splits)
    have v: "list_all Q moves'"
      by (rule rayStep_pushes[where Q = Q, OF st "1.prems"(2)]) (rule "1.prems"(1))
    show ?thesis
    proof (cases go)
      case False
      then show ?thesis using "1.prems"(3) st v unfold by simp
    next
      case go: True
      have "rookLeft p piece rank (f - 1) moves' = Some ms"
        using "1.prems"(3) st go unfold by simp
      then show ?thesis using "1.IH"[OF True st refl go "1.prems"(1) v] by simp
    qed
  qed
qed

lemma rookUp_pushes:
  "(\<And>f r. sameColorAt p f r piece = Some False \<Longrightarrow> Q (squareFromFileRank f r))
   \<Longrightarrow> list_all Q moves \<Longrightarrow> rookUp p piece fl r moves = Some ms \<Longrightarrow> list_all Q ms"
proof (induction p piece fl r moves rule: rookUp.induct)
  case (1 p piece fl r moves)
  show ?case
  proof (cases "r < 8")
    case False
    have "rookUp p piece fl r moves = Some moves"
      by (simp only: rookUp.simps[of p piece fl r moves] if_not_P[OF False])
    then show ?thesis using "1.prems" by simp
  next
    case True
    have unfold: "rookUp p piece fl r moves =
        (case rayStep p piece fl r moves of
           None \<Rightarrow> None
         | Some (go, moves') \<Rightarrow>
             if go then rookUp p piece fl (r + 1) moves' else Some moves')"
      by (simp only: rookUp.simps[of p piece fl r moves] if_P[OF True])
    then obtain go moves' where st: "rayStep p piece fl r moves = Some (go, moves')"
      using "1.prems"(3) by (auto split: option.splits)
    have v: "list_all Q moves'"
      by (rule rayStep_pushes[where Q = Q, OF st "1.prems"(2)]) (rule "1.prems"(1))
    show ?thesis
    proof (cases go)
      case False
      then show ?thesis using "1.prems"(3) st v unfold by simp
    next
      case go: True
      have "rookUp p piece fl (r + 1) moves' = Some ms"
        using "1.prems"(3) st go unfold by simp
      then show ?thesis using "1.IH"[OF True st refl go "1.prems"(1) v] by simp
    qed
  qed
qed

lemma rookDown_pushes:
  "(\<And>f r. sameColorAt p f r piece = Some False \<Longrightarrow> Q (squareFromFileRank f r))
   \<Longrightarrow> list_all Q moves \<Longrightarrow> rookDown p piece fl r moves = Some ms \<Longrightarrow> list_all Q ms"
proof (induction p piece fl r moves rule: rookDown.induct)
  case (1 p piece fl r moves)
  show ?case
  proof (cases "r \<ge> 0")
    case False
    have "rookDown p piece fl r moves = Some moves"
      by (simp only: rookDown.simps[of p piece fl r moves] if_not_P[OF False])
    then show ?thesis using "1.prems" by simp
  next
    case True
    have unfold: "rookDown p piece fl r moves =
        (case rayStep p piece fl r moves of
           None \<Rightarrow> None
         | Some (go, moves') \<Rightarrow>
             if go then rookDown p piece fl (r - 1) moves' else Some moves')"
      by (simp only: rookDown.simps[of p piece fl r moves] if_P[OF True])
    then obtain go moves' where st: "rayStep p piece fl r moves = Some (go, moves')"
      using "1.prems"(3) by (auto split: option.splits)
    have v: "list_all Q moves'"
      by (rule rayStep_pushes[where Q = Q, OF st "1.prems"(2)]) (rule "1.prems"(1))
    show ?thesis
    proof (cases go)
      case False
      then show ?thesis using "1.prems"(3) st v unfold by simp
    next
      case go: True
      have "rookDown p piece fl (r - 1) moves' = Some ms"
        using "1.prems"(3) st go unfold by simp
      then show ?thesis using "1.IH"[OF True st refl go "1.prems"(1) v] by simp
    qed
  qed
qed

lemma bishopUpRight_pushes:
  "(\<And>f r. sameColorAt p f r piece = Some False \<Longrightarrow> Q (squareFromFileRank f r))
   \<Longrightarrow> list_all Q moves \<Longrightarrow> bishopUpRight p piece f r moves = Some ms \<Longrightarrow> list_all Q ms"
proof (induction p piece f r moves rule: bishopUpRight.induct)
  case (1 p piece f r moves)
  show ?case
  proof (cases "f < 8 \<and> r < 8")
    case False
    have "bishopUpRight p piece f r moves = Some moves"
      by (simp only: bishopUpRight.simps[of p piece f r moves] if_not_P[OF False])
    then show ?thesis using "1.prems" by simp
  next
    case True
    have unfold: "bishopUpRight p piece f r moves =
        (case rayStep p piece f r moves of
           None \<Rightarrow> None
         | Some (go, moves') \<Rightarrow>
             if go then bishopUpRight p piece (f + 1) (r + 1) moves' else Some moves')"
      by (simp only: bishopUpRight.simps[of p piece f r moves] if_P[OF True])
    then obtain go moves' where st: "rayStep p piece f r moves = Some (go, moves')"
      using "1.prems"(3) by (auto split: option.splits)
    have v: "list_all Q moves'"
      by (rule rayStep_pushes[where Q = Q, OF st "1.prems"(2)]) (rule "1.prems"(1))
    show ?thesis
    proof (cases go)
      case False
      then show ?thesis using "1.prems"(3) st v unfold by simp
    next
      case go: True
      have "bishopUpRight p piece (f + 1) (r + 1) moves' = Some ms"
        using "1.prems"(3) st go unfold by simp
      then show ?thesis using "1.IH"[OF True st refl go "1.prems"(1) v] by simp
    qed
  qed
qed

lemma bishopDownRight_pushes:
  "(\<And>f r. sameColorAt p f r piece = Some False \<Longrightarrow> Q (squareFromFileRank f r))
   \<Longrightarrow> list_all Q moves \<Longrightarrow> bishopDownRight p piece f r moves = Some ms \<Longrightarrow> list_all Q ms"
proof (induction p piece f r moves rule: bishopDownRight.induct)
  case (1 p piece f r moves)
  show ?case
  proof (cases "f < 8 \<and> r \<ge> 0")
    case False
    have "bishopDownRight p piece f r moves = Some moves"
      by (simp only: bishopDownRight.simps[of p piece f r moves] if_not_P[OF False])
    then show ?thesis using "1.prems" by simp
  next
    case True
    have unfold: "bishopDownRight p piece f r moves =
        (case rayStep p piece f r moves of
           None \<Rightarrow> None
         | Some (go, moves') \<Rightarrow>
             if go then bishopDownRight p piece (f + 1) (r - 1) moves' else Some moves')"
      by (simp only: bishopDownRight.simps[of p piece f r moves] if_P[OF True])
    then obtain go moves' where st: "rayStep p piece f r moves = Some (go, moves')"
      using "1.prems"(3) by (auto split: option.splits)
    have v: "list_all Q moves'"
      by (rule rayStep_pushes[where Q = Q, OF st "1.prems"(2)]) (rule "1.prems"(1))
    show ?thesis
    proof (cases go)
      case False
      then show ?thesis using "1.prems"(3) st v unfold by simp
    next
      case go: True
      have "bishopDownRight p piece (f + 1) (r - 1) moves' = Some ms"
        using "1.prems"(3) st go unfold by simp
      then show ?thesis using "1.IH"[OF True st refl go "1.prems"(1) v] by simp
    qed
  qed
qed

lemma bishopDownLeft_pushes:
  "(\<And>f r. sameColorAt p f r piece = Some False \<Longrightarrow> Q (squareFromFileRank f r))
   \<Longrightarrow> list_all Q moves \<Longrightarrow> bishopDownLeft p piece f r moves = Some ms \<Longrightarrow> list_all Q ms"
proof (induction p piece f r moves rule: bishopDownLeft.induct)
  case (1 p piece f r moves)
  show ?case
  proof (cases "f \<ge> 0 \<and> r \<ge> 0")
    case False
    have "bishopDownLeft p piece f r moves = Some moves"
      by (simp only: bishopDownLeft.simps[of p piece f r moves] if_not_P[OF False])
    then show ?thesis using "1.prems" by simp
  next
    case True
    have unfold: "bishopDownLeft p piece f r moves =
        (case rayStep p piece f r moves of
           None \<Rightarrow> None
         | Some (go, moves') \<Rightarrow>
             if go then bishopDownLeft p piece (f - 1) (r - 1) moves' else Some moves')"
      by (simp only: bishopDownLeft.simps[of p piece f r moves] if_P[OF True])
    then obtain go moves' where st: "rayStep p piece f r moves = Some (go, moves')"
      using "1.prems"(3) by (auto split: option.splits)
    have v: "list_all Q moves'"
      by (rule rayStep_pushes[where Q = Q, OF st "1.prems"(2)]) (rule "1.prems"(1))
    show ?thesis
    proof (cases go)
      case False
      then show ?thesis using "1.prems"(3) st v unfold by simp
    next
      case go: True
      have "bishopDownLeft p piece (f - 1) (r - 1) moves' = Some ms"
        using "1.prems"(3) st go unfold by simp
      then show ?thesis using "1.IH"[OF True st refl go "1.prems"(1) v] by simp
    qed
  qed
qed

lemma bishopUpLeft_pushes:
  "(\<And>f r. sameColorAt p f r piece = Some False \<Longrightarrow> Q (squareFromFileRank f r))
   \<Longrightarrow> list_all Q moves \<Longrightarrow> bishopUpLeft p piece f r moves = Some ms \<Longrightarrow> list_all Q ms"
proof (induction p piece f r moves rule: bishopUpLeft.induct)
  case (1 p piece f r moves)
  show ?case
  proof (cases "f \<ge> 0 \<and> r < 8")
    case False
    have "bishopUpLeft p piece f r moves = Some moves"
      by (simp only: bishopUpLeft.simps[of p piece f r moves] if_not_P[OF False])
    then show ?thesis using "1.prems" by simp
  next
    case True
    have unfold: "bishopUpLeft p piece f r moves =
        (case rayStep p piece f r moves of
           None \<Rightarrow> None
         | Some (go, moves') \<Rightarrow>
             if go then bishopUpLeft p piece (f - 1) (r + 1) moves' else Some moves')"
      by (simp only: bishopUpLeft.simps[of p piece f r moves] if_P[OF True])
    then obtain go moves' where st: "rayStep p piece f r moves = Some (go, moves')"
      using "1.prems"(3) by (auto split: option.splits)
    have v: "list_all Q moves'"
      by (rule rayStep_pushes[where Q = Q, OF st "1.prems"(2)]) (rule "1.prems"(1))
    show ?thesis
    proof (cases go)
      case False
      then show ?thesis using "1.prems"(3) st v unfold by simp
    next
      case go: True
      have "bishopUpLeft p piece (f - 1) (r + 1) moves' = Some ms"
        using "1.prems"(3) st go unfold by simp
      then show ?thesis using "1.IH"[OF True st refl go "1.prems"(1) v] by simp
    qed
  qed
qed

lemma jump_pushes:
  assumes "jump p piece inside f r moves = Some ms" "list_all Q moves"
    "inside \<Longrightarrow> diffColorAt p f r piece = Some True \<Longrightarrow> Q (squareFromFileRank f r)"
  shows "list_all Q ms"
  using assms
  by (cases inside) (auto simp: jump_def Option.bind_eq_Some_conv split: if_splits)

lemma kingLoop_pushes:
  "(\<And>f r. 0 \<le> f \<and> f < 8 \<and> 0 \<le> r \<and> r < 8 \<Longrightarrow> diffColorAt p f r piece = Some True
      \<Longrightarrow> Q (squareFromFileRank f r))
   \<Longrightarrow> list_all Q moves \<Longrightarrow> kingLoop p piece fl rank offs moves = Some ms \<Longrightarrow> list_all Q ms"
proof (induction offs arbitrary: moves)
  case Nil
  then show ?case by simp
next
  case (Cons off offs)
  obtain i j where off: "off = (i, j)" by (cases off)
  show ?case
  proof (cases "i = 0 \<and> j = 0")
    case True
    then show ?thesis using Cons off by simp
  next
    case False
    then obtain moves' where
      j: "jump p piece (0 \<le> fl - i \<and> fl - i < 8 \<and> 0 \<le> rank - j \<and> rank - j < 8)
            (fl - i) (rank - j) moves = Some moves'"
      and rest: "kingLoop p piece fl rank offs moves' = Some ms"
      using Cons.prems(3) off by (auto simp: Let_def split: option.splits)
    have "list_all Q moves'"
      by (rule jump_pushes[where Q = Q, OF j Cons.prems(2)]) (rule Cons.prems(1))
    from Cons.IH[OF Cons.prems(1) this rest] show ?thesis by simp
  qed
qed

lemma castle_pushes:
  assumes "castle p piece color available between target moves = Some ms" "list_all Q moves"
    "idx0 piece = Some color \<Longrightarrow> available \<Longrightarrow> allEmpty p between = Some True \<Longrightarrow> Q target"
  shows "list_all Q ms"
  using assms by (auto simp: castle_def Option.bind_eq_Some_conv split: if_splits)

lemma getRookPseudoLegalMoves_pushes:
  assumes "getRookPseudoLegalMoves s sq = Some ms"
    "\<And>piece f r. posAt (position s) (fileFromSquare sq) (rankFromSquare sq) = Some piece
       \<Longrightarrow> sameColorAt (position s) f r piece = Some False \<Longrightarrow> Q (squareFromFileRank f r)"
  shows "list_all Q ms"
proof -
  let ?f = "fileFromSquare sq" and ?r = "rankFromSquare sq" and ?p = "position s"
  from assms(1) obtain piece where piece: "posAt ?p ?f ?r = Some piece"
    by (auto simp: getRookPseudoLegalMoves_def Let_def Option.bind_eq_Some_conv)
  show ?thesis
  proof (cases "piece = Def EE")
    case True
    then show ?thesis using assms(1) piece by (simp add: getRookPseudoLegalMoves_def Let_def)
  next
    case False
    then obtain m1 m2 m3 where
      m1: "rookRight ?p piece ?r (?f + 1) [] = Some m1"
      and m2: "rookLeft ?p piece ?r (?f - 1) m1 = Some m2"
      and m3: "rookUp ?p piece ?f (?r + 1) m2 = Some m3"
      and m4: "rookDown ?p piece ?f (?r - 1) m3 = Some ms"
      using assms(1) piece
      by (auto simp: getRookPseudoLegalMoves_def Let_def Option.bind_eq_Some_conv)
    note push = assms(2)[OF piece]
    have "list_all Q m1" using rookRight_pushes[where Q = Q, OF push _ m1] by simp
    then have "list_all Q m2" using rookLeft_pushes[where Q = Q, OF push _ m2] by simp
    then have "list_all Q m3" using rookUp_pushes[where Q = Q, OF push _ m3] by simp
    then show ?thesis using rookDown_pushes[where Q = Q, OF push _ m4] by simp
  qed
qed

lemma getBishopPseudoLegalMoves_pushes:
  assumes "getBishopPseudoLegalMoves s sq = Some ms"
    "\<And>piece f r. posAt (position s) (fileFromSquare sq) (rankFromSquare sq) = Some piece
       \<Longrightarrow> sameColorAt (position s) f r piece = Some False \<Longrightarrow> Q (squareFromFileRank f r)"
  shows "list_all Q ms"
proof -
  let ?f = "fileFromSquare sq" and ?r = "rankFromSquare sq" and ?p = "position s"
  from assms(1) obtain piece where piece: "posAt ?p ?f ?r = Some piece"
    by (auto simp: getBishopPseudoLegalMoves_def Let_def Option.bind_eq_Some_conv)
  show ?thesis
  proof (cases "piece = Def EE")
    case True
    then show ?thesis using assms(1) piece by (simp add: getBishopPseudoLegalMoves_def Let_def)
  next
    case False
    then obtain m1 m2 m3 where
      m1: "bishopUpRight ?p piece (?f + 1) (?r + 1) [] = Some m1"
      and m2: "bishopDownRight ?p piece (?f + 1) (?r - 1) m1 = Some m2"
      and m3: "bishopDownLeft ?p piece (?f - 1) (?r - 1) m2 = Some m3"
      and m4: "bishopUpLeft ?p piece (?f - 1) (?r + 1) m3 = Some ms"
      using assms(1) piece
      by (auto simp: getBishopPseudoLegalMoves_def Let_def Option.bind_eq_Some_conv)
    note push = assms(2)[OF piece]
    have "list_all Q m1" using bishopUpRight_pushes[where Q = Q, OF push _ m1] by simp
    then have "list_all Q m2" using bishopDownRight_pushes[where Q = Q, OF push _ m2] by simp
    then have "list_all Q m3" using bishopDownLeft_pushes[where Q = Q, OF push _ m3] by simp
    then show ?thesis using bishopUpLeft_pushes[where Q = Q, OF push _ m4] by simp
  qed
qed

lemma getQueenPseudoLegalMoves_pushes:
  assumes "getQueenPseudoLegalMoves s sq = Some ms"
    "\<And>piece f r. posAt (position s) (fileFromSquare sq) (rankFromSquare sq) = Some piece
       \<Longrightarrow> sameColorAt (position s) f r piece = Some False \<Longrightarrow> Q (squareFromFileRank f r)"
  shows "list_all Q ms"
proof -
  from assms(1) obtain a b where
    a: "getRookPseudoLegalMoves s sq = Some a" and b: "getBishopPseudoLegalMoves s sq = Some b"
    and ms: "ms = a @ b"
    by (auto simp: getQueenPseudoLegalMoves_def Option.bind_eq_Some_conv)
  show ?thesis
    unfolding ms
    using getRookPseudoLegalMoves_pushes[where Q = Q, OF a assms(2)]
      getBishopPseudoLegalMoves_pushes[where Q = Q, OF b assms(2)]
    by simp
qed

lemma getKnightPseudoLegalMoves_pushes:
  assumes "getKnightPseudoLegalMoves s sq = Some ms"
    "\<And>piece f r. posAt (position s) (fileFromSquare sq) (rankFromSquare sq) = Some piece
       \<Longrightarrow> diffColorAt (position s) f r piece = Some True \<Longrightarrow> Q (squareFromFileRank f r)"
  shows "list_all Q ms"
proof -
  let ?f = "fileFromSquare sq" and ?r = "rankFromSquare sq" and ?p = "position s"
  from assms(1) obtain piece where piece: "posAt ?p ?f ?r = Some piece"
    by (auto simp: getKnightPseudoLegalMoves_def Let_def Option.bind_eq_Some_conv)
  show ?thesis
  proof (cases "piece = Def EE")
    case True
    then show ?thesis using assms(1) piece by (simp add: getKnightPseudoLegalMoves_def Let_def)
  next
    case False
    then obtain m1 m2 m3 m4 m5 m6 m7 where
      m1: "jump ?p piece (?f > 0 \<and> ?r < 6) (?f - 1) (?r + 2) [] = Some m1"
      and m2: "jump ?p piece (?f < 7 \<and> ?r < 6) (?f + 1) (?r + 2) m1 = Some m2"
      and m3: "jump ?p piece (?f > 0 \<and> ?r > 1) (?f - 1) (?r - 2) m2 = Some m3"
      and m4: "jump ?p piece (?f < 7 \<and> ?r > 1) (?f + 1) (?r - 2) m3 = Some m4"
      and m5: "jump ?p piece (?f > 1 \<and> ?r < 7) (?f - 2) (?r + 1) m4 = Some m5"
      and m6: "jump ?p piece (?f < 6 \<and> ?r < 7) (?f + 2) (?r + 1) m5 = Some m6"
      and m7: "jump ?p piece (?f > 1 \<and> ?r > 0) (?f - 2) (?r - 1) m6 = Some m7"
      and m8: "jump ?p piece (?f < 6 \<and> ?r > 0) (?f + 2) (?r - 1) m7 = Some ms"
      using assms(1) piece
      by (auto simp: getKnightPseudoLegalMoves_def Let_def Option.bind_eq_Some_conv)
    note push = assms(2)[OF piece]
    have "list_all Q m1" using jump_pushes[where Q = Q, OF m1 _ push] by simp
    then have "list_all Q m2" using jump_pushes[where Q = Q, OF m2 _ push] by simp
    then have "list_all Q m3" using jump_pushes[where Q = Q, OF m3 _ push] by simp
    then have "list_all Q m4" using jump_pushes[where Q = Q, OF m4 _ push] by simp
    then have "list_all Q m5" using jump_pushes[where Q = Q, OF m5 _ push] by simp
    then have "list_all Q m6" using jump_pushes[where Q = Q, OF m6 _ push] by simp
    then have "list_all Q m7" using jump_pushes[where Q = Q, OF m7 _ push] by simp
    then show ?thesis using jump_pushes[where Q = Q, OF m8 _ push] by simp
  qed
qed

lemma getKingPseudoLegalMoves_pushes:
  assumes "getKingPseudoLegalMoves s sq = Some ms"
    "\<And>piece f r. posAt (position s) (fileFromSquare sq) (rankFromSquare sq) = Some piece
       \<Longrightarrow> 0 \<le> f \<and> f < 8 \<and> 0 \<le> r \<and> r < 8
       \<Longrightarrow> diffColorAt (position s) f r piece = Some True \<Longrightarrow> Q (squareFromFileRank f r)"
    "\<And>piece. posAt (position s) (fileFromSquare sq) (rankFromSquare sq) = Some piece
       \<Longrightarrow> idx0 piece = Some (CHR ''w'') \<Longrightarrow> whiteCastleQueensideAvailable s
       \<Longrightarrow> allEmpty (position s) [(1, 0), (2, 0), (3, 0)] = Some True
       \<Longrightarrow> Q (squareFromFileRank 2 0)"
    "\<And>piece. posAt (position s) (fileFromSquare sq) (rankFromSquare sq) = Some piece
       \<Longrightarrow> idx0 piece = Some (CHR ''w'') \<Longrightarrow> whiteCastleKingsideAvailable s
       \<Longrightarrow> allEmpty (position s) [(5, 0), (6, 0)] = Some True
       \<Longrightarrow> Q (squareFromFileRank 6 0)"
    "\<And>piece. posAt (position s) (fileFromSquare sq) (rankFromSquare sq) = Some piece
       \<Longrightarrow> idx0 piece = Some (CHR ''b'') \<Longrightarrow> blackCastleQueensideAvailable s
       \<Longrightarrow> allEmpty (position s) [(1, 7), (2, 7), (3, 7)] = Some True
       \<Longrightarrow> Q (squareFromFileRank 2 7)"
    "\<And>piece. posAt (position s) (fileFromSquare sq) (rankFromSquare sq) = Some piece
       \<Longrightarrow> idx0 piece = Some (CHR ''b'') \<Longrightarrow> blackCastleKingsideAvailable s
       \<Longrightarrow> allEmpty (position s) [(5, 7), (6, 7)] = Some True
       \<Longrightarrow> Q (squareFromFileRank 6 7)"
  shows "list_all Q ms"
proof -
  let ?f = "fileFromSquare sq" and ?r = "rankFromSquare sq" and ?p = "position s"
  from assms(1) obtain piece where piece: "posAt ?p ?f ?r = Some piece"
    by (auto simp: getKingPseudoLegalMoves_def Let_def Option.bind_eq_Some_conv)
  show ?thesis
  proof (cases "piece = Def EE")
    case True
    then show ?thesis using assms(1) piece by (simp add: getKingPseudoLegalMoves_def Let_def)
  next
    case False
    then obtain m1 m2 m3 m4 where
      m1: "kingLoop ?p piece ?f ?r kingOffsets [] = Some m1"
      and m2: "castle ?p piece (CHR ''w'') (whiteCastleQueensideAvailable s)
                [(1, 0), (2, 0), (3, 0)] (squareFromFileRank 2 0) m1 = Some m2"
      and m3: "castle ?p piece (CHR ''w'') (whiteCastleKingsideAvailable s)
                [(5, 0), (6, 0)] (squareFromFileRank 6 0) m2 = Some m3"
      and m4: "castle ?p piece (CHR ''b'') (blackCastleQueensideAvailable s)
                [(1, 7), (2, 7), (3, 7)] (squareFromFileRank 2 7) m3 = Some m4"
      and m5: "castle ?p piece (CHR ''b'') (blackCastleKingsideAvailable s)
                [(5, 7), (6, 7)] (squareFromFileRank 6 7) m4 = Some ms"
      using assms(1) piece
      by (auto simp: getKingPseudoLegalMoves_def Let_def Option.bind_eq_Some_conv)
    have "list_all Q m1" using kingLoop_pushes[where Q = Q, OF assms(2)[OF piece] _ m1] by simp
    then have "list_all Q m2" using castle_pushes[where Q = Q, OF m2 _ assms(3)[OF piece]] by simp
    then have "list_all Q m3" using castle_pushes[where Q = Q, OF m3 _ assms(4)[OF piece]] by simp
    then have "list_all Q m4" using castle_pushes[where Q = Q, OF m4 _ assms(5)[OF piece]] by simp
    then show ?thesis using castle_pushes[where Q = Q, OF m5 _ assms(6)[OF piece]] by simp
  qed
qed


text \<open>
  The pawn. The two colours differ in the direction \<open>d\<close> (\<open>1\<close> for White, \<open>-1\<close> for Black),
  in the home rank, in the rank guard of the single step and in the en-passant rank; the
  side \<open>e\<close> is \<open>-1\<close> for the left neighbour file and \<open>1\<close> for the right one.
\<close>

lemma whitePawnMoves_pushes:
  assumes run: "whitePawnMoves s fl rank piece = Some ms"
    and two: "rank = 1 \<Longrightarrow> isEmptyAt (position s) fl (rank + 1) = Some True
              \<Longrightarrow> isEmptyAt (position s) fl (rank + 2) = Some True
              \<Longrightarrow> Q (squareFromFileRank fl (rank + 2))"
    and one: "rank < 7 \<Longrightarrow> isEmptyAt (position s) fl (rank + 1) = Some True
              \<Longrightarrow> Q (squareFromFileRank fl (rank + 1))"
    and epl: "rank = 4 \<Longrightarrow> fl > 0 \<Longrightarrow> twoSquarePawnMove s = squareFromFileRank (fl - 1) rank
              \<Longrightarrow> Q (squareFromFileRank (fl - 1) (rank + 1))"
    and epr: "rank = 4 \<Longrightarrow> fl < 7 \<Longrightarrow> twoSquarePawnMove s = squareFromFileRank (fl + 1) rank
              \<Longrightarrow> Q (squareFromFileRank (fl + 1) (rank + 1))"
    and left: "fl > 0 \<Longrightarrow> enemyAt (position s) (fl - 1) (rank + 1) piece = Some True
              \<Longrightarrow> Q (squareFromFileRank (fl - 1) (rank + 1))"
    and right: "fl < 7 \<Longrightarrow> enemyAt (position s) (fl + 1) (rank + 1) piece = Some True
              \<Longrightarrow> Q (squareFromFileRank (fl + 1) (rank + 1))"
  shows "list_all Q ms"
proof -
  let ?p = "position s"
  from run obtain b2 b1 bl br where
    b2: "(if rank = 1
           then do { a \<leftarrow> isEmptyAt ?p fl (rank + 1);
                     if a then isEmptyAt ?p fl (rank + 2) else Some False }
           else Some False) = Some b2"
    and b1: "(if rank < 7 then isEmptyAt ?p fl (rank + 1) else Some False) = Some b1"
    and bl: "(if fl > 0 then enemyAt ?p (fl - 1) (rank + 1) piece else Some False) = Some bl"
    and br: "(if fl < 7 then enemyAt ?p (fl + 1) (rank + 1) piece else Some False) = Some br"
    and ms: "ms =
      (let moves = (if b2 then [squareFromFileRank fl (rank + 2)] else []);
           moves = (if b1 then moves @ [squareFromFileRank fl (rank + 1)] else moves);
           moves =
             (if rank = 4
              then (let moves =
                      (if fl > 0 \<and> twoSquarePawnMove s = squareFromFileRank (fl - 1) rank
                       then moves @ [squareFromFileRank (fl - 1) (rank + 1)] else moves)
                    in (if fl < 7 \<and> twoSquarePawnMove s = squareFromFileRank (fl + 1) rank
                        then moves @ [squareFromFileRank (fl + 1) (rank + 1)] else moves))
              else moves);
           moves = (if bl then moves @ [squareFromFileRank (fl - 1) (rank + 1)] else moves)
       in (if br then moves @ [squareFromFileRank (fl + 1) (rank + 1)] else moves))"
    by (auto simp: whitePawnMoves_def Let_def Option.bind_eq_Some_conv)
  have q2: "b2 \<Longrightarrow> Q (squareFromFileRank fl (rank + 2))"
    using b2 two by (auto simp: Option.bind_eq_Some_conv split: if_splits)
  have q1: "b1 \<Longrightarrow> Q (squareFromFileRank fl (rank + 1))"
    using b1 one by (auto split: if_splits)
  have ql: "bl \<Longrightarrow> Q (squareFromFileRank (fl - 1) (rank + 1))"
    using bl left by (auto split: if_splits)
  have qr: "br \<Longrightarrow> Q (squareFromFileRank (fl + 1) (rank + 1))"
    using br right by (auto split: if_splits)
  show ?thesis
    unfolding ms Let_def using q1 q2 ql qr epl epr by auto
qed

lemma blackPawnMoves_pushes:
  assumes run: "blackPawnMoves s fl rank piece = Some ms"
    and two: "rank = 6 \<Longrightarrow> isEmptyAt (position s) fl (rank - 1) = Some True
              \<Longrightarrow> isEmptyAt (position s) fl (rank - 2) = Some True
              \<Longrightarrow> Q (squareFromFileRank fl (rank - 2))"
    and one: "rank > 0 \<Longrightarrow> isEmptyAt (position s) fl (rank - 1) = Some True
              \<Longrightarrow> Q (squareFromFileRank fl (rank - 1))"
    and epl: "rank = 3 \<Longrightarrow> fl > 0 \<Longrightarrow> twoSquarePawnMove s = squareFromFileRank (fl - 1) rank
              \<Longrightarrow> Q (squareFromFileRank (fl - 1) (rank - 1))"
    and epr: "rank = 3 \<Longrightarrow> fl < 7 \<Longrightarrow> twoSquarePawnMove s = squareFromFileRank (fl + 1) rank
              \<Longrightarrow> Q (squareFromFileRank (fl + 1) (rank - 1))"
    and left: "fl > 0 \<Longrightarrow> enemyAt (position s) (fl - 1) (rank - 1) piece = Some True
              \<Longrightarrow> Q (squareFromFileRank (fl - 1) (rank - 1))"
    and right: "fl < 7 \<Longrightarrow> enemyAt (position s) (fl + 1) (rank - 1) piece = Some True
              \<Longrightarrow> Q (squareFromFileRank (fl + 1) (rank - 1))"
  shows "list_all Q ms"
proof -
  let ?p = "position s"
  from run obtain b2 b1 bl br where
    b2: "(if rank = 6
           then do { a \<leftarrow> isEmptyAt ?p fl (rank - 1);
                     if a then isEmptyAt ?p fl (rank - 2) else Some False }
           else Some False) = Some b2"
    and b1: "(if rank > 0 then isEmptyAt ?p fl (rank - 1) else Some False) = Some b1"
    and bl: "(if fl > 0 then enemyAt ?p (fl - 1) (rank - 1) piece else Some False) = Some bl"
    and br: "(if fl < 7 then enemyAt ?p (fl + 1) (rank - 1) piece else Some False) = Some br"
    and ms: "ms =
      (let moves = (if b2 then [squareFromFileRank fl (rank - 2)] else []);
           moves = (if b1 then moves @ [squareFromFileRank fl (rank - 1)] else moves);
           moves =
             (if rank = 3
              then (let moves =
                      (if fl > 0 \<and> twoSquarePawnMove s = squareFromFileRank (fl - 1) rank
                       then moves @ [squareFromFileRank (fl - 1) (rank - 1)] else moves)
                    in (if fl < 7 \<and> twoSquarePawnMove s = squareFromFileRank (fl + 1) rank
                        then moves @ [squareFromFileRank (fl + 1) (rank - 1)] else moves))
              else moves);
           moves = (if bl then moves @ [squareFromFileRank (fl - 1) (rank - 1)] else moves)
       in (if br then moves @ [squareFromFileRank (fl + 1) (rank - 1)] else moves))"
    by (auto simp: blackPawnMoves_def Let_def Option.bind_eq_Some_conv)
  have q2: "b2 \<Longrightarrow> Q (squareFromFileRank fl (rank - 2))"
    using b2 two by (auto simp: Option.bind_eq_Some_conv split: if_splits)
  have q1: "b1 \<Longrightarrow> Q (squareFromFileRank fl (rank - 1))"
    using b1 one by (auto split: if_splits)
  have ql: "bl \<Longrightarrow> Q (squareFromFileRank (fl - 1) (rank - 1))"
    using bl left by (auto split: if_splits)
  have qr: "br \<Longrightarrow> Q (squareFromFileRank (fl + 1) (rank - 1))"
    using br right by (auto split: if_splits)
  show ?thesis
    unfolding ms Let_def using q1 q2 ql qr epl epr by auto
qed

lemma getPawnPseudoLegalMoves_pushes:
  assumes run: "getPawnPseudoLegalMoves s sq = Some ms"
    and two: "\<And>piece d. posAt (position s) (fileFromSquare sq) (rankFromSquare sq) = Some piece
        \<Longrightarrow> d = 1 \<or> d = - 1
        \<Longrightarrow> rankFromSquare sq = (if d = 1 then 1 else 6)
        \<Longrightarrow> isEmptyAt (position s) (fileFromSquare sq) (rankFromSquare sq + d) = Some True
        \<Longrightarrow> isEmptyAt (position s) (fileFromSquare sq) (rankFromSquare sq + 2 * d) = Some True
        \<Longrightarrow> Q (squareFromFileRank (fileFromSquare sq) (rankFromSquare sq + 2 * d))"
    and one: "\<And>piece d. posAt (position s) (fileFromSquare sq) (rankFromSquare sq) = Some piece
        \<Longrightarrow> d = 1 \<or> d = - 1
        \<Longrightarrow> (if d = 1 then rankFromSquare sq < 7 else rankFromSquare sq > 0)
        \<Longrightarrow> isEmptyAt (position s) (fileFromSquare sq) (rankFromSquare sq + d) = Some True
        \<Longrightarrow> Q (squareFromFileRank (fileFromSquare sq) (rankFromSquare sq + d))"
    and ep: "\<And>piece d e. posAt (position s) (fileFromSquare sq) (rankFromSquare sq) = Some piece
        \<Longrightarrow> idx0 piece = Some (CHR ''w'') \<longleftrightarrow> d = 1
        \<Longrightarrow> d = 1 \<or> d = - 1 \<Longrightarrow> e = 1 \<or> e = - 1
        \<Longrightarrow> rankFromSquare sq = (if d = 1 then 4 else 3)
        \<Longrightarrow> (if e = 1 then fileFromSquare sq < 7 else fileFromSquare sq > 0)
        \<Longrightarrow> twoSquarePawnMove s = squareFromFileRank (fileFromSquare sq + e) (rankFromSquare sq)
        \<Longrightarrow> Q (squareFromFileRank (fileFromSquare sq + e) (rankFromSquare sq + d))"
    and att: "\<And>piece d e. posAt (position s) (fileFromSquare sq) (rankFromSquare sq) = Some piece
        \<Longrightarrow> d = 1 \<or> d = - 1 \<Longrightarrow> e = 1 \<or> e = - 1
        \<Longrightarrow> enemyAt (position s) (fileFromSquare sq + e) (rankFromSquare sq + d) piece = Some True
        \<Longrightarrow> Q (squareFromFileRank (fileFromSquare sq + e) (rankFromSquare sq + d))"
  shows "list_all Q ms"
proof -
  let ?f = "fileFromSquare sq" and ?r = "rankFromSquare sq"
  from run obtain piece where piece: "posAt (position s) ?f ?r = Some piece"
    by (auto simp: getPawnPseudoLegalMoves_def Let_def Option.bind_eq_Some_conv)
  show ?thesis
  proof (cases "piece = Def EE")
    case True
    then show ?thesis using run piece by (simp add: getPawnPseudoLegalMoves_def Let_def)
  next
    case False
    then obtain c where c: "idx0 piece = Some c"
      using run piece by (auto simp: getPawnPseudoLegalMoves_def Let_def Option.bind_eq_Some_conv)
    show ?thesis
    proof (cases "c = CHR ''w''")
      case True
      then have w: "whitePawnMoves s ?f ?r piece = Some ms"
        using run piece False c by (simp add: getPawnPseudoLegalMoves_def Let_def)
      show ?thesis
      proof (rule whitePawnMoves_pushes[where Q = Q, OF w])
        show "Q (squareFromFileRank ?f (?r + 2))"
          if "?r = 1" "isEmptyAt (position s) ?f (?r + 1) = Some True"
            "isEmptyAt (position s) ?f (?r + 2) = Some True"
          using two[OF piece, of 1] that by simp
        show "Q (squareFromFileRank ?f (?r + 1))"
          if "?r < 7" "isEmptyAt (position s) ?f (?r + 1) = Some True"
          using one[OF piece, of 1] that by simp
        show "Q (squareFromFileRank (?f - 1) (?r + 1))"
          if "?r = 4" "?f > 0" "twoSquarePawnMove s = squareFromFileRank (?f - 1) ?r"
          using ep[OF piece, of 1 "- 1"] that c True by simp
        show "Q (squareFromFileRank (?f + 1) (?r + 1))"
          if "?r = 4" "?f < 7" "twoSquarePawnMove s = squareFromFileRank (?f + 1) ?r"
          using ep[OF piece, of 1 1] that c True by simp
        show "Q (squareFromFileRank (?f - 1) (?r + 1))"
          if "?f > 0" "enemyAt (position s) (?f - 1) (?r + 1) piece = Some True"
          using att[OF piece, of 1 "- 1"] that by simp
        show "Q (squareFromFileRank (?f + 1) (?r + 1))"
          if "?f < 7" "enemyAt (position s) (?f + 1) (?r + 1) piece = Some True"
          using att[OF piece, of 1 1] that by simp
      qed
    next
      case notW: False
      then have b: "blackPawnMoves s ?f ?r piece = Some ms"
        using run piece False c by (simp add: getPawnPseudoLegalMoves_def Let_def)
      show ?thesis
      proof (rule blackPawnMoves_pushes[where Q = Q, OF b])
        show "Q (squareFromFileRank ?f (?r - 2))"
          if "?r = 6" "isEmptyAt (position s) ?f (?r - 1) = Some True"
            "isEmptyAt (position s) ?f (?r - 2) = Some True"
          using two[OF piece, of "- 1"] that by simp
        show "Q (squareFromFileRank ?f (?r - 1))"
          if "?r > 0" "isEmptyAt (position s) ?f (?r - 1) = Some True"
          using one[OF piece, of "- 1"] that by simp
        show "Q (squareFromFileRank (?f - 1) (?r - 1))"
          if "?r = 3" "?f > 0" "twoSquarePawnMove s = squareFromFileRank (?f - 1) ?r"
          using ep[OF piece, of "- 1" "- 1"] that c notW by simp
        show "Q (squareFromFileRank (?f + 1) (?r - 1))"
          if "?r = 3" "?f < 7" "twoSquarePawnMove s = squareFromFileRank (?f + 1) ?r"
          using ep[OF piece, of "- 1" 1] that c notW by simp
        show "Q (squareFromFileRank (?f - 1) (?r - 1))"
          if "?f > 0" "enemyAt (position s) (?f - 1) (?r - 1) piece = Some True"
          using att[OF piece, of "- 1" "- 1"] that by simp
        show "Q (squareFromFileRank (?f + 1) (?r - 1))"
          if "?f < 7" "enemyAt (position s) (?f + 1) (?r - 1) piece = Some True"
          using att[OF piece, of "- 1" 1] that by simp
      qed
    qed
  qed
qed


text \<open>The dispatch on the kind of the piece.\<close>

lemma getPseudoLegalMoves_pushes:
  assumes run: "getPseudoLegalMoves s sq = Some ms"
    and ray: "\<And>piece f r. posAt (position s) (fileFromSquare sq) (rankFromSquare sq) = Some piece
        \<Longrightarrow> idx1 piece \<in> {Some (CHR ''r''), Some (CHR ''b''), Some (CHR ''q'')}
        \<Longrightarrow> sameColorAt (position s) f r piece = Some False \<Longrightarrow> Q (squareFromFileRank f r)"
    and hop: "\<And>piece f r. posAt (position s) (fileFromSquare sq) (rankFromSquare sq) = Some piece
        \<Longrightarrow> idx1 piece \<in> {Some (CHR ''n''), Some (CHR ''k'')}
        \<Longrightarrow> diffColorAt (position s) f r piece = Some True \<Longrightarrow> Q (squareFromFileRank f r)"
    and castles: "\<And>piece color available between target.
        posAt (position s) (fileFromSquare sq) (rankFromSquare sq) = Some piece
        \<Longrightarrow> (color, available, between, target) \<in>
              {(CHR ''w'', whiteCastleQueensideAvailable s, [(1, 0), (2, 0), (3, 0)],
                  squareFromFileRank 2 0),
               (CHR ''w'', whiteCastleKingsideAvailable s, [(5, 0), (6, 0)],
                  squareFromFileRank 6 0),
               (CHR ''b'', blackCastleQueensideAvailable s, [(1, 7), (2, 7), (3, 7)],
                  squareFromFileRank 2 7),
               (CHR ''b'', blackCastleKingsideAvailable s, [(5, 7), (6, 7)],
                  squareFromFileRank 6 7)}
        \<Longrightarrow> idx1 piece = Some (CHR ''k'')
        \<Longrightarrow> idx0 piece = Some color \<Longrightarrow> available
        \<Longrightarrow> allEmpty (position s) between = Some True \<Longrightarrow> Q target"
    and two: "\<And>piece d. posAt (position s) (fileFromSquare sq) (rankFromSquare sq) = Some piece
        \<Longrightarrow> idx1 piece = Some (CHR ''p'')
        \<Longrightarrow> d = 1 \<or> d = - 1
        \<Longrightarrow> rankFromSquare sq = (if d = 1 then 1 else 6)
        \<Longrightarrow> isEmptyAt (position s) (fileFromSquare sq) (rankFromSquare sq + d) = Some True
        \<Longrightarrow> isEmptyAt (position s) (fileFromSquare sq) (rankFromSquare sq + 2 * d) = Some True
        \<Longrightarrow> Q (squareFromFileRank (fileFromSquare sq) (rankFromSquare sq + 2 * d))"
    and one: "\<And>piece d. posAt (position s) (fileFromSquare sq) (rankFromSquare sq) = Some piece
        \<Longrightarrow> idx1 piece = Some (CHR ''p'')
        \<Longrightarrow> d = 1 \<or> d = - 1
        \<Longrightarrow> (if d = 1 then rankFromSquare sq < 7 else rankFromSquare sq > 0)
        \<Longrightarrow> isEmptyAt (position s) (fileFromSquare sq) (rankFromSquare sq + d) = Some True
        \<Longrightarrow> Q (squareFromFileRank (fileFromSquare sq) (rankFromSquare sq + d))"
    and ep: "\<And>piece d e. posAt (position s) (fileFromSquare sq) (rankFromSquare sq) = Some piece
        \<Longrightarrow> idx1 piece = Some (CHR ''p'')
        \<Longrightarrow> idx0 piece = Some (CHR ''w'') \<longleftrightarrow> d = 1
        \<Longrightarrow> d = 1 \<or> d = - 1 \<Longrightarrow> e = 1 \<or> e = - 1
        \<Longrightarrow> rankFromSquare sq = (if d = 1 then 4 else 3)
        \<Longrightarrow> (if e = 1 then fileFromSquare sq < 7 else fileFromSquare sq > 0)
        \<Longrightarrow> twoSquarePawnMove s = squareFromFileRank (fileFromSquare sq + e) (rankFromSquare sq)
        \<Longrightarrow> Q (squareFromFileRank (fileFromSquare sq + e) (rankFromSquare sq + d))"
    and att: "\<And>piece d e. posAt (position s) (fileFromSquare sq) (rankFromSquare sq) = Some piece
        \<Longrightarrow> idx1 piece = Some (CHR ''p'')
        \<Longrightarrow> d = 1 \<or> d = - 1 \<Longrightarrow> e = 1 \<or> e = - 1
        \<Longrightarrow> enemyAt (position s) (fileFromSquare sq + e) (rankFromSquare sq + d) piece = Some True
        \<Longrightarrow> Q (squareFromFileRank (fileFromSquare sq + e) (rankFromSquare sq + d))"
  shows "list_all Q ms"
proof -
  from run obtain piece where piece: "getPieceOnSquare' s sq = Some piece"
    by (auto simp: getPseudoLegalMoves_def Option.bind_eq_Some_conv)
  then have pos: "posAt (position s) (fileFromSquare sq) (rankFromSquare sq) = Some piece"
    by (simp add: getPieceOnSquare'_def Let_def)
  have same: "piece' = piece"
    if "posAt (position s) (fileFromSquare sq) (rankFromSquare sq) = Some piece'" for piece'
    using that pos by simp
  show ?thesis
  proof (cases "piece = Def EE")
    case True
    then show ?thesis using run piece by (simp add: getPseudoLegalMoves_def)
  next
    case False
    then obtain k where k: "idx1 piece = Some k"
      using run piece by (auto simp: getPseudoLegalMoves_def Option.bind_eq_Some_conv)
    have pawn: "list_all Q ms" if "k = CHR ''p''" "getPawnPseudoLegalMoves s sq = Some ms"
    proof (rule getPawnPseudoLegalMoves_pushes[where Q = Q, OF that(2)])
      fix piece' d
      assume p: "posAt (position s) (fileFromSquare sq) (rankFromSquare sq) = Some piece'"
      then have kind: "idx1 piece' = Some (CHR ''p'')" using same k that(1) by simp
      show "Q (squareFromFileRank (fileFromSquare sq) (rankFromSquare sq + 2 * d))"
        if "d = 1 \<or> d = - 1" "rankFromSquare sq = (if d = 1 then 1 else 6)"
          "isEmptyAt (position s) (fileFromSquare sq) (rankFromSquare sq + d) = Some True"
          "isEmptyAt (position s) (fileFromSquare sq) (rankFromSquare sq + 2 * d) = Some True"
        by (rule two[OF p kind that])
      show "Q (squareFromFileRank (fileFromSquare sq) (rankFromSquare sq + d))"
        if "d = 1 \<or> d = - 1" "if d = 1 then rankFromSquare sq < 7 else rankFromSquare sq > 0"
          "isEmptyAt (position s) (fileFromSquare sq) (rankFromSquare sq + d) = Some True"
        by (rule one[OF p kind that])
    next
      fix piece' d e
      assume p: "posAt (position s) (fileFromSquare sq) (rankFromSquare sq) = Some piece'"
      then have kind: "idx1 piece' = Some (CHR ''p'')" using same k that(1) by simp
      show "Q (squareFromFileRank (fileFromSquare sq + e) (rankFromSquare sq + d))"
        if "idx0 piece' = Some (CHR ''w'') \<longleftrightarrow> d = 1" "d = 1 \<or> d = - 1" "e = 1 \<or> e = - 1"
          "rankFromSquare sq = (if d = 1 then 4 else 3)"
          "if e = 1 then fileFromSquare sq < 7 else fileFromSquare sq > 0"
          "twoSquarePawnMove s = squareFromFileRank (fileFromSquare sq + e) (rankFromSquare sq)"
        by (rule ep[OF p kind that])
      show "Q (squareFromFileRank (fileFromSquare sq + e) (rankFromSquare sq + d))"
        if "d = 1 \<or> d = - 1" "e = 1 \<or> e = - 1"
          "enemyAt (position s) (fileFromSquare sq + e) (rankFromSquare sq + d) piece' = Some True"
        by (rule att[OF p kind that])
    qed
    have rays: "Q (squareFromFileRank f r)"
      if "k = CHR ''r'' \<or> k = CHR ''b'' \<or> k = CHR ''q''"
        "posAt (position s) (fileFromSquare sq) (rankFromSquare sq) = Some piece'"
        "sameColorAt (position s) f r piece' = Some False" for piece' f r
      using ray[OF that(2) _ that(3)] same[OF that(2)] k that(1) by auto
    have hops: "Q (squareFromFileRank f r)"
      if "k = CHR ''n'' \<or> k = CHR ''k''"
        "posAt (position s) (fileFromSquare sq) (rankFromSquare sq) = Some piece'"
        "diffColorAt (position s) f r piece' = Some True" for piece' f r
      using hop[OF that(2) _ that(3)] same[OF that(2)] k that(1) by auto
    have rook: "list_all Q ms" if "k = CHR ''r''" "getRookPseudoLegalMoves s sq = Some ms"
      by (rule getRookPseudoLegalMoves_pushes[where Q = Q, OF that(2)]) (rule rays, simp add: that(1))
    have knight: "list_all Q ms" if "k = CHR ''n''" "getKnightPseudoLegalMoves s sq = Some ms"
      by (rule getKnightPseudoLegalMoves_pushes[where Q = Q, OF that(2)]) (rule hops, simp add: that(1))
    have bishop: "list_all Q ms" if "k = CHR ''b''" "getBishopPseudoLegalMoves s sq = Some ms"
      by (rule getBishopPseudoLegalMoves_pushes[where Q = Q, OF that(2)]) (rule rays, simp add: that(1))
    have queen: "list_all Q ms" if "k = CHR ''q''" "getQueenPseudoLegalMoves s sq = Some ms"
      by (rule getQueenPseudoLegalMoves_pushes[where Q = Q, OF that(2)]) (rule rays, simp add: that(1))
    have king: "list_all Q ms" if "k = CHR ''k''" "getKingPseudoLegalMoves s sq = Some ms"
    proof (rule getKingPseudoLegalMoves_pushes[where Q = Q, OF that(2)])
      fix piece' f r
      assume "posAt (position s) (fileFromSquare sq) (rankFromSquare sq) = Some piece'"
        "diffColorAt (position s) f r piece' = Some True"
      then show "Q (squareFromFileRank f r)" using hops that(1) by blast
    next
      fix piece'
      assume p: "posAt (position s) (fileFromSquare sq) (rankFromSquare sq) = Some piece'"
        and "idx0 piece' = Some (CHR ''w'')" "whiteCastleQueensideAvailable s"
        "allEmpty (position s) [(1, 0), (2, 0), (3, 0)] = Some True"
      moreover have "idx1 piece' = Some (CHR ''k'')" using same[OF p] k that(1) by simp
      ultimately show "Q (squareFromFileRank 2 0)"
        using castles[OF p, of "CHR ''w''" "whiteCastleQueensideAvailable s" "[(1, 0), (2, 0), (3, 0)]" "squareFromFileRank 2 0"]
        by simp
    next
      fix piece'
      assume p: "posAt (position s) (fileFromSquare sq) (rankFromSquare sq) = Some piece'"
        and "idx0 piece' = Some (CHR ''w'')" "whiteCastleKingsideAvailable s"
        "allEmpty (position s) [(5, 0), (6, 0)] = Some True"
      moreover have "idx1 piece' = Some (CHR ''k'')" using same[OF p] k that(1) by simp
      ultimately show "Q (squareFromFileRank 6 0)"
        using castles[OF p, of "CHR ''w''" "whiteCastleKingsideAvailable s" "[(5, 0), (6, 0)]" "squareFromFileRank 6 0"]
        by simp
    next
      fix piece'
      assume p: "posAt (position s) (fileFromSquare sq) (rankFromSquare sq) = Some piece'"
        and "idx0 piece' = Some (CHR ''b'')" "blackCastleQueensideAvailable s"
        "allEmpty (position s) [(1, 7), (2, 7), (3, 7)] = Some True"
      moreover have "idx1 piece' = Some (CHR ''k'')" using same[OF p] k that(1) by simp
      ultimately show "Q (squareFromFileRank 2 7)"
        using castles[OF p, of "CHR ''b''" "blackCastleQueensideAvailable s" "[(1, 7), (2, 7), (3, 7)]" "squareFromFileRank 2 7"]
        by simp
    next
      fix piece'
      assume p: "posAt (position s) (fileFromSquare sq) (rankFromSquare sq) = Some piece'"
        and "idx0 piece' = Some (CHR ''b'')" "blackCastleKingsideAvailable s"
        "allEmpty (position s) [(5, 7), (6, 7)] = Some True"
      moreover have "idx1 piece' = Some (CHR ''k'')" using same[OF p] k that(1) by simp
      ultimately show "Q (squareFromFileRank 6 7)"
        using castles[OF p, of "CHR ''b''" "blackCastleKingsideAvailable s" "[(5, 7), (6, 7)]" "squareFromFileRank 6 7"]
        by simp
    qed
    show ?thesis
      using run piece False k pawn rook knight bishop queen king
      by (auto simp: getPseudoLegalMoves_def split: if_splits)
  qed
qed

section \<open>Generated moves lie on the board\<close>

lemma in_range_cases:
  "0 \<le> f \<Longrightarrow> f < 8 \<Longrightarrow> f = 0 \<or> f = 1 \<or> f = 2 \<or> f = 3 \<or> f = 4 \<or> f = 5 \<or> f = 6 \<or> f = (7::int)"
  by arith

lemma validSquare_squareFromFileRank:
  assumes "0 \<le> f" "f < 8" "0 \<le> r" "r < 8"
  shows "validSquare (squareFromFileRank f r)"
  using in_range_cases[OF assms(1,2)] in_range_cases[OF assms(3,4)]
  by (elim disjE) (simp_all add: sq_table validSquare_def)

lemma coords_squareFromFileRank:
  assumes "0 \<le> f" "f < 8" "0 \<le> r" "r < 8"
  shows "fileFromSquare (squareFromFileRank f r) = f"
    and "rankFromSquare (squareFromFileRank f r) = r"
  using in_range_cases[OF assms(1,2)] in_range_cases[OF assms(3,4)]
  by (elim disjE; simp add: sq_table file_table rank_table)+

lemma validSquare_coords:
  assumes "validSquare t"
  shows "0 \<le> fileFromSquare t \<and> fileFromSquare t < 8
         \<and> 0 \<le> rankFromSquare t \<and> rankFromSquare t < 8"
proof -
  obtain c d where t: "t = [c, d]"
    using assms by (cases t; cases "tl t") (auto simp: validSquare_def)
  have c: "c \<in> set ''abcdefgh''" and d: "d \<in> set ''12345678''"
    using assms t by (simp_all add: validSquare_def)
  from c have "0 \<le> fileFromSquare t \<and> fileFromSquare t < 8"
    unfolding t by (auto simp: file_table)
  moreover from d have "0 \<le> rankFromSquare t \<and> rankFromSquare t < 8"
    unfolding t by (auto simp: rank_table)
  ultimately show ?thesis by simp
qed

lemma posAt_Some_range:
  assumes "boardShape p" "posAt p f r = Some v"
  shows "0 \<le> f \<and> f < 8"
  using assms(2) unfolding posAt_boardShape[OF assms(1)] by (auto split: if_splits)

lemma posAt_Def_range:
  assumes "boardShape p" "posAt p f r = Some (Def q)"
  shows "0 \<le> f \<and> f < 8 \<and> 0 \<le> r \<and> r < 8"
  using assms(2) unfolding posAt_boardShape[OF assms(1)] by (auto split: if_splits)

lemma idx0_Some: "idx0 v = Some c \<Longrightarrow> \<exists>q. v = Def q \<and> c = pieceStr q ! 0"
  by (cases v) (simp_all add: idx0_def)

lemma idx1_Some: "idx1 v = Some c \<Longrightarrow> \<exists>q. v = Def q \<and> c = pieceStr q ! 1"
  by (cases v) (simp_all add: idx1_def)

lemma isEmptyAt_Def:
  assumes "isEmptyAt p f r = Some True"
  shows "posAt p f r = Some (Def EE)"
  using assms by (auto simp: isEmptyAt_def Option.bind_eq_Some_conv)

lemma enemyAt_Def:
  assumes "enemyAt p f r (Def q) = Some True"
  shows "\<exists>q'. posAt p f r = Some (Def q') \<and> pieceStr q' ! 0 \<noteq> pieceStr q ! 0"
proof -
  from assms obtain v a where v: "posAt p f r = Some v" "idx0 v = Some a" "a \<noteq> pieceStr q ! 0"
    by (auto simp: enemyAt_def idx0_def Option.bind_eq_Some_conv split: if_splits)
  then show ?thesis by (cases v) (simp_all add: idx0_def)
qed

lemma sameColorAt_Def:
  assumes "sameColorAt p f r (Def q) = Some False"
  shows "\<exists>q'. posAt p f r = Some (Def q') \<and> pieceStr q' ! 0 \<noteq> pieceStr q ! 0"
proof -
  from assms obtain v a where v: "posAt p f r = Some v" "idx0 v = Some a" "a \<noteq> pieceStr q ! 0"
    by (auto simp: sameColorAt_def idx0_def Option.bind_eq_Some_conv )
  then show ?thesis by (cases v) (simp_all add: idx0_def)
qed

lemma diffColorAt_Def:
  assumes "diffColorAt p f r (Def q) = Some True"
  shows "\<exists>q'. posAt p f r = Some (Def q') \<and> pieceStr q' ! 0 \<noteq> pieceStr q ! 0"
proof -
  from assms obtain v a where v: "posAt p f r = Some v" "idx0 v = Some a" "a \<noteq> pieceStr q ! 0"
    by (auto simp: diffColorAt_def idx0_def Option.bind_eq_Some_conv )
  then show ?thesis by (cases v) (simp_all add: idx0_def)
qed

lemma list_all_nil: "list_all Q []"
  by simp

text \<open>
  On a board of eight files of eight squares every destination that the generators produce
  names a square of the board.
\<close>

lemma getPseudoLegalMoves_valid:
  assumes shape: "boardShape (position s)" and run: "getPseudoLegalMoves s sq = Some ms"
  shows "list_all validSquare ms"
proof (rule getPseudoLegalMoves_pushes[where Q = validSquare, OF run])
  fix piece f r
  assume k: "idx1 piece \<in> {Some (CHR ''r''), Some (CHR ''b''), Some (CHR ''q'')}"
    and "sameColorAt (position s) f r piece = Some False"
  moreover from k obtain q where "piece = Def q" by (auto dest: idx1_Some)
  ultimately show "validSquare (squareFromFileRank f r)"
    using sameColorAt_Def posAt_Def_range[OF shape] validSquare_squareFromFileRank by blast
next
  fix piece f r
  assume k: "idx1 piece \<in> {Some (CHR ''n''), Some (CHR ''k'')}"
    and "diffColorAt (position s) f r piece = Some True"
  moreover from k obtain q where "piece = Def q" by (auto dest: idx1_Some)
  ultimately show "validSquare (squareFromFileRank f r)"
    using diffColorAt_Def posAt_Def_range[OF shape] validSquare_squareFromFileRank by blast
next
  fix piece :: "piece js" and color :: char and available :: bool
    and between :: "(int \<times> int) list" and target :: string
  assume "(color, available, between, target) \<in>
              {(CHR ''w'', whiteCastleQueensideAvailable s, [(1, 0), (2, 0), (3, 0)],
                  squareFromFileRank 2 0),
               (CHR ''w'', whiteCastleKingsideAvailable s, [(5, 0), (6, 0)],
                  squareFromFileRank 6 0),
               (CHR ''b'', blackCastleQueensideAvailable s, [(1, 7), (2, 7), (3, 7)],
                  squareFromFileRank 2 7),
               (CHR ''b'', blackCastleKingsideAvailable s, [(5, 7), (6, 7)],
                  squareFromFileRank 6 7)}"
  then show "validSquare target"
    by (auto simp: validSquare_squareFromFileRank)
next
  fix piece d
  assume "isEmptyAt (position s) (fileFromSquare sq) (rankFromSquare sq + 2 * d) = Some True"
  then show "validSquare (squareFromFileRank (fileFromSquare sq) (rankFromSquare sq + 2 * d))"
    using isEmptyAt_Def posAt_Def_range[OF shape] validSquare_squareFromFileRank by blast
next
  fix piece d
  assume "isEmptyAt (position s) (fileFromSquare sq) (rankFromSquare sq + d) = Some True"
  then show "validSquare (squareFromFileRank (fileFromSquare sq) (rankFromSquare sq + d))"
    using isEmptyAt_Def posAt_Def_range[OF shape] validSquare_squareFromFileRank by blast
next
  fix piece and d e :: int
  assume p: "posAt (position s) (fileFromSquare sq) (rankFromSquare sq) = Some piece"
    and "d = 1 \<or> d = - 1" "e = 1 \<or> e = - 1"
    "rankFromSquare sq = (if d = 1 then 4 else 3)"
    "if e = 1 then fileFromSquare sq < 7 else fileFromSquare sq > 0"
  then have "0 \<le> fileFromSquare sq + e \<and> fileFromSquare sq + e < 8
      \<and> 0 \<le> rankFromSquare sq + d \<and> rankFromSquare sq + d < 8"
    using posAt_Some_range[OF shape p] by (auto split: if_splits)
  then show "validSquare (squareFromFileRank (fileFromSquare sq + e) (rankFromSquare sq + d))"
    by (simp add: validSquare_squareFromFileRank)
next
  fix piece d e
  assume k: "idx1 piece = Some (CHR ''p'')"
    and "enemyAt (position s) (fileFromSquare sq + e) (rankFromSquare sq + d) piece = Some True"
  moreover from k obtain q where "piece = Def q" by (auto dest: idx1_Some)
  ultimately show "validSquare (squareFromFileRank (fileFromSquare sq + e) (rankFromSquare sq + d))"
    using enemyAt_Def posAt_Def_range[OF shape] validSquare_squareFromFileRank by blast
qed

text \<open>
  A rook, knight, bishop, queen or king is only ever sent to a square whose content has not
  the colour of the piece itself: an empty square or an enemy piece.
\<close>

lemma allEmpty_Def:
  assumes "allEmpty p between = Some True" "(f, r) \<in> set between"
  shows "posAt p f r = Some (Def EE)"
  using assms
  by (induction between) (auto simp: isEmptyAt_Def split: option.splits if_splits)

lemma pieceStr_color: "q \<noteq> EE \<Longrightarrow> pieceStr q ! 0 \<noteq> CHR ''e''"
  by (cases q) simp_all

lemma getPseudoLegalMoves_dest:
  assumes shape: "boardShape (position s)" and run: "getPseudoLegalMoves s sq = Some ms"
    and src: "getPieceOnSquare' s sq = Some (Def q)"
    and kind: "pieceStr q ! 1 \<noteq> CHR ''p''"
  shows "list_all (\<lambda>t. \<exists>q'. getPieceOnSquare' s t = Some (Def q')
                          \<and> pieceStr q' ! 0 \<noteq> pieceStr q ! 0) ms"
proof -
  let ?Q = "\<lambda>t. \<exists>q'. getPieceOnSquare' s t = Some (Def q') \<and> pieceStr q' ! 0 \<noteq> pieceStr q ! 0"
  have pos: "posAt (position s) (fileFromSquare sq) (rankFromSquare sq) = Some (Def q)"
    using src by (simp add: getPieceOnSquare'_def Let_def)
  have at: "?Q (squareFromFileRank f r)"
    if "posAt (position s) f r = Some (Def q')" "pieceStr q' ! 0 \<noteq> pieceStr q ! 0" for f r q'
    using that posAt_Def_range[OF shape that(1)]
    by (simp add: getPieceOnSquare'_def Let_def coords_squareFromFileRank)
  have noPawn: "idx1 piece \<noteq> Some (CHR ''p'')"
    if "posAt (position s) (fileFromSquare sq) (rankFromSquare sq) = Some piece" for piece
    using that pos kind by (auto simp: idx1_def)
  show ?thesis
  proof (cases "q = EE")
    case True
    then show ?thesis using run src by (simp add: getPseudoLegalMoves_def)
  next
    case notEE: False
    show ?thesis
  proof (rule getPseudoLegalMoves_pushes[where Q = ?Q, OF run])
    fix piece f r
    assume "posAt (position s) (fileFromSquare sq) (rankFromSquare sq) = Some piece"
      and "sameColorAt (position s) f r piece = Some False"
    then have "sameColorAt (position s) f r (Def q) = Some False" using pos by simp
    from sameColorAt_Def[OF this] show "?Q (squareFromFileRank f r)" using at by blast
  next
    fix piece f r
    assume "posAt (position s) (fileFromSquare sq) (rankFromSquare sq) = Some piece"
      and "diffColorAt (position s) f r piece = Some True"
    then have "diffColorAt (position s) f r (Def q) = Some True" using pos by simp
    from diffColorAt_Def[OF this] show "?Q (squareFromFileRank f r)" using at by blast
  next
    fix piece :: "piece js" and color :: char and available :: bool
      and between :: "(int \<times> int) list" and target :: string
    assume mem: "(color, available, between, target) \<in>
              {(CHR ''w'', whiteCastleQueensideAvailable s, [(1, 0), (2, 0), (3, 0)],
                  squareFromFileRank 2 0),
               (CHR ''w'', whiteCastleKingsideAvailable s, [(5, 0), (6, 0)],
                  squareFromFileRank 6 0),
               (CHR ''b'', blackCastleQueensideAvailable s, [(1, 7), (2, 7), (3, 7)],
                  squareFromFileRank 2 7),
               (CHR ''b'', blackCastleKingsideAvailable s, [(5, 7), (6, 7)],
                  squareFromFileRank 6 7)}"
      and empty: "allEmpty (position s) between = Some True"
    have e: "pieceStr EE ! 0 \<noteq> pieceStr q ! 0" using pieceStr_color[OF notEE] by simp
    from mem consider
        "(2, 0) \<in> set between" "target = squareFromFileRank 2 0"
      | "(6, 0) \<in> set between" "target = squareFromFileRank 6 0"
      | "(2, 7) \<in> set between" "target = squareFromFileRank 2 7"
      | "(6, 7) \<in> set between" "target = squareFromFileRank 6 7"
      by auto
    then show "?Q target"
    proof cases
      case 1 then show ?thesis using at[OF allEmpty_Def[OF empty 1(1)] e] by simp
    next
      case 2 then show ?thesis using at[OF allEmpty_Def[OF empty 2(1)] e] by simp
    next
      case 3 then show ?thesis using at[OF allEmpty_Def[OF empty 3(1)] e] by simp
    next
      case 4 then show ?thesis using at[OF allEmpty_Def[OF empty 4(1)] e] by simp
    qed
  qed (use noPawn in blast)+
  qed
qed

section \<open>What an executed move does\<close>

lemma fileFromSquare_pair: "fileFromSquare [c, d] = fileFromSquare (c # cs)"
  by (simp add: fileFromSquare_def)

lemma rankFromSquare_pair: "rankFromSquare [c, t ! 1] = rankFromSquare t"
  by (simp add: rankFromSquare_def)

lemma boardShape_relocate: "boardShape (relocate fp f t p) = boardShape p"
  by (simp add: relocate_def Let_def boardShape_setPiece)

lemma posAt_in_range:
  assumes "boardShape p" "0 \<le> f" "f < 8" "0 \<le> r" "r < 8"
  shows "posAt p f r = Some (Def (p ! nat f ! nat r))"
  using assms(2-) by (simp add: posAt_boardShape[OF assms(1)])

lemma moveRook_Some:
  assumes shape: "boardShape p" and t: "validSquare t"
    and letter: "rookFile \<in> set ''abcdefgh''"
  shows "\<exists>p'. moveRook fp t kingFile rookFile newFile p = Some p' \<and> boardShape p'"
proof -
  have r: "0 \<le> rankFromSquare t \<and> rankFromSquare t < 8"
    using validSquare_coords[OF t] by simp
  have f: "0 \<le> fileFromSquare [rookFile, t ! 1] \<and> fileFromSquare [rookFile, t ! 1] < 8"
    using letter by (auto simp: file_table)
  have rk: "rankFromSquare [rookFile, t ! 1] = rankFromSquare t"
    by (rule rankFromSquare_pair)
  have "posAt p (fileFromSquare [rookFile, t ! 1]) (rankFromSquare [rookFile, t ! 1])
          = Some (Def (p ! nat (fileFromSquare [rookFile, t ! 1]) ! nat (rankFromSquare t)))"
    unfolding rk using posAt_in_range[OF shape, of "fileFromSquare [rookFile, t ! 1]" "rankFromSquare t"] f r
    by blast
  then show ?thesis
    using shape unfolding moveRook_def by (simp add: boardShape_setPiece del: One_nat_def)
qed

lemma pseudo_from_piece:
  assumes "getPseudoLegalMoves s f = Some ms" "t \<in> set ms"
  shows "\<exists>q. getPieceOnSquare' s f = Some (Def q) \<and> q \<noteq> EE"
proof -
  from assms(1) obtain piece where piece: "getPieceOnSquare' s f = Some piece"
    by (auto simp: getPseudoLegalMoves_def Option.bind_eq_Some_conv)
  have ne: "piece \<noteq> Def EE"
    using assms piece by (auto simp: getPseudoLegalMoves_def)
  then obtain k where "idx1 piece = Some k"
    using assms(1) piece by (auto simp: getPseudoLegalMoves_def Option.bind_eq_Some_conv)
  then obtain q where "piece = Def q" by (cases piece) (simp_all add: idx1_def)
  then show ?thesis using piece ne by auto
qed

text \<open>What each bookkeeping step leaves alone, and what it sets.\<close>

lemma swapColor_frame:
  "position (swapColor s) = position s"
  "blackCastleKingsideAvailable (swapColor s) = blackCastleKingsideAvailable s"
  "blackCastleQueensideAvailable (swapColor s) = blackCastleQueensideAvailable s"
  "whiteCastleKingsideAvailable (swapColor s) = whiteCastleKingsideAvailable s"
  "whiteCastleQueensideAvailable (swapColor s) = whiteCastleQueensideAvailable s"
  "twoSquarePawnMove (swapColor s) = twoSquarePawnMove s"
  "numberOfHalfMoves (swapColor s) = numberOfHalfMoves s"
  "numberOfFullMoves (swapColor s) = numberOfFullMoves s"
  "blackKingSquare (swapColor s) = blackKingSquare s"
  "whiteKingSquare (swapColor s) = whiteKingSquare s"
  by (simp_all add: swapColor_def Let_def)

lemma updateCastling_frame:
  "position (updateCastling f t s) = position s"
  "activeColor (updateCastling f t s) = activeColor s"
  "twoSquarePawnMove (updateCastling f t s) = twoSquarePawnMove s"
  "numberOfHalfMoves (updateCastling f t s) = numberOfHalfMoves s"
  "numberOfFullMoves (updateCastling f t s) = numberOfFullMoves s"
  "blackKingSquare (updateCastling f t s) = blackKingSquare s"
  "whiteKingSquare (updateCastling f t s) = whiteKingSquare s"
  by (simp_all add: updateCastling_def Let_def)

lemma saveTwoSquarePawnMove_frame:
  "position (saveTwoSquarePawnMove k f t s) = position s"
  "activeColor (saveTwoSquarePawnMove k f t s) = activeColor s"
  "blackCastleKingsideAvailable (saveTwoSquarePawnMove k f t s) = blackCastleKingsideAvailable s"
  "blackCastleQueensideAvailable (saveTwoSquarePawnMove k f t s) = blackCastleQueensideAvailable s"
  "whiteCastleKingsideAvailable (saveTwoSquarePawnMove k f t s) = whiteCastleKingsideAvailable s"
  "whiteCastleQueensideAvailable (saveTwoSquarePawnMove k f t s) = whiteCastleQueensideAvailable s"
  "numberOfHalfMoves (saveTwoSquarePawnMove k f t s) = numberOfHalfMoves s"
  "numberOfFullMoves (saveTwoSquarePawnMove k f t s) = numberOfFullMoves s"
  "blackKingSquare (saveTwoSquarePawnMove k f t s) = blackKingSquare s"
  "whiteKingSquare (saveTwoSquarePawnMove k f t s) = whiteKingSquare s"
  by (simp_all add: saveTwoSquarePawnMove_def Let_def)

lemma updateHalfMoves_frame:
  "position (updateHalfMoves a b s) = position s"
  "activeColor (updateHalfMoves a b s) = activeColor s"
  "blackCastleKingsideAvailable (updateHalfMoves a b s) = blackCastleKingsideAvailable s"
  "blackCastleQueensideAvailable (updateHalfMoves a b s) = blackCastleQueensideAvailable s"
  "whiteCastleKingsideAvailable (updateHalfMoves a b s) = whiteCastleKingsideAvailable s"
  "whiteCastleQueensideAvailable (updateHalfMoves a b s) = whiteCastleQueensideAvailable s"
  "twoSquarePawnMove (updateHalfMoves a b s) = twoSquarePawnMove s"
  "numberOfFullMoves (updateHalfMoves a b s) = numberOfFullMoves s"
  "blackKingSquare (updateHalfMoves a b s) = blackKingSquare s"
  "whiteKingSquare (updateHalfMoves a b s) = whiteKingSquare s"
  by (simp_all add: updateHalfMoves_def Let_def)

lemma updateKingSquare_frame:
  "position (updateKingSquare a t s) = position s"
  "activeColor (updateKingSquare a t s) = activeColor s"
  "blackCastleKingsideAvailable (updateKingSquare a t s) = blackCastleKingsideAvailable s"
  "blackCastleQueensideAvailable (updateKingSquare a t s) = blackCastleQueensideAvailable s"
  "whiteCastleKingsideAvailable (updateKingSquare a t s) = whiteCastleKingsideAvailable s"
  "whiteCastleQueensideAvailable (updateKingSquare a t s) = whiteCastleQueensideAvailable s"
  "twoSquarePawnMove (updateKingSquare a t s) = twoSquarePawnMove s"
  "numberOfHalfMoves (updateKingSquare a t s) = numberOfHalfMoves s"
  "numberOfFullMoves (updateKingSquare a t s) = numberOfFullMoves s"
  by (simp_all add: updateKingSquare_def Let_def)


lemma swapColor_sets:
  "activeColor (swapColor s) = (if activeColor s = CHR ''w'' then CHR ''b'' else CHR ''w'')"
  by (simp add: swapColor_def)


lemma updateKingSquare_sets:
  "whiteKingSquare (updateKingSquare a t s) = (if a = WK then t else whiteKingSquare s)"
  "blackKingSquare (updateKingSquare a t s) = (if a = BK then t else blackKingSquare s)"
  by (simp_all add: updateKingSquare_def Let_def)

lemma updateHalfMoves_sets:
  "numberOfHalfMoves (updateHalfMoves a b s) =
     (if (b \<noteq> EE \<and> pieceStr a ! 0 \<noteq> pieceStr b ! 0) \<or> pieceStr a ! 1 = CHR ''p''
      then 0 else numberOfHalfMoves s + 1)"
  by (simp add: updateHalfMoves_def)

lemmas frame = swapColor_frame updateCastling_frame saveTwoSquarePawnMove_frame
  updateHalfMoves_frame updateKingSquare_frame

text \<open>
  The state an executed move produces, written out: the steps of \<open>playPseudoLegalMove\<close>
  applied in order to the state before the call.
\<close>

lemma play_executed_eq:
  assumes legal: "moveIsPseudoLegal s f t = Some True"
    and fp: "getPieceOnSquare' s f = Some (Def fp)"
    and tp: "getPieceOnSquare' s t = Some (Def tp)"
    and r1: "moveRook fp t (CHR ''c'') (CHR ''a'') (CHR ''d'') (relocate fp f t (position s)) = Some p1"
    and r2: "moveRook fp t (CHR ''g'') (CHR ''h'') (CHR ''f'') p1 = Some p2"
  shows "playPseudoLegalMove s f t =
     (Executed,
      (updateKingSquare fp t
        (updateHalfMoves fp tp
          ((saveTwoSquarePawnMove (pieceStr fp ! 1) f t (updateCastling f t (swapColor s)))
             \<lparr>numberOfFullMoves := numberOfFullMoves s + 1\<rparr>)))
        \<lparr>position := p2\<rparr>)"
  unfolding playPseudoLegalMove_def Let_def legal fp tp
  by (simp add: frame r1 r2 del: One_nat_def)

lemma play_executes:
  assumes shape: "boardShape (position s)"
    and ms: "getPseudoLegalMoves s f = Some ms" and t: "t \<in> set ms"
  shows "\<exists>fp tp p1 p2.
           getPieceOnSquare' s f = Some (Def fp) \<and> getPieceOnSquare' s t = Some (Def tp)
           \<and> moveRook fp t (CHR ''c'') (CHR ''a'') (CHR ''d'') (relocate fp f t (position s)) = Some p1
           \<and> moveRook fp t (CHR ''g'') (CHR ''h'') (CHR ''f'') p1 = Some p2
           \<and> playPseudoLegalMove s f t =
               (Executed,
                (updateKingSquare fp t
                  (updateHalfMoves fp tp
                    ((saveTwoSquarePawnMove (pieceStr fp ! 1) f t
                        (updateCastling f t (swapColor s)))
                       \<lparr>numberOfFullMoves := numberOfFullMoves s + 1\<rparr>)))
                  \<lparr>position := p2\<rparr>)"
proof -
  have legal: "moveIsPseudoLegal s f t = Some True"
    using ms t by (simp add: moveIsPseudoLegal_def)
  obtain fp where fp: "getPieceOnSquare' s f = Some (Def fp)"
    using pseudo_from_piece[OF ms t] by blast
  have vt: "validSquare t"
    using getPseudoLegalMoves_valid[OF shape ms] t by (simp add: list_all_iff)
  have "getPieceOnSquare' s t
          = Some (Def (position s ! nat (fileFromSquare t) ! nat (rankFromSquare t)))"
    using posAt_in_range[OF shape] validSquare_coords[OF vt]
    by (simp add: getPieceOnSquare'_def Let_def)
  then obtain tp where tp: "getPieceOnSquare' s t = Some (Def tp)" by blast
  have s1: "boardShape (relocate fp f t (position s))"
    using shape by (simp add: boardShape_relocate)
  obtain p1 where p1: "moveRook fp t (CHR ''c'') (CHR ''a'') (CHR ''d'')
                         (relocate fp f t (position s)) = Some p1" and s2: "boardShape p1"
    using moveRook_Some[OF s1 vt, where rookFile = "CHR ''a''" and fp = fp
        and kingFile = "CHR ''c''" and newFile = "CHR ''d''"] by auto
  obtain p2 where p2: "moveRook fp t (CHR ''g'') (CHR ''h'') (CHR ''f'') p1 = Some p2"
    using moveRook_Some[OF s2 vt, where rookFile = "CHR ''h''" and fp = fp
        and kingFile = "CHR ''g''" and newFile = "CHR ''f''"] by auto
  show ?thesis
    using play_executed_eq[OF legal fp tp p1 p2] fp tp p1 p2 by blast
qed

lemma executed_fields:
  "activeColor ((updateKingSquare fp t
        (updateHalfMoves fp tp
          ((saveTwoSquarePawnMove k f t (updateCastling f t (swapColor s)))
             \<lparr>numberOfFullMoves := n\<rparr>)))
        \<lparr>position := p2\<rparr>) = (if activeColor s = CHR ''w'' then CHR ''b'' else CHR ''w'')"
  "numberOfFullMoves ((updateKingSquare fp t
        (updateHalfMoves fp tp
          ((saveTwoSquarePawnMove k f t (updateCastling f t (swapColor s)))
             \<lparr>numberOfFullMoves := n\<rparr>)))
        \<lparr>position := p2\<rparr>) = n"
  by (simp_all add: frame swapColor_sets)

text \<open>The legal moves are among the pseudo-legal ones.\<close>

lemma legalLoop_subset:
  "legalLoop s sq ms acc = Some out \<Longrightarrow> set out \<subseteq> set acc \<union> set ms"
proof (induction ms arbitrary: acc)
  case Nil
  then show ?case by simp
next
  case (Cons m ms)
  then obtain inCheck where
    "legalLoop s sq ms (if \<not> inCheck then acc @ [m] else acc) = Some out"
    by (auto split: option.splits)
  from Cons.IH[OF this] show ?case by (auto split: if_splits)
qed

lemma legal_subset_pseudo:
  assumes "getLegalMoves s sq = Some legalMoves"
  shows "\<exists>ms. getPseudoLegalMoves s sq = Some ms \<and> set legalMoves \<subseteq> set ms"
  using assms legalLoop_subset[of s sq _ "[]" legalMoves]
  by (auto simp: getLegalMoves_def Option.bind_eq_Some_conv)

section \<open>Castling rights only shrink\<close>

lemma rightsWithin_refl: "rightsWithin s s"
  by (simp add: rightsWithin_def)

lemma rightsWithin_trans: "rightsWithin s'' s' \<Longrightarrow> rightsWithin s' s \<Longrightarrow> rightsWithin s'' s"
  by (auto simp: rightsWithin_def)

lemma rightsWithin_same:
  assumes "whiteCastleKingsideAvailable s' = whiteCastleKingsideAvailable s"
    "whiteCastleQueensideAvailable s' = whiteCastleQueensideAvailable s"
    "blackCastleKingsideAvailable s' = blackCastleKingsideAvailable s"
    "blackCastleQueensideAvailable s' = blackCastleQueensideAvailable s"
  shows "rightsWithin s' s"
  using assms by (simp add: rightsWithin_def)

lemma rights_swapColor: "rightsWithin (swapColor s) s"
  by (simp add: rightsWithin_def swapColor_def)

lemma rights_updateCastling: "rightsWithin (updateCastling f t s) s"
  by (simp add: rightsWithin_def updateCastling_def Let_def)

lemma rights_saveTwo: "rightsWithin (saveTwoSquarePawnMove k f t s) s"
  by (simp add: rightsWithin_def saveTwoSquarePawnMove_def)

lemma rights_halfMoves: "rightsWithin (updateHalfMoves a b s) s"
  by (simp add: rightsWithin_def updateHalfMoves_def)

lemma rights_kingSquare: "rightsWithin (updateKingSquare a t s) s"
  by (simp add: rightsWithin_def updateKingSquare_def Let_def)

lemma rights_fullMoves: "rightsWithin (s\<lparr>numberOfFullMoves := n\<rparr>) s"
  by (simp add: rightsWithin_def)

lemma rights_position: "rightsWithin (s\<lparr>position := p\<rparr>) s"
  by (simp add: rightsWithin_def)

text \<open>The states \<open>playPseudoLegalMove\<close> passes through, named so that each can be related
  to the one before.\<close>

lemma play_rights: "rightsWithin (snd (playPseudoLegalMove s f t)) s"
proof -
  define s1 where "s1 = updateCastling f t (swapColor s)"
  have r1: "rightsWithin s1 s"
    unfolding s1_def by (rule rightsWithin_trans[OF rights_updateCastling rights_swapColor])
  have step: "rightsWithin (snd (playPseudoLegalMove s f t)) s"
    if "moveIsPseudoLegal s f t = Some True"
      "getPieceOnSquare' s f = Some a" "getPieceOnSquare' s t = Some b" for a b
  proof (cases a)
    case Undefined
    then show ?thesis using that r1
      by (simp add: playPseudoLegalMove_def Let_def s1_def)
  next
    case (Def fromPiece)
    define s2 where "s2 = (saveTwoSquarePawnMove (pieceStr fromPiece ! 1) f t s1)
                            \<lparr>numberOfFullMoves :=
                               numberOfFullMoves (saveTwoSquarePawnMove (pieceStr fromPiece ! 1) f t s1) + 1\<rparr>"
    have r2: "rightsWithin s2 s"
      unfolding s2_def
      by (rule rightsWithin_trans[OF rights_fullMoves rightsWithin_trans[OF rights_saveTwo r1]])
    show ?thesis
    proof (cases b)
      case Undefined
      then show ?thesis using that Def r2
        by (simp add: playPseudoLegalMove_def Let_def s1_def s2_def)
    next
      case (Def toPiece)
      define s3 where "s3 = updateKingSquare fromPiece t (updateHalfMoves fromPiece toPiece s2)"
      have r3: "rightsWithin s3 s"
        unfolding s3_def
        by (rule rightsWithin_trans[OF rights_kingSquare rightsWithin_trans[OF rights_halfMoves r2]])
      have r4: "rightsWithin (s3\<lparr>position := p\<rparr>) s" for p
        by (rule rightsWithin_trans[OF rights_position r3])
      have r5: "rightsWithin (s3\<lparr>position := p, position := q\<rparr>) s" for p q
        by (rule rightsWithin_trans[OF rights_position r4])
      have r6: "rightsWithin (s3\<lparr>position := p, position := q, position := u\<rparr>) s" for p q u
        by (rule rightsWithin_trans[OF rights_position r5])
      show ?thesis using that \<open>a = Def fromPiece\<close> Def r4 r5 r6
        by (simp add: playPseudoLegalMove_def Let_def s1_def s2_def s3_def
                 split: option.splits)
    qed
  qed
  show ?thesis
  proof (cases "moveIsPseudoLegal s f t")
    case None
    then show ?thesis by (simp add: playPseudoLegalMove_def rightsWithin_refl)
  next
    case (Some ok)
    show ?thesis
    proof (cases ok)
      case False
      then show ?thesis using Some by (simp add: playPseudoLegalMove_def rightsWithin_refl)
    next
      case True
      show ?thesis
      proof (cases "getPieceOnSquare' s f")
        case None
        then show ?thesis using Some True by (simp add: playPseudoLegalMove_def rightsWithin_refl)
      next
        case a: (Some a)
        show ?thesis
        proof (cases "getPieceOnSquare' s t")
          case None
          then show ?thesis using Some True a
            by (simp add: playPseudoLegalMove_def rightsWithin_refl)
        next
          case b: (Some b)
          show ?thesis using step[of a b] Some True a b by simp
        qed
      qed
    qed
  qed
qed

lemma playLegal_rights: "rightsWithin (snd (playLegalMove s f t)) s"
  by (simp add: playLegalMove_def play_rights rightsWithin_refl split: option.splits bool.splits)

lemma perform_rights: "rightsWithin (perform s c) s"
  by (cases c) (simp_all add: play_rights playLegal_rights)

lemma run_rights: "rightsWithin (run s calls) s"
  unfolding run_def
proof (induction calls arbitrary: s)
  case Nil
  then show ?case by (simp add: rightsWithin_refl)
next
  case (Cons c calls)
  have "rightsWithin (foldl perform (perform s c) calls) (perform s c)" by (rule Cons.IH)
  then show ?case using perform_rights[of s c] by (simp add: rightsWithin_trans)
qed

lemma run_append: "run s (pre @ post) = run (run s pre) post"
  by (simp add: run_def)

section \<open>King moves to the c-file and the g-file\<close>

lemma posAt_setPiece_shape:
  assumes "boardShape p" "0 \<le> fileFromSquare sq" "0 \<le> rankFromSquare sq"
    "0 \<le> f" "f < 8" "0 \<le> r" "r < 8"
  shows "posAt (setPieceOnSquare p sq x) f r =
     (if f = fileFromSquare sq \<and> r = rankFromSquare sq then Some (Def x) else posAt p f r)"
  using posAt_in_range[OF assms(1,4-7)] by (auto simp: posAt_setPiece[OF assms(2,3)])

lemma executed_pseudoLegal:
  assumes "playPseudoLegalMove s f t = (Executed, s')"
  shows "\<exists>ms. getPseudoLegalMoves s f = Some ms \<and> t \<in> set ms"
proof -
  have "moveIsPseudoLegal s f t = Some True"
    using assms by (auto simp: playPseudoLegalMove_def split: option.splits bool.splits)
  then show ?thesis by (auto simp: moveIsPseudoLegal_def Option.bind_eq_Some_conv)
qed

lemma executed_legal:
  assumes "playLegalMove s f t = (Executed, s')"
  shows "playPseudoLegalMove s f t = (Executed, s')"
  using assms by (auto simp: playLegalMove_def split: option.splits bool.splits)

lemma pseudo_from_range:
  assumes "boardShape (position s)" "getPieceOnSquare' s f = Some (Def q)"
  shows "0 \<le> fileFromSquare f \<and> fileFromSquare f < 8
         \<and> 0 \<le> rankFromSquare f \<and> rankFromSquare f < 8"
  using posAt_Def_range[OF assms(1)] assms(2) by (simp add: getPieceOnSquare'_def Let_def)

lemma fileFromSquare_letter:
  "fileFromSquare (CHR ''a'' # cs) = 0" "fileFromSquare (CHR ''c'' # cs) = 2"
  "fileFromSquare (CHR ''d'' # cs) = 3" "fileFromSquare (CHR ''f'' # cs) = 5"
  "fileFromSquare (CHR ''g'' # cs) = 6" "fileFromSquare (CHR ''h'' # cs) = 7"
  by (simp_all add: file_table)

lemma fileFromSquare_nth0: "fileFromSquare t = int (of_char (t ! 0)) - 97"
  by (simp add: fileFromSquare_def)

text \<open>
  The position after a king has been moved to file \<open>kingFile\<close> (\<open>c\<close> or \<open>g\<close>), read at
  the three squares of the destination's rank that the move execution writes.
\<close>

lemma king_move_rook_squares:
  assumes shape: "boardShape (position s)"
    and exec: "playPseudoLegalMove s f t = (Executed, s')"
    and king: "getPieceOnSquare' s f = Some (Def k)" "pieceStr k ! 1 = CHR ''k''"
    and files: "(kingFile, rookFile, newFile) = (CHR ''c'', CHR ''a'', CHR ''d'')
                \<or> (kingFile, rookFile, newFile) = (CHR ''g'', CHR ''h'', CHR ''f'')"
    and dest: "t ! 0 = kingFile"
  shows "posAt (position s') (fileFromSquare [newFile]) (rankFromSquare t) =
           (if fileFromSquare f = fileFromSquare [rookFile] \<and> rankFromSquare f = rankFromSquare t
            then Some (Def EE)
            else posAt (position s) (fileFromSquare [rookFile]) (rankFromSquare t))
         \<and> posAt (position s') (fileFromSquare [rookFile]) (rankFromSquare t) = Some (Def EE)
         \<and> posAt (position s') (fileFromSquare [kingFile]) (rankFromSquare t) = Some (Def k)"
proof -
  let ?p = "position s" and ?r = "rankFromSquare t"
  from executed_pseudoLegal[OF exec] obtain ms where
    ms: "getPseudoLegalMoves s f = Some ms" and t: "t \<in> set ms" by blast
  have vt: "validSquare t"
    using getPseudoLegalMoves_valid[OF shape ms] t by (simp add: list_all_iff)
  have rt: "0 \<le> ?r" "?r < 8" and ft: "0 \<le> fileFromSquare t" "fileFromSquare t < 8"
    using validSquare_coords[OF vt] by simp_all
  have rf: "0 \<le> fileFromSquare f" "fileFromSquare f < 8" "0 \<le> rankFromSquare f"
    "rankFromSquare f < 8"
    using pseudo_from_range[OF shape king(1)] by simp_all
  have tfile: "fileFromSquare t = fileFromSquare [kingFile]"
    using dest by (simp add: fileFromSquare_def)
  have notPawn: "pieceStr k ! 1 \<noteq> CHR ''p''" using king(2) by simp
  have ne: "\<not> (fileFromSquare f = fileFromSquare t \<and> rankFromSquare f = ?r)"
  proof
    assume same: "fileFromSquare f = fileFromSquare t \<and> rankFromSquare f = ?r"
    from getPseudoLegalMoves_dest[OF shape ms king(1) notPawn] t obtain q' where
      "getPieceOnSquare' s t = Some (Def q')" "pieceStr q' ! 0 \<noteq> pieceStr k ! 0"
      by (auto simp: list_all_iff)
    then show False using king(1) same by (simp add: getPieceOnSquare'_def Let_def)
  qed
  define P where "P = setPieceOnSquare (setPieceOnSquare ?p t k) f EE"
  have reloc: "relocate k f t ?p = P"
    using notPawn by (simp add: relocate_def Let_def P_def del: One_nat_def)
  have shapeP: "boardShape P" using shape by (simp add: P_def boardShape_setPiece)
  from play_executes[OF shape ms t] king(1) exec obtain p1 p2 where
    p1: "moveRook k t (CHR ''c'') (CHR ''a'') (CHR ''d'') P = Some p1"
    and p2: "moveRook k t (CHR ''g'') (CHR ''h'') (CHR ''f'') p1 = Some p2"
    and s': "position s' = p2"
    by (auto simp: reloc)
  text \<open>Coordinates of the squares written by the rook step.\<close>
  have rk: "rankFromSquare [c, t ! 1] = ?r" for c by (rule rankFromSquare_pair)
  have readP: "posAt P x y =
        (if x = fileFromSquare f \<and> y = rankFromSquare f then Some (Def EE)
         else if x = fileFromSquare t \<and> y = ?r then Some (Def k)
         else posAt ?p x y)"
    if "0 \<le> x" "x < 8" "0 \<le> y" "y < 8" for x y
    using that shape rf rt ft
    by (simp add: P_def posAt_setPiece_shape boardShape_setPiece)
  show ?thesis
    using files
  proof
    assume c: "(kingFile, rookFile, newFile) = (CHR ''c'', CHR ''a'', CHR ''d'')"
    then have kf: "kingFile = CHR ''c''" "rookFile = CHR ''a''" "newFile = CHR ''d''" by simp_all
    have t0: "t ! 0 = CHR ''c''" using dest kf by simp
    obtain rook where rook: "posAt P 0 ?r = Some (Def rook)"
      using posAt_in_range[OF shapeP, of 0 ?r] rt by auto
    have p1_eq: "p1 = setPieceOnSquare (setPieceOnSquare P [CHR ''d'', t ! 1] rook)
                        [CHR ''a'', t ! 1] EE"
      using p1 king(2) t0 rook
      unfolding moveRook_def by (simp add: fileFromSquare_letter rk del: One_nat_def)
    have p2_eq: "p2 = p1"
      using p2 t0 unfolding moveRook_def by (simp del: One_nat_def)
    have read: "posAt p2 x ?r =
        (if x = 0 then Some (Def EE) else if x = 3 then Some (Def rook) else posAt P x ?r)"
      if "0 \<le> x" "x < 8" for x
      using that rt shapeP
      unfolding p2_eq p1_eq
      by (simp add: posAt_setPiece_shape boardShape_setPiece fileFromSquare_letter rk
            del: One_nat_def)
    have "posAt P 0 ?r =
            (if fileFromSquare f = 0 \<and> rankFromSquare f = ?r then Some (Def EE)
             else posAt ?p 0 ?r)"
      using readP[of 0 ?r] rt tfile kf by (auto simp: fileFromSquare_letter)
    moreover have "posAt P 2 ?r = Some (Def k)"
      using readP[of 2 ?r] rt tfile kf rf ne
      by (auto simp: fileFromSquare_letter)
    ultimately show ?thesis
      using read[of 0] read[of 3] read[of 2] rook
      unfolding s' kf by (simp add: fileFromSquare_letter)
  next
    assume g: "(kingFile, rookFile, newFile) = (CHR ''g'', CHR ''h'', CHR ''f'')"
    then have kf: "kingFile = CHR ''g''" "rookFile = CHR ''h''" "newFile = CHR ''f''" by simp_all
    have t0: "t ! 0 = CHR ''g''" using dest kf by simp
    have p1_eq: "p1 = P"
      using p1 t0 unfolding moveRook_def by (simp del: One_nat_def)
    obtain rook where rook: "posAt P 7 ?r = Some (Def rook)"
      using posAt_in_range[OF shapeP, of 7 ?r] rt by auto
    have p2_eq: "p2 = setPieceOnSquare (setPieceOnSquare P [CHR ''f'', t ! 1] rook)
                        [CHR ''h'', t ! 1] EE"
      using p2 king(2) t0 rook
      unfolding moveRook_def p1_eq by (simp add: fileFromSquare_letter rk del: One_nat_def)
    have read: "posAt p2 x ?r =
        (if x = 7 then Some (Def EE) else if x = 5 then Some (Def rook) else posAt P x ?r)"
      if "0 \<le> x" "x < 8" for x
      using that rt shapeP
      unfolding p2_eq
      by (simp add: posAt_setPiece_shape boardShape_setPiece fileFromSquare_letter rk
            del: One_nat_def)
    have "posAt P 7 ?r =
            (if fileFromSquare f = 7 \<and> rankFromSquare f = ?r then Some (Def EE)
             else posAt ?p 7 ?r)"
      using readP[of 7 ?r] rt tfile kf by (auto simp: fileFromSquare_letter)
    moreover have "posAt P 6 ?r = Some (Def k)"
      using readP[of 6 ?r] rt tfile kf rf ne
      by (auto simp: fileFromSquare_letter)
    ultimately show ?thesis
      using read[of 7] read[of 5] read[of 6] rook
      unfolding s' kf by (simp add: fileFromSquare_letter)
  qed
qed

section \<open>Scenario: initial position serialization\<close>

text \<open>
  Claim C10. A fresh \<open>BoardState\<close> serializes to a string whose piece-placement field is
  \<open>rnbqkbnr/pppppppp/8/8/8/8/PPPPPPPP/RNBQKBNR\<close>, whose active-colour field is \<open>w\<close>,
  whose castling field is \<open>KQkq\<close> and whose en-passant field is \<open>-\<close>; the six
  fields are separated by single spaces in the order placement, active colour, castling,
  en passant, half-move clock, full-move counter (both counters start at 0).
\<close>

theorem initial_fen:
  "getFENPieces initialState = Some ''rnbqkbnr/pppppppp/8/8/8/8/PPPPPPPP/RNBQKBNR''
   \<and> getFENCastling initialState = ''KQkq''
   \<and> getFEN initialState = Some ''rnbqkbnr/pppppppp/8/8/8/8/PPPPPPPP/RNBQKBNR w KQkq - 0 0''"
  by code_simp

section \<open>Scenario: Fool's Mate\<close>

lemma foolsMate_run: "run initialState foolsMateCalls = foolsMateState"
  by (simp only: foolsMateCalls_def foolsMateState_def evalLogic evalModel cong: evalCong)

lemma foolsMate_noMoves: "playerHasLegalMoves foolsMateState (CHR ''w'') = Some False"
  by (simp only: foolsMateState_def evalLogic evalModel cong: evalCong)

lemma foolsMate_check: "kingIsInCheck foolsMateState (CHR ''w'') = Some True"
  by (simp only: foolsMateState_def evalLogic evalModel cong: evalCong)

text \<open>
  Claim C7. Starting from a fresh \<open>BoardState\<close>, the legal-move executions f2 to f3,
  e7 to e5, g2 to g4, d8 to h4, in that order, leave \<open>isCheckmate()\<close> true,
  \<open>isStalemate()\<close> false and the active colour \<open>w\<close>. All four calls execute: the
  full-move counter, which counts executed moves, stands at 4.
\<close>

theorem foolsMate:
  "isCheckmate (run initialState foolsMateCalls) = Some True
   \<and> isStalemate (run initialState foolsMateCalls) = Some False
   \<and> activeColor (run initialState foolsMateCalls) = CHR ''w''
   \<and> numberOfFullMoves (run initialState foolsMateCalls) = 4"
proof -
  have color: "activeColor foolsMateState = CHR ''w''"
    and count: "numberOfFullMoves foolsMateState = 4"
    by (simp_all add: foolsMateState_def)
  show ?thesis
    unfolding foolsMate_run isCheckmate_def isStalemate_def color count
    by (simp add: foolsMate_noMoves foolsMate_check)
qed

section \<open>Execution is decided by the move sets alone\<close>

text \<open>
  An executed move advances the full-move counter, flips the active colour and is reported
  as executed; it is executed exactly when the destination is in the generated set.
\<close>

lemma pseudo_executed:
  assumes shape: "boardShape (position s)"
    and ms: "getPseudoLegalMoves s fromSquare = Some ms" and t: "toSquare \<in> set ms"
  shows "fst (playPseudoLegalMove s fromSquare toSquare) = Executed
        \<and> snd (playPseudoLegalMove s fromSquare toSquare) \<noteq> s
        \<and> activeColor (snd (playPseudoLegalMove s fromSquare toSquare))
             = (if activeColor s = CHR ''w'' then CHR ''b'' else CHR ''w'')"
proof -
  from play_executes[OF shape ms t] obtain fp tp p2 where
    eq: "playPseudoLegalMove s fromSquare toSquare =
             (Executed,
              (updateKingSquare fp toSquare
                (updateHalfMoves fp tp
                  ((saveTwoSquarePawnMove (pieceStr fp ! 1) fromSquare toSquare
                      (updateCastling fromSquare toSquare (swapColor s)))
                     \<lparr>numberOfFullMoves := numberOfFullMoves s + 1\<rparr>)))
                \<lparr>position := p2\<rparr>)"
    by blast
  have "numberOfFullMoves (snd (playPseudoLegalMove s fromSquare toSquare))
          = numberOfFullMoves s + 1"
    unfolding eq by (simp add: executed_fields)
  then have "snd (playPseudoLegalMove s fromSquare toSquare) \<noteq> s" by auto
  then show ?thesis unfolding eq by (simp add: executed_fields)
qed

lemma pseudo_not_executed:
  assumes "\<not> (\<exists>ms. getPseudoLegalMoves s fromSquare = Some ms \<and> toSquare \<in> set ms)"
  shows "fst (playPseudoLegalMove s fromSquare toSquare) \<noteq> Executed
         \<and> snd (playPseudoLegalMove s fromSquare toSquare) = s"
  using assms
  by (cases "getPseudoLegalMoves s fromSquare")
     (auto simp: playPseudoLegalMove_def moveIsPseudoLegal_def)

lemma legal_not_executed:
  assumes "\<not> (\<exists>ms. getLegalMoves s fromSquare = Some ms \<and> toSquare \<in> set ms)"
  shows "fst (playLegalMove s fromSquare toSquare) \<noteq> Executed
         \<and> snd (playLegalMove s fromSquare toSquare) = s"
  using assms
  by (cases "getLegalMoves s fromSquare")
     (auto simp: playLegalMove_def moveIsLegal_def)

lemma legal_executed:
  assumes shape: "boardShape (position s)"
    and ms: "getLegalMoves s fromSquare = Some ms" and t: "toSquare \<in> set ms"
  shows "fst (playLegalMove s fromSquare toSquare) = Executed
        \<and> snd (playLegalMove s fromSquare toSquare) \<noteq> s
        \<and> activeColor (snd (playLegalMove s fromSquare toSquare))
             = (if activeColor s = CHR ''w'' then CHR ''b'' else CHR ''w'')"
proof -
  from legal_subset_pseudo[OF ms] obtain ps where
    ps: "getPseudoLegalMoves s fromSquare = Some ps" and sub: "set ms \<subseteq> set ps" by blast
  have "playLegalMove s fromSquare toSquare = playPseudoLegalMove s fromSquare toSquare"
    using ms t by (simp add: playLegalMove_def moveIsLegal_def)
  then show ?thesis using pseudo_executed[OF shape ps] sub t by auto
qed

text \<open>
  Claim C4. Move execution never asks whether the moved piece belongs to the active colour.
  On every state (the position being the 8 by 8 array that it is in every state of the
  engine) and for every pair of squares, the legal-execution call executes, and changes the
  state, exactly when the destination is in the legal-move set of the source square; the
  same holds of the pseudo-legal call and the pseudo-legal set. An executed move flips the
  active colour, whatever the colour of the moved piece.
\<close>

theorem execution_ignores_turn:
  assumes "boardShape (position s)"
  shows "(fst (playLegalMove s fromSquare toSquare) = Executed
            \<longleftrightarrow> (\<exists>moves. getLegalMoves s fromSquare = Some moves \<and> toSquare \<in> set moves))
       \<and> (snd (playLegalMove s fromSquare toSquare) \<noteq> s
            \<longleftrightarrow> (\<exists>moves. getLegalMoves s fromSquare = Some moves \<and> toSquare \<in> set moves))
       \<and> (fst (playLegalMove s fromSquare toSquare) = Executed
            \<longrightarrow> activeColor (snd (playLegalMove s fromSquare toSquare))
                   = (if activeColor s = CHR ''w'' then CHR ''b'' else CHR ''w''))
       \<and> (fst (playPseudoLegalMove s fromSquare toSquare) = Executed
            \<longleftrightarrow> (\<exists>moves. getPseudoLegalMoves s fromSquare = Some moves
                          \<and> toSquare \<in> set moves))
       \<and> (snd (playPseudoLegalMove s fromSquare toSquare) \<noteq> s
            \<longleftrightarrow> (\<exists>moves. getPseudoLegalMoves s fromSquare = Some moves
                          \<and> toSquare \<in> set moves))
       \<and> (fst (playPseudoLegalMove s fromSquare toSquare) = Executed
            \<longrightarrow> activeColor (snd (playPseudoLegalMove s fromSquare toSquare))
                   = (if activeColor s = CHR ''w'' then CHR ''b'' else CHR ''w''))"
proof -
  have legal: ?thesis
    if "fst (playLegalMove s fromSquare toSquare) = Executed
            \<longleftrightarrow> (\<exists>moves. getLegalMoves s fromSquare = Some moves \<and> toSquare \<in> set moves)"
      "snd (playLegalMove s fromSquare toSquare) \<noteq> s
            \<longleftrightarrow> (\<exists>moves. getLegalMoves s fromSquare = Some moves \<and> toSquare \<in> set moves)"
      "fst (playLegalMove s fromSquare toSquare) = Executed
            \<longrightarrow> activeColor (snd (playLegalMove s fromSquare toSquare))
                   = (if activeColor s = CHR ''w'' then CHR ''b'' else CHR ''w'')"
  proof (cases "\<exists>ms. getPseudoLegalMoves s fromSquare = Some ms \<and> toSquare \<in> set ms")
    case True
    then obtain ms where "getPseudoLegalMoves s fromSquare = Some ms" "toSquare \<in> set ms"
      by blast
    from pseudo_executed[OF assms this] True that show ?thesis by simp
  next
    case False
    from pseudo_not_executed[OF this] False that show ?thesis by simp
  qed
  show ?thesis
  proof (cases "\<exists>ms. getLegalMoves s fromSquare = Some ms \<and> toSquare \<in> set ms")
    case True
    then obtain ms where "getLegalMoves s fromSquare = Some ms" "toSquare \<in> set ms"
      by blast
    from legal_executed[OF assms this] True show ?thesis by (intro legal) simp_all
  next
    case False
    from legal_not_executed[OF this] False show ?thesis by (intro legal) simp_all
  qed
qed

text \<open>
  From the initial position, with White to move, the legal execution of e7 to e6 executes
  Black's pawn move and makes Black the active colour.
\<close>

theorem execution_ignores_turn_witness:
  "boardShape (position initialState)
   \<and> activeColor initialState = CHR ''w''
   \<and> getPieceOnSquare' initialState ''e7'' = Some (Def BP)
   \<and> getLegalMoves initialState ''e7'' = Some [''e5'', ''e6'']
   \<and> getPseudoLegalMoves initialState ''e7'' = Some [''e5'', ''e6'']
   \<and> fst (playLegalMove initialState ''e7'' ''e6'') = Executed
   \<and> snd (playLegalMove initialState ''e7'' ''e6'') \<noteq> initialState
   \<and> activeColor (snd (playLegalMove initialState ''e7'' ''e6'')) = CHR ''b''
   \<and> fst (playPseudoLegalMove initialState ''e7'' ''e6'') = Executed
   \<and> snd (playPseudoLegalMove initialState ''e7'' ''e6'') \<noteq> initialState
   \<and> activeColor (snd (playPseudoLegalMove initialState ''e7'' ''e6'')) = CHR ''b''"
proof -
  have shape: "boardShape (position initialState)"
    by (simp add: initialState_def boardShape_initial)
  have color: "activeColor initialState = CHR ''w''"
    by (simp add: initialState_def)
  have piece: "getPieceOnSquare' initialState ''e7'' = Some (Def BP)"
    by (simp only: evalLogic evalModel cong: evalCong)
  have legal: "getLegalMoves initialState ''e7'' = Some [''e5'', ''e6'']"
    by (simp only: evalLogic evalModel cong: evalCong)
  have pseudo: "getPseudoLegalMoves initialState ''e7'' = Some [''e5'', ''e6'']"
    by (simp only: evalLogic evalModel cong: evalCong)
  show ?thesis
    using execution_ignores_turn[OF shape, of "''e7''" "''e6''"] shape color piece legal pseudo
    by simp
qed

section \<open>A rejected call changes nothing\<close>

text \<open>
  Claim C6. For every state and every pair of squares whose destination is not in the
  relevant set of the source square (the legal set for legal execution, the pseudo-legal
  set for pseudo-legal execution), the call is rejected and returns the state it was given:
  position, active colour, the four castling rights, the en-passant target, both counters
  and both cached king squares are as before.
\<close>

theorem rejection_is_noop:
  "(getLegalMoves s fromSquare = Some moves \<and> toSquare \<notin> set moves
      \<longrightarrow> playLegalMove s fromSquare toSquare = (Rejected, s))
   \<and> (getPseudoLegalMoves s fromSquare = Some moves' \<and> toSquare \<notin> set moves'
      \<longrightarrow> playPseudoLegalMove s fromSquare toSquare = (Rejected, s))"
  by (simp add: playLegalMove_def playPseudoLegalMove_def moveIsLegal_def moveIsPseudoLegal_def)

text \<open>In the initial position e2 to e5 is neither legal nor pseudo-legal.\<close>

theorem rejection_is_noop_witness:
  "getLegalMoves initialState ''e2'' = Some [''e4'', ''e3''] \<and> ''e5'' \<notin> set [''e4'', ''e3'']
   \<and> getPseudoLegalMoves initialState ''e2'' = Some [''e4'', ''e3'']
   \<and> playLegalMove initialState ''e2'' ''e5'' = (Rejected, initialState)
   \<and> playPseudoLegalMove initialState ''e2'' ''e5'' = (Rejected, initialState)"
proof -
  have legal: "getLegalMoves initialState ''e2'' = Some [''e4'', ''e3'']"
    by (simp only: evalLogic evalModel cong: evalCong)
  have pseudo: "getPseudoLegalMoves initialState ''e2'' = Some [''e4'', ''e3'']"
    by (simp only: evalLogic evalModel cong: evalCong)
  have out: "''e5'' \<notin> set [''e4'', ''e3'']"
    by simp
  show ?thesis
    using rejection_is_noop[of initialState "''e2''" "[''e4'', ''e3'']" "''e5''" "[''e4'', ''e3'']"]
      legal pseudo out
    by simp
qed

section \<open>Castling rights are never restored\<close>

lemma kingWalk_run: "run initialState kingWalkCalls = kingWalkState"
  by (simp only: kingWalkCalls_def kingWalkState_def evalLogic evalModel cong: evalCong)

text \<open>
  Claim C9. Over every sequence of calls of the two move-execution operations from the
  initial state, none of the four castling rights goes from false to true: a right that is
  cleared after a prefix of the calls is cleared after every extension of that prefix.
\<close>

theorem castling_rights_never_restored:
  "(\<not> whiteCastleKingsideAvailable (run initialState pre)
      \<longrightarrow> \<not> whiteCastleKingsideAvailable (run initialState (pre @ post)))
   \<and> (\<not> whiteCastleQueensideAvailable (run initialState pre)
      \<longrightarrow> \<not> whiteCastleQueensideAvailable (run initialState (pre @ post)))
   \<and> (\<not> blackCastleKingsideAvailable (run initialState pre)
      \<longrightarrow> \<not> blackCastleKingsideAvailable (run initialState (pre @ post)))
   \<and> (\<not> blackCastleQueensideAvailable (run initialState pre)
      \<longrightarrow> \<not> blackCastleQueensideAvailable (run initialState (pre @ post)))"
  using run_rights[of "run initialState pre" post]
  by (auto simp: run_append rightsWithin_def)

text \<open>
  After both kings have moved all four rights are cleared, and they stay cleared when the
  kings go back to e1 and e8.
\<close>

theorem castling_rights_never_restored_witness:
  "\<not> whiteCastleKingsideAvailable (run initialState kingWalkCalls)
   \<and> \<not> whiteCastleQueensideAvailable (run initialState kingWalkCalls)
   \<and> \<not> blackCastleKingsideAvailable (run initialState kingWalkCalls)
   \<and> \<not> blackCastleQueensideAvailable (run initialState kingWalkCalls)
   \<and> \<not> whiteCastleKingsideAvailable (run initialState (kingWalkCalls @ kingReturnCalls))
   \<and> \<not> whiteCastleQueensideAvailable (run initialState (kingWalkCalls @ kingReturnCalls))
   \<and> \<not> blackCastleKingsideAvailable (run initialState (kingWalkCalls @ kingReturnCalls))
   \<and> \<not> blackCastleQueensideAvailable (run initialState (kingWalkCalls @ kingReturnCalls))"
  using castling_rights_never_restored[of kingWalkCalls kingReturnCalls]
  by (simp add: kingWalk_run kingWalkState_def)

lemma kingMarch_run: "run initialState kingMarchCalls = kingMarchState"
  by (simp only: kingMarchCalls_def kingMarchState_def evalLogic evalModel cong: evalCong)

lemma kingMarch_step:
  "fst (playLegalMove kingMarchState ''d3'' ''c4'') = Executed"
  by (simp only: kingMarchState_def evalLogic evalModel cong: evalCong)

text \<open>
  Claim C2. Whenever a king move is executed (by either execution call) and its destination
  is on the c-file, the d-file square of the destination's rank receives what the a-file
  square of that rank holds once the king has been moved (the piece that stood there
  before the move, or nothing if the king itself came from that square), the a-file square
  is emptied, and the king stands on the destination. The same holds with the g-file, the
  h-file and the f-file. Nothing in this asks for the move to be a castle.
\<close>

theorem king_move_relocates_rook:
  assumes shape: "boardShape (position s)"
    and exec: "playLegalMove s fromSquare toSquare = (Executed, s')
               \<or> playPseudoLegalMove s fromSquare toSquare = (Executed, s')"
    and king: "getPieceOnSquare' s fromSquare = Some (Def k)" "pieceStr k ! 1 = CHR ''k''"
    and files: "(kingFile, rookFile, newFile) = (CHR ''c'', CHR ''a'', CHR ''d'')
                \<or> (kingFile, rookFile, newFile) = (CHR ''g'', CHR ''h'', CHR ''f'')"
    and dest: "toSquare ! 0 = kingFile"
  shows "getPieceOnSquare' s' [newFile, toSquare ! 1] =
           (if fileFromSquare fromSquare = fileFromSquare [rookFile, toSquare ! 1]
               \<and> rankFromSquare fromSquare = rankFromSquare [rookFile, toSquare ! 1]
            then Some (Def EE)
            else getPieceOnSquare' s [rookFile, toSquare ! 1])
         \<and> getPieceOnSquare' s' [rookFile, toSquare ! 1] = Some (Def EE)
         \<and> getPieceOnSquare' s' toSquare = Some (Def k)"
proof -
  have pseudo: "playPseudoLegalMove s fromSquare toSquare = (Executed, s')"
    using exec executed_legal by blast
  have fl: "fileFromSquare [c, d] = fileFromSquare [c]" for c d
    by (simp add: fileFromSquare_def)
  have dest': "fileFromSquare toSquare = fileFromSquare [kingFile]"
    using dest by (simp add: fileFromSquare_def)
  show ?thesis
    using king_move_rook_squares[OF shape pseudo king files dest]
    unfolding getPieceOnSquare'_def Let_def rankFromSquare_pair fl dest'
    by simp
qed

text \<open>
  The white king has walked to d3 and a black pawn stands on a4. The one-square move of the
  king to c4 is legal and is executed; it carries the black pawn from a4 to d4.
\<close>

theorem king_move_relocates_rook_witness:
  "run initialState kingMarchCalls = kingMarchState
   \<and> boardShape (position kingMarchState)
   \<and> fst (playLegalMove kingMarchState ''d3'' ''c4'') = Executed
   \<and> getPieceOnSquare' kingMarchState ''d3'' = Some (Def WK)
   \<and> getPieceOnSquare' kingMarchState ''a4'' = Some (Def BP)
   \<and> getPieceOnSquare' kingMarchState ''d4'' = Some (Def EE)
   \<and> getPieceOnSquare' (snd (playLegalMove kingMarchState ''d3'' ''c4'')) ''d4'' = Some (Def BP)
   \<and> getPieceOnSquare' (snd (playLegalMove kingMarchState ''d3'' ''c4'')) ''a4'' = Some (Def EE)
   \<and> getPieceOnSquare' (snd (playLegalMove kingMarchState ''d3'' ''c4'')) ''c4'' = Some (Def WK)"
proof -
  have shape: "boardShape (position kingMarchState)"
    by (simp only: kingMarchState_def evalLogic evalModel cong: evalCong)
  have exec: "playLegalMove kingMarchState ''d3'' ''c4''
                = (Executed, snd (playLegalMove kingMarchState ''d3'' ''c4''))"
    using kingMarch_step by (simp add: prod_eq_iff)
  have king: "getPieceOnSquare' kingMarchState ''d3'' = Some (Def WK)"
    and rook: "getPieceOnSquare' kingMarchState ''a4'' = Some (Def BP)"
    and new: "getPieceOnSquare' kingMarchState ''d4'' = Some (Def EE)"
    by (simp_all only: kingMarchState_def evalLogic evalModel cong: evalCong)
  have coords: "fileFromSquare ''d3'' \<noteq> fileFromSquare ''a4''"
    by (simp add: file_table)
  show ?thesis
    using king_move_relocates_rook[OF shape disjI1[OF exec] king, of "CHR ''c''" "CHR ''a''" "CHR ''d''"]
      kingMarch_run kingMarch_step shape king rook new coords
    by simp
qed

section \<open>Reachable states\<close>

lemma run_reachable:
  assumes "reachable s" "list_all validCall calls"
  shows "reachable (run s calls)"
  using assms unfolding run_def
  by (induction calls arbitrary: s) (auto intro: reachable.step)

section \<open>Scenario: a pawn capture next to a pawn of its own side\<close>

lemma pawnTrade_run: "run initialState pawnTradeCalls = pawnTradeState"
  by (simp only: pawnTradeCalls_def pawnTradeState_def evalLogic evalModel cong: evalCong)

lemma pawnTrade_valid: "list_all validCall pawnTradeCalls"
  by (simp add: pawnTradeCalls_def validSquare_def)

text \<open>
  Claim C1 says that the removal of the piece on the destination's file and the source's
  rank happens only when the destination was empty, so that a pawn capture onto an occupied
  square changes the source and the destination only. The code removes that piece on every
  pawn move that changes file. After e2 to e4, d7 to d5, d2 to d4, a7 to a6 the white pawn
  on e4 captures the black pawn on d5, an occupied square; the call is executed and the
  white pawn on d4, a third square, is gone.
\<close>

theorem pawn_capture_empties_neighbour:
  "run initialState pawnTradeCalls = pawnTradeState
   \<and> reachable pawnTradeState
   \<and> getPieceOnSquare' pawnTradeState ''e4'' = Some (Def WP)
   \<and> getPieceOnSquare' pawnTradeState ''d5'' = Some (Def BP)
   \<and> getPieceOnSquare' pawnTradeState ''d4'' = Some (Def WP)
   \<and> fst (playLegalMove pawnTradeState ''e4'' ''d5'') = Executed
   \<and> getPieceOnSquare' (snd (playLegalMove pawnTradeState ''e4'' ''d5'')) ''e4'' = Some (Def EE)
   \<and> getPieceOnSquare' (snd (playLegalMove pawnTradeState ''e4'' ''d5'')) ''d5'' = Some (Def WP)
   \<and> getPieceOnSquare' (snd (playLegalMove pawnTradeState ''e4'' ''d5'')) ''d4'' = Some (Def EE)"
proof -
  have "reachable pawnTradeState"
    using run_reachable[OF reachable.initial pawnTrade_valid] by (simp add: pawnTrade_run)
  moreover have "getPieceOnSquare' pawnTradeState ''e4'' = Some (Def WP)"
    "getPieceOnSquare' pawnTradeState ''d5'' = Some (Def BP)"
    "getPieceOnSquare' pawnTradeState ''d4'' = Some (Def WP)"
    by (simp_all only: pawnTradeState_def evalLogic evalModel cong: evalCong)
  moreover have "fst (playLegalMove pawnTradeState ''e4'' ''d5'') = Executed"
    "getPieceOnSquare' (snd (playLegalMove pawnTradeState ''e4'' ''d5'')) ''e4'' = Some (Def EE)"
    "getPieceOnSquare' (snd (playLegalMove pawnTradeState ''e4'' ''d5'')) ''d5'' = Some (Def WP)"
    "getPieceOnSquare' (snd (playLegalMove pawnTradeState ''e4'' ''d5'')) ''d4'' = Some (Def EE)"
    by (simp_all only: pawnTradeState_def evalLogic evalModel cong: evalCong)
  ultimately show ?thesis using pawnTrade_run by simp
qed

section \<open>Scenario: a pawn on its last rank\<close>

lemma lastRank_run: "run initialState lastRankCalls = lastRankState"
  by (simp only: lastRankCalls_def lastRankState_def evalLogic evalModel cong: evalCong)

lemma lastRank_valid: "list_all validCall lastRankCalls"
  by (simp add: lastRankCalls_def validSquare_def)

text \<open>
  Claim C3 says that in every reachable state pseudo-legal move generation stays inside
  the 8 by 8 position, also for a pawn on its last rank. Nine legal executions bring a
  white pawn to a8. There the attack scan of the pawn generator reads file 1 at rank 8,
  outside the position; the value read is \<open>undefined\<close> and taking its first character
  throws, so the generation for a8 returns nothing. With Black to move, the legal-move generation
  of a piece that has a pseudo-legal move, such as the pawn on h6, then fails too, since it
  runs the generator of every white piece.
\<close>

theorem pawn_on_last_rank_throws:
  "run initialState lastRankCalls = lastRankState
   \<and> reachable lastRankState
   \<and> getPieceOnSquare' lastRankState ''a8'' = Some (Def WP)
   \<and> posAt (position lastRankState) 1 8 = Some Undefined
   \<and> enemyAt (position lastRankState) 1 8 (Def WP) = None
   \<and> getPseudoLegalMoves lastRankState ''a8'' = None
   \<and> getPseudoLegalMoves lastRankState ''h6'' = Some [''h5'']
   \<and> getLegalMoves lastRankState ''h6'' = None"
proof -
  have "reachable lastRankState"
    using run_reachable[OF reachable.initial lastRank_valid] by (simp add: lastRank_run)
  moreover have "getPieceOnSquare' lastRankState ''a8'' = Some (Def WP)"
    "posAt (position lastRankState) 1 8 = Some Undefined"
    "enemyAt (position lastRankState) 1 8 (Def WP) = None"
    "getPseudoLegalMoves lastRankState ''a8'' = None"
    "getPseudoLegalMoves lastRankState ''h6'' = Some [''h5'']"
    "getLegalMoves lastRankState ''h6'' = None"
    by (simp_all only: lastRankState_def evalLogic evalModel cong: evalCong)
  ultimately show ?thesis using lastRank_run by simp
qed

section \<open>Scenario: a pawn capture next to the king of its own side\<close>

lemma kingOnD4_run: "run initialState kingOnD4Calls = kingOnD4State"
  by (simp only: kingOnD4Calls_def kingOnD4State_def evalLogic evalModel cong: evalCong)

lemma kingOnD4_valid: "list_all validCall kingOnD4Calls"
  by (simp add: kingOnD4Calls_def validSquare_def)

text \<open>
  Claim C5 says that in every state reachable through the two execution operations the
  cached king square of each colour holds the king of that colour. Eight legal executions,
  each by the side to move, bring the white king to d4; the cached squares d4 and e8 hold
  the two kings and White is to move. The white pawn on e4 then captures the black pawn on
  d5, a legal move that is executed. The execution also empties the square on the
  destination's file and the source's rank, which is d4: the white king is gone from the
  board, and the cached square of the white king is still d4, now empty.
\<close>

theorem king_square_without_king:
  "run initialState kingOnD4Calls = kingOnD4State
   \<and> reachable kingOnD4State
   \<and> activeColor kingOnD4State = CHR ''w''
   \<and> kingSquaresHoldKings kingOnD4State
   \<and> whiteKingSquare kingOnD4State = ''d4''
   \<and> getPieceOnSquare' kingOnD4State ''e4'' = Some (Def WP)
   \<and> getPieceOnSquare' kingOnD4State ''d5'' = Some (Def BP)
   \<and> fst (playLegalMove kingOnD4State ''e4'' ''d5'') = Executed
   \<and> reachable (snd (playLegalMove kingOnD4State ''e4'' ''d5''))
   \<and> whiteKingSquare (snd (playLegalMove kingOnD4State ''e4'' ''d5'')) = ''d4''
   \<and> getPieceOnSquare' (snd (playLegalMove kingOnD4State ''e4'' ''d5'')) ''d4'' = Some (Def EE)
   \<and> getPieceOnSquare' (snd (playLegalMove kingOnD4State ''e4'' ''d5'')) ''d5'' = Some (Def WP)
   \<and> \<not> kingSquaresHoldKings (snd (playLegalMove kingOnD4State ''e4'' ''d5''))"
proof -
  have before: "reachable kingOnD4State"
    using run_reachable[OF reachable.initial kingOnD4_valid] by (simp add: kingOnD4_run)
  have "validCall (PlayLegal ''e4'' ''d5'')"
    by (simp add: validSquare_def)
  from reachable.step[OF before this]
  have after: "reachable (snd (playLegalMove kingOnD4State ''e4'' ''d5''))"
    by simp
  have "activeColor kingOnD4State = CHR ''w''"
    "kingSquaresHoldKings kingOnD4State"
    "whiteKingSquare kingOnD4State = ''d4''"
    "getPieceOnSquare' kingOnD4State ''e4'' = Some (Def WP)"
    "getPieceOnSquare' kingOnD4State ''d5'' = Some (Def BP)"
    by (simp_all only: kingOnD4State_def kingSquaresHoldKings_def evalLogic evalModel
          cong: evalCong)
  moreover have "fst (playLegalMove kingOnD4State ''e4'' ''d5'') = Executed"
    "whiteKingSquare (snd (playLegalMove kingOnD4State ''e4'' ''d5'')) = ''d4''"
    "getPieceOnSquare' (snd (playLegalMove kingOnD4State ''e4'' ''d5'')) ''d4'' = Some (Def EE)"
    "getPieceOnSquare' (snd (playLegalMove kingOnD4State ''e4'' ''d5'')) ''d5'' = Some (Def WP)"
    "\<not> kingSquaresHoldKings (snd (playLegalMove kingOnD4State ''e4'' ''d5''))"
    by (simp_all only: kingOnD4State_def kingSquaresHoldKings_def evalLogic evalModel
          cong: evalCong)
  ultimately show ?thesis using kingOnD4_run before after by simp
qed

section \<open>The state after an executed move\<close>





section \<open>When a white pawn on e5 may go to d6\<close>



section \<open>Scenario: en passant\<close>





































end
